theory Spec2Isabelle
  imports Complex_Main
begin
section \<open>The CVODES simulation driver of \<^verbatim>\<open>_cvodessim.c\<close>\<close>

text \<open>
  This theory embeds the C model object and the simulation driver of
  \<^verbatim>\<open>myokit_beta/_sim/_cvodessim.c\<close> and proves properties of them.

  Conventions of the embedding.
  \<^item> \<^verbatim>\<open>realtype\<close> and \<^verbatim>\<open>double\<close> are the type \<open>real\<close>: rounding, infinities and NaN
    are not represented. Comparisons, \<^verbatim>\<open>fabs\<close>, \<^verbatim>\<open>fmin\<close> and assignments are exact in both
    worlds. Where C yields an infinity or a NaN (\<^verbatim>\<open>log\<close> of a non-positive number,
    division by zero) the functions \<open>ln\<close> and \<open>/\<close> of HOL yield some real number; no
    theorem below depends on such a value.
  \<^item> C arrays are lists. A read \<open>xs ! i\<close> beyond the length stands for a read beyond the
    allocation, which is undefined in C; a write \<open>xs[i := v]\<close> beyond the length leaves
    the list unchanged.
  \<^item> \<^verbatim>\<open>int\<close> and \<^verbatim>\<open>long\<close> counters are \<open>int\<close>; the one counter whose wrap-around the
    source tests (\<^verbatim>\<open>ilog\<close>) wraps explicitly.
  \<^item> Python objects handed in by the host are values of the type \<open>pyobj\<close>. Distinct
    arguments are distinct objects: the embedding does not represent two arguments
    that are one shared list.
  \<^item> A raised Python exception is a value of the type \<open>error\<close>.
\<close>

subsection \<open>Python objects and exceptions\<close>

datatype pyobj =
    PyFloat real
  | PyLong int
  | PyStr string
  | PyNone
  | PyList "pyobj list"
  | PyTuple "pyobj list"
  | PyInstance string

text \<open>\<open>PyInstance name\<close> is an object of a class whose \<^verbatim>\<open>tp_name\<close> is \<open>name\<close>; the
  driver looks at nothing else of such an object.\<close>

datatype exc_type =
    PyExc_Exception
  | PyExc_TypeError
  | PyExc_ValueError
  | PyExc_ArithmeticError
  | PyExc_OverflowError

datatype fmt_arg = ArgInt int | ArgReal real | ArgStr string

text \<open>Modelled from the spec: the header \<^verbatim>\<open>pacing.h\<close> is not part of the sources. The
  driver compares the flags of the event-based (\<^verbatim>\<open>ESys\<close>) and the time-series (\<^verbatim>\<open>FSys\<close>)
  pacing systems with \<^verbatim>\<open>ESys_OK\<close> and \<^verbatim>\<open>FSys_OK\<close> only.\<close>

datatype ESys_Flag = ESys_OK | ESys_Error int

datatype FSys_Flag = FSys_OK | FSys_Error int

text \<open>
  \<open>PyErr ty msg args\<close> is the exception set by \<^verbatim>\<open>PyErr_SetString\<close> or \<^verbatim>\<open>PyErr_Format\<close>
  with the format string \<open>msg\<close> and its arguments. \<open>ESysErr\<close> and \<open>FSysErr\<close> are the
  exceptions set by \<^verbatim>\<open>ESys_SetPyErr\<close> and \<^verbatim>\<open>FSys_SetPyErr\<close>. \<open>Interrupted\<close> is the exception
  that a signal handler left behind. \<open>Segfault\<close> is the dereference of a \<^verbatim>\<open>NULL\<close> pointer.
  \<open>NoException\<close> is a return of \<^verbatim>\<open>NULL\<close> with no exception set.
\<close>

datatype error =
    PyErr exc_type string "fmt_arg list"
  | ESysErr ESys_Flag
  | FSysErr FSys_Flag
  | Interrupted
  | Segfault
  | NoException

definition PyList_Check :: "pyobj \<Rightarrow> bool" where
  "PyList_Check ob = (case ob of PyList xs \<Rightarrow> True | _ \<Rightarrow> False)"

definition PyFloat_Check :: "pyobj \<Rightarrow> bool" where
  "PyFloat_Check ob = (case ob of PyFloat x \<Rightarrow> True | _ \<Rightarrow> False)"

definition PyFloat_AsDouble :: "pyobj \<Rightarrow> real" where
  "PyFloat_AsDouble ob = (case ob of PyFloat x \<Rightarrow> x | PyLong n \<Rightarrow> real_of_int n | _ \<Rightarrow> - 1)"

text \<open>\<^verbatim>\<open>PyList_GetItem\<close> returns \<^verbatim>\<open>NULL\<close> (here \<open>None\<close>) for an index out of range.\<close>

definition PyList_GetItem :: "pyobj \<Rightarrow> int \<Rightarrow> pyobj option" where
  "PyList_GetItem ob i =
     (case ob of
        PyList xs \<Rightarrow> (if 0 \<le> i \<and> i < int (length xs) then Some (xs ! nat i) else None)
      | _ \<Rightarrow> None)"

text \<open>\<^verbatim>\<open>PyList_SetItem\<close> fails for an index out of range and leaves the list as it is;
  the driver ignores its return value.\<close>

definition PyList_SetItem :: "pyobj \<Rightarrow> int \<Rightarrow> pyobj \<Rightarrow> pyobj" where
  "PyList_SetItem ob i v =
     (case ob of
        PyList xs \<Rightarrow> (if 0 \<le> i \<and> i < int (length xs) then PyList (xs[nat i := v]) else ob)
      | _ \<Rightarrow> ob)"

text \<open>Calling \<^verbatim>\<open>append\<close> on an object: a list grows by one item, any other object of
  this embedding has no such method and the call fails (\<open>None\<close>).\<close>

definition py_append :: "pyobj \<Rightarrow> pyobj \<Rightarrow> pyobj option" where
  "py_append ob v = (case ob of PyList xs \<Rightarrow> Some (PyList (xs @ [v])) | _ \<Rightarrow> None)"

text \<open>\<^verbatim>\<open>PyObject_Size\<close>: the length of a sequence, \<open>-1\<close> for an object without length.\<close>

definition PyObject_Size :: "pyobj \<Rightarrow> int" where
  "PyObject_Size ob =
     (case ob of
        PyList xs \<Rightarrow> int (length xs)
      | PyTuple xs \<Rightarrow> int (length xs)
      | PyStr s \<Rightarrow> int (length s)
      | _ \<Rightarrow> - 1)"

text \<open>A Python dict with string keys, in insertion order.\<close>

type_synonym pydict = "(string \<times> pyobj) list"

definition PyDict_Size :: "pydict \<Rightarrow> int" where
  "PyDict_Size d = int (length d)"

definition PyDict_GetItem :: "pydict \<Rightarrow> string \<Rightarrow> pyobj option" where
  "PyDict_GetItem d k = map_of d k"

fun dict_store :: "pydict \<Rightarrow> string \<Rightarrow> pyobj \<Rightarrow> pydict" where
  "dict_store [] k v = []"
| "dict_store ((k', v') # d) k v =
     (if k' = k then (k', v) # d else (k', v') # dict_store d k v)"

subsection \<open>The model object\<close>

datatype Model_Flag =
    Model_OK
  | Model_OUT_OF_MEMORY
  | Model_INVALID_MODEL
  | Model_LOGGING_ALREADY_INITIALIZED
  | Model_LOGGING_NOT_INITIALIZED
  | Model_UNKNOWN_VARIABLES_IN_LOG
  | Model_LOG_APPEND_FAILED
  | Model_NO_SENSITIVITIES_TO_LOG
  | Model_SENSITIVITY_LOG_APPEND_FAILED
  | Model_INVALID_PACING

fun Model_SetPyErr :: "Model_Flag \<Rightarrow> error" where
  "Model_SetPyErr Model_OK = NoException"
| "Model_SetPyErr Model_OUT_OF_MEMORY =
     PyErr PyExc_Exception ''CModel error: Memory allocation failed.'' []"
| "Model_SetPyErr Model_INVALID_MODEL =
     PyErr PyExc_Exception ''CModel error: Invalid model pointer provided.'' []"
| "Model_SetPyErr Model_LOGGING_ALREADY_INITIALIZED =
     PyErr PyExc_Exception ''CModel error: Logging initialized twice.'' []"
| "Model_SetPyErr Model_LOGGING_NOT_INITIALIZED =
     PyErr PyExc_Exception ''CModel error: Logging not initialized.'' []"
| "Model_SetPyErr Model_UNKNOWN_VARIABLES_IN_LOG =
     PyErr PyExc_Exception
       ''CModel error: Unknown variables found in logging dictionary.'' []"
| "Model_SetPyErr Model_LOG_APPEND_FAILED =
     PyErr PyExc_Exception
       ''CModel error: Call to append() failed on logging list.'' []"
| "Model_SetPyErr Model_NO_SENSITIVITIES_TO_LOG =
     PyErr PyExc_Exception
       ''CModel error: Sensivity logging called, but sensitivity calculations were not enabled.'' []"
| "Model_SetPyErr Model_SENSITIVITY_LOG_APPEND_FAILED =
     PyErr PyExc_Exception
       ''CModel error: Call to append() failed on sensitivity matrix logging list.'' []"
| "Model_SetPyErr Model_INVALID_PACING =
     PyErr PyExc_Exception ''CModel error: Invalid pacing provided.'' []"

text \<open>
  The entries of \<^verbatim>\<open>s_independents\<close> and \<^verbatim>\<open>_log_vars\<close> are pointers into the arrays of the
  model. A pointer is represented by the array it points into and the index.
\<close>

datatype var_ref =
    Ref_state nat
  | Ref_derivative nat
  | Ref_time
  | Ref_pace nat
  | Ref_intermediary nat
  | Ref_parameter nat

record Model =
  is_ode :: int
  has_sensitivities :: int
  pace_values :: "real list"
  n_pace :: int
  time :: real
  realtime :: real
  evaluations :: real
  n_states :: int
  states :: "real list"
  derivatives :: "real list"
  n_intermediary :: int
  intermediary :: "real list"
  n_parameters :: int
  n_parameter_derived :: int
  parameters :: "real list"
  parameter_derived :: "real list"
  n_literals :: int
  n_literal_derived :: int
  literals :: "real list"
  literal_derived :: "real list"
  ns_dependents :: int
  ns_independents :: int
  s_independents :: "var_ref list"
  s_is_parameter :: "int list"
  s_states :: "real list"
  ns_intermediary :: int
  s_intermediary :: "real list"
  logging_initialized :: int
  logging_states :: int
  logging_derivatives :: int
  logging_intermediary :: int
  logging_bound :: int
  n_logged_variables :: int
  list_update_string :: "string option"
  log_lists :: "string list"
  log_vars :: "var_ref list"

text \<open>Dereferencing a pointer to a model variable.\<close>

fun deref :: "Model \<Rightarrow> var_ref \<Rightarrow> real" where
  "deref m (Ref_state i) = states m ! i"
| "deref m (Ref_derivative i) = derivatives m ! i"
| "deref m Ref_time = time m"
| "deref m (Ref_pace i) = pace_values m ! i"
| "deref m (Ref_intermediary i) = intermediary m ! i"
| "deref m (Ref_parameter i) = parameters m ! i"

subsection \<open>Variable aliases\<close>

text \<open>The macros of the source that name the entries of the arrays, as readers.
  An assignment to a macro is written with the index of its entry.\<close>

abbreviation B_time :: "Model \<Rightarrow> real" where
  "B_time m \<equiv> time m"

abbreviation B_pace :: "Model \<Rightarrow> real" where
  "B_pace m \<equiv> pace_values m ! 0"

abbreviation Y_V :: "Model \<Rightarrow> real" where
  "Y_V m \<equiv> states m ! 0"

abbreviation Y_m :: "Model \<Rightarrow> real" where
  "Y_m m \<equiv> states m ! 1"

abbreviation Y_h :: "Model \<Rightarrow> real" where
  "Y_h m \<equiv> states m ! 2"

abbreviation Y_j :: "Model \<Rightarrow> real" where
  "Y_j m \<equiv> states m ! 3"

abbreviation Y_d :: "Model \<Rightarrow> real" where
  "Y_d m \<equiv> states m ! 4"

abbreviation Y_f :: "Model \<Rightarrow> real" where
  "Y_f m \<equiv> states m ! 5"

abbreviation Y_x :: "Model \<Rightarrow> real" where
  "Y_x m \<equiv> states m ! 6"

abbreviation Y_Ca_i :: "Model \<Rightarrow> real" where
  "Y_Ca_i m \<equiv> states m ! 7"

abbreviation D_V :: "Model \<Rightarrow> real" where
  "D_V m \<equiv> derivatives m ! 0"

abbreviation D_m :: "Model \<Rightarrow> real" where
  "D_m m \<equiv> derivatives m ! 1"

abbreviation D_h :: "Model \<Rightarrow> real" where
  "D_h m \<equiv> derivatives m ! 2"

abbreviation D_j :: "Model \<Rightarrow> real" where
  "D_j m \<equiv> derivatives m ! 3"

abbreviation D_d :: "Model \<Rightarrow> real" where
  "D_d m \<equiv> derivatives m ! 4"

abbreviation D_f :: "Model \<Rightarrow> real" where
  "D_f m \<equiv> derivatives m ! 5"

abbreviation D_x :: "Model \<Rightarrow> real" where
  "D_x m \<equiv> derivatives m ! 6"

abbreviation D_Ca_i :: "Model \<Rightarrow> real" where
  "D_Ca_i m \<equiv> derivatives m ! 7"

abbreviation V_i_ion :: "Model \<Rightarrow> real" where
  "V_i_ion m \<equiv> intermediary m ! 0"

abbreviation V_i_stim :: "Model \<Rightarrow> real" where
  "V_i_stim m \<equiv> intermediary m ! 1"

abbreviation V_ik_x_alpha :: "Model \<Rightarrow> real" where
  "V_ik_x_alpha m \<equiv> intermediary m ! 2"

abbreviation V_ik_x_beta :: "Model \<Rightarrow> real" where
  "V_ik_x_beta m \<equiv> intermediary m ! 3"

abbreviation V_xi :: "Model \<Rightarrow> real" where
  "V_xi m \<equiv> intermediary m ! 4"

abbreviation V_IK :: "Model \<Rightarrow> real" where
  "V_IK m \<equiv> intermediary m ! 5"

abbreviation V_a :: "Model \<Rightarrow> real" where
  "V_a m \<equiv> intermediary m ! 6"

abbreviation V_ina_m_alpha :: "Model \<Rightarrow> real" where
  "V_ina_m_alpha m \<equiv> intermediary m ! 7"

abbreviation V_ina_m_beta :: "Model \<Rightarrow> real" where
  "V_ina_m_beta m \<equiv> intermediary m ! 8"

abbreviation V_ina_h_alpha :: "Model \<Rightarrow> real" where
  "V_ina_h_alpha m \<equiv> intermediary m ! 9"

abbreviation V_ina_h_beta :: "Model \<Rightarrow> real" where
  "V_ina_h_beta m \<equiv> intermediary m ! 10"

abbreviation V_ina_j_alpha :: "Model \<Rightarrow> real" where
  "V_ina_j_alpha m \<equiv> intermediary m ! 11"

abbreviation V_ina_j_beta :: "Model \<Rightarrow> real" where
  "V_ina_j_beta m \<equiv> intermediary m ! 12"

abbreviation V_INa :: "Model \<Rightarrow> real" where
  "V_INa m \<equiv> intermediary m ! 13"

abbreviation V_Kp :: "Model \<Rightarrow> real" where
  "V_Kp m \<equiv> intermediary m ! 14"

abbreviation V_IKp :: "Model \<Rightarrow> real" where
  "V_IKp m \<equiv> intermediary m ! 15"

abbreviation V_ica_E :: "Model \<Rightarrow> real" where
  "V_ica_E m \<equiv> intermediary m ! 16"

abbreviation V_ica_d_alpha :: "Model \<Rightarrow> real" where
  "V_ica_d_alpha m \<equiv> intermediary m ! 17"

abbreviation V_ica_d_beta :: "Model \<Rightarrow> real" where
  "V_ica_d_beta m \<equiv> intermediary m ! 18"

abbreviation V_ica_f_alpha :: "Model \<Rightarrow> real" where
  "V_ica_f_alpha m \<equiv> intermediary m ! 19"

abbreviation V_ica_f_beta :: "Model \<Rightarrow> real" where
  "V_ica_f_beta m \<equiv> intermediary m ! 20"

abbreviation V_ICa :: "Model \<Rightarrow> real" where
  "V_ICa m \<equiv> intermediary m ! 21"

abbreviation V_g :: "Model \<Rightarrow> real" where
  "V_g m \<equiv> intermediary m ! 22"

abbreviation V_ik1_g_alpha :: "Model \<Rightarrow> real" where
  "V_ik1_g_alpha m \<equiv> intermediary m ! 23"

abbreviation V_ik1_g_beta :: "Model \<Rightarrow> real" where
  "V_ik1_g_beta m \<equiv> intermediary m ! 24"

abbreviation V_IK1 :: "Model \<Rightarrow> real" where
  "V_IK1 m \<equiv> intermediary m ! 25"

abbreviation V_Ib :: "Model \<Rightarrow> real" where
  "V_Ib m \<equiv> intermediary m ! 26"

abbreviation C_Ca_o :: "Model \<Rightarrow> real" where
  "C_Ca_o m \<equiv> literals m ! 0"

abbreviation C_K_i :: "Model \<Rightarrow> real" where
  "C_K_i m \<equiv> literals m ! 1"

abbreviation C_K_o :: "Model \<Rightarrow> real" where
  "C_K_o m \<equiv> literals m ! 2"

abbreviation C_Na_i :: "Model \<Rightarrow> real" where
  "C_Na_i m \<equiv> literals m ! 3"

abbreviation C_Na_o :: "Model \<Rightarrow> real" where
  "C_Na_o m \<equiv> literals m ! 4"

abbreviation C_F :: "Model \<Rightarrow> real" where
  "C_F m \<equiv> literals m ! 5"

abbreviation C_R :: "Model \<Rightarrow> real" where
  "C_R m \<equiv> literals m ! 6"

abbreviation C_T :: "Model \<Rightarrow> real" where
  "C_T m \<equiv> literals m ! 7"

abbreviation C_Eb :: "Model \<Rightarrow> real" where
  "C_Eb m \<equiv> literals m ! 8"

abbreviation C_gb :: "Model \<Rightarrow> real" where
  "C_gb m \<equiv> literals m ! 9"

abbreviation C_gCa :: "Model \<Rightarrow> real" where
  "C_gCa m \<equiv> literals m ! 10"

abbreviation C_PNa_K :: "Model \<Rightarrow> real" where
  "C_PNa_K m \<equiv> literals m ! 11"

abbreviation C_gNa :: "Model \<Rightarrow> real" where
  "C_gNa m \<equiv> literals m ! 12"

abbreviation C_gKp :: "Model \<Rightarrow> real" where
  "C_gKp m \<equiv> literals m ! 13"

abbreviation C_C :: "Model \<Rightarrow> real" where
  "C_C m \<equiv> literals m ! 14"

abbreviation C_i_diff :: "Model \<Rightarrow> real" where
  "C_i_diff m \<equiv> literals m ! 15"

abbreviation C_stim_amplitude :: "Model \<Rightarrow> real" where
  "C_stim_amplitude m \<equiv> literals m ! 16"

abbreviation C_RTF :: "Model \<Rightarrow> real" where
  "C_RTF m \<equiv> literal_derived m ! 0"

abbreviation C_gK :: "Model \<Rightarrow> real" where
  "C_gK m \<equiv> literal_derived m ! 1"

abbreviation C_ik_IK_E :: "Model \<Rightarrow> real" where
  "C_ik_IK_E m \<equiv> literal_derived m ! 2"

abbreviation C_ik1_E :: "Model \<Rightarrow> real" where
  "C_ik1_E m \<equiv> literal_derived m ! 3"

abbreviation C_gK1 :: "Model \<Rightarrow> real" where
  "C_gK1 m \<equiv> literal_derived m ! 4"

abbreviation C_ENa :: "Model \<Rightarrow> real" where
  "C_ENa m \<equiv> literal_derived m ! 5"

definition assign_V :: "nat \<Rightarrow> (Model \<Rightarrow> real) \<Rightarrow> Model \<Rightarrow> Model" where
  "assign_V i e m = m\<lparr>intermediary := (intermediary m)[i := e m]\<rparr>"

definition assign_D :: "nat \<Rightarrow> (Model \<Rightarrow> real) \<Rightarrow> Model \<Rightarrow> Model" where
  "assign_D i e m = m\<lparr>derivatives := (derivatives m)[i := e m]\<rparr>"

definition assign_LD :: "nat \<Rightarrow> (Model \<Rightarrow> real) \<Rightarrow> Model \<Rightarrow> Model" where
  "assign_LD i e m = m\<lparr>literal_derived := (literal_derived m)[i := e m]\<rparr>"

definition assign_C :: "nat \<Rightarrow> real \<Rightarrow> Model \<Rightarrow> Model" where
  "assign_C i v m = m\<lparr>literals := (literals m)[i := v]\<rparr>"

definition assign_Y :: "nat \<Rightarrow> real \<Rightarrow> Model \<Rightarrow> Model" where
  "assign_Y i v m = m\<lparr>states := (states m)[i := v]\<rparr>"

text \<open>A block of assignments runs them in order.\<close>

definition block :: "('s \<Rightarrow> 's) list \<Rightarrow> 's \<Rightarrow> 's" where
  "block stmts s = fold (\<lambda>stmt. stmt) stmts s"

text \<open>The loop \<^verbatim>\<open>for (i = 0; i < n; i++) dst[i] = src[i]\<close>.\<close>

definition array_copy :: "int \<Rightarrow> 'a list \<Rightarrow> 'a list \<Rightarrow> 'a list" where
  "array_copy n src dst = fold (\<lambda>i d. d[i := src ! i]) [0..<nat n] dst"

subsection \<open>Evaluators and setters of the model\<close>

definition Model_SetupPacing :: "Model \<Rightarrow> int \<Rightarrow> Model_Flag \<times> Model" where
  "Model_SetupPacing m n =
     (if n < 0 then (Model_INVALID_PACING, m)
      else (Model_OK, m\<lparr>n_pace := n, pace_values := replicate (nat n) 0\<rparr>))"

definition Model_EvaluateLiteralDerivedVariables :: "Model \<Rightarrow> Model" where
  "Model_EvaluateLiteralDerivedVariables =
     block [
       assign_LD 0 (\<lambda>m. C_R m * C_T m / C_F m),
       assign_LD 1 (\<lambda>m. 0.282 * sqrt (C_K_o m / 5.4)),
       assign_LD 2 (\<lambda>m. C_RTF m * ln ((C_K_o m + C_PNa_K m * C_Na_o m) / (C_K_i m +
            C_PNa_K m * C_Na_i m))),
       assign_LD 3 (\<lambda>m. C_RTF m * ln (C_K_o m / C_K_i m)),
       assign_LD 4 (\<lambda>m. 0.6047 * sqrt (C_K_o m / 5.4)),
       assign_LD 5 (\<lambda>m. C_RTF m * ln (C_Na_o m / C_Na_i m))]"

definition Model_EvaluateParameterDerivedVariables :: "Model \<Rightarrow> Model" where
  "Model_EvaluateParameterDerivedVariables m = m"

definition Model_SetParameters :: "Model \<Rightarrow> real list \<Rightarrow> Model" where
  "Model_SetParameters m ps =
     (if 0 < n_parameters m
      then Model_EvaluateParameterDerivedVariables
             (m\<lparr>parameters := array_copy (n_parameters m) ps (parameters m)\<rparr>)
      else m)"

text \<open>The loop of \<^verbatim>\<open>Model_SetParametersFromIndependents\<close>: \<open>j\<close> counts the parameters
  met so far.\<close>

definition copy_parameters :: "Model \<Rightarrow> real list \<Rightarrow> real list" where
  "copy_parameters m independents =
     snd (fold (\<lambda>i (j, ps).
                  if s_is_parameter m ! i \<noteq> 0 then (j + 1, ps[j := independents ! i])
                  else (j, ps))
            [0..<nat (ns_independents m)] (0, parameters m))"

definition Model_SetParametersFromIndependents :: "Model \<Rightarrow> real list \<Rightarrow> Model" where
  "Model_SetParametersFromIndependents m independents =
     (if 0 < n_parameters m
      then Model_EvaluateParameterDerivedVariables
             (m\<lparr>parameters := copy_parameters m independents\<rparr>)
      else m)"

definition Model_SetBoundVariables :: "Model \<Rightarrow> real \<Rightarrow> real list \<Rightarrow> real \<Rightarrow> real \<Rightarrow> Model" where
  "Model_SetBoundVariables m t ps rt ev =
     m\<lparr>time := t,
       pace_values := array_copy (n_pace m) ps (pace_values m),
       realtime := rt,
       evaluations := ev\<rparr>"

definition Model_SetStates :: "Model \<Rightarrow> real list \<Rightarrow> Model" where
  "Model_SetStates m ys =
     (if 0 < n_states m then m\<lparr>states := array_copy (n_states m) ys (states m)\<rparr> else m)"

definition Model_EvaluateDerivatives :: "Model \<Rightarrow> Model" where
  "Model_EvaluateDerivatives =
     block [
       assign_V 26 (\<lambda>m. C_gb m * (Y_V m - C_Eb m)),
       assign_V 16 (\<lambda>m. 7.7 - 13.0287 * ln (Y_Ca_i m / C_Ca_o m)),
       assign_V 17 (\<lambda>m. 0.095 * exp ((- 0.01) * (Y_V m - 5.0)) / (1.0 + exp ((-
            0.072) * (Y_V m - 5.0)))),
       assign_V 18 (\<lambda>m. 0.07 * exp ((- 0.017) * (Y_V m + 44.0)) / (1.0 + exp (0.05
            * (Y_V m + 44.0)))),
       assign_D 4 (\<lambda>m. V_ica_d_alpha m * (1.0 - Y_d m) - V_ica_d_beta m * Y_d m),
       assign_V 19 (\<lambda>m. 0.012 * exp ((- 0.008) * (Y_V m + 28.0)) / (1.0 + exp (0.15
            * (Y_V m + 28.0)))),
       assign_V 20 (\<lambda>m. 0.0065 * exp ((- 0.02) * (Y_V m + 30.0)) / (1.0 + exp ((-
            0.2) * (Y_V m + 30.0)))),
       assign_D 5 (\<lambda>m. V_ica_f_alpha m * (1.0 - Y_f m) - V_ica_f_beta m * Y_f m),
       assign_V 21 (\<lambda>m. C_gCa m * Y_d m * Y_f m * (Y_V m - V_ica_E m)),
       assign_D 7 (\<lambda>m. (- 0.0001) * V_ICa m + 0.07 * (0.0001 - Y_Ca_i m)),
       assign_V 4 (\<lambda>m. (if Y_V m < (- 100.0) then 1.0
          else if Y_V m = (-
            77.0) then 2.837 * 0.04 / exp (0.04 * (Y_V m + 35.0))
          else 2.837 *
            (exp (0.04 * (Y_V m + 77.0)) - 1.0)
                 / ((Y_V m + 77.0) * exp
            (0.04 * (Y_V m + 35.0))))),
       assign_V 2 (\<lambda>m. 0.0005 * exp (0.083 * (Y_V m + 50.0)) / (1.0 + exp (0.057 *
            (Y_V m + 50.0)))),
       assign_V 3 (\<lambda>m. 0.0013 * exp ((- 0.06) * (Y_V m + 20.0)) / (1.0 + exp ((-
            0.04) * (Y_V m + 20.0)))),
       assign_D 6 (\<lambda>m. V_ik_x_alpha m * (1.0 - Y_x m) - V_ik_x_beta m * Y_x m),
       assign_V 5 (\<lambda>m. C_gK m * V_xi m * Y_x m * (Y_V m - C_ik_IK_E m)),
       assign_V 23 (\<lambda>m. 1.02 / (1.0 + exp (0.2385 * (Y_V m - C_ik1_E m - 59.215)))),
       assign_V 24 (\<lambda>m. (0.49124 * exp (0.08032 * (Y_V m - C_ik1_E m + 5.476)) +
            1.0 * exp (0.06175 * (Y_V m - C_ik1_E m - 594.31))) / (1.0 + exp ((- 0.5143) *
            (Y_V m - C_ik1_E m + 4.753)))),
       assign_V 22 (\<lambda>m. V_ik1_g_alpha m / (V_ik1_g_alpha m + V_ik1_g_beta m)),
       assign_V 25 (\<lambda>m. C_gK1 m * V_g m * (Y_V m - C_ik1_E m)),
       assign_V 6 (\<lambda>m. 1.0 - 1.0 / (1.0 + exp ((- (Y_V m + 40.0)) / 0.24))),
       assign_V 7 (\<lambda>m. 0.32 * (Y_V m + 47.13) / (1.0 - exp ((- 0.1) * (Y_V m + 47.13)))),
       assign_V 8 (\<lambda>m. 0.08 * exp ((- Y_V m) / 11.0)),
       assign_D 1 (\<lambda>m. V_ina_m_alpha m * (1.0 - Y_m m) - V_ina_m_beta m * Y_m m),
       assign_V 13 (\<lambda>m. C_gNa m * Y_m m ^ 3 * Y_h m * Y_j m * (Y_V m - C_ENa m)),
       assign_V 9 (\<lambda>m. V_a m * 0.135 * exp ((80.0 + Y_V m) / (- 6.8))),
       assign_V 10 (\<lambda>m. V_a m * (3.56 * exp (0.079 * Y_V m) + 310000.0 * exp (0.35
            * Y_V m)) + (1.0 - V_a m) / (0.13 * (1.0 + exp ((Y_V m + 10.66) / (- 11.1))))),
       assign_D 2 (\<lambda>m. V_ina_h_alpha m * (1.0 - Y_h m) - V_ina_h_beta m * Y_h m),
       assign_V 11 (\<lambda>m. V_a m * ((- 127140.0) * exp (0.2444 * Y_V m) - 0.00003474 *
            exp ((- 0.04391) * Y_V m)) * (Y_V m + 37.78) / (1.0 + exp (0.311 * (Y_V m +
            79.23)))),
       assign_V 12 (\<lambda>m. V_a m * (0.1212 * exp ((- 0.01052) * Y_V m) / (1.0 + exp
            ((- 0.1378) * (Y_V m + 40.14)))) + (1.0 - V_a m) * (0.3 * exp ((- 0.0000002535)
            * Y_V m) / (1.0 + exp ((- 0.1) * (Y_V m + 32.0))))),
       assign_D 3 (\<lambda>m. V_ina_j_alpha m * (1.0 - Y_j m) - V_ina_j_beta m * Y_j m),
       assign_V 14 (\<lambda>m. 1.0 / (1.0 + exp ((7.488 - Y_V m) / 5.98))),
       assign_V 15 (\<lambda>m. C_gKp m * V_Kp m * (Y_V m - C_ik1_E m)),
       assign_V 0 (\<lambda>m. V_INa m + V_IK m + V_Ib m + V_IKp m + V_IK1 m + V_ICa m),
       assign_V 1 (\<lambda>m. B_pace m * C_stim_amplitude m),
       assign_D 0 (\<lambda>m. (- (1.0 / C_C m)) * (V_i_ion m + C_i_diff m + V_i_stim m))]"

definition Model_SetStateSensitivities :: "Model \<Rightarrow> int \<Rightarrow> real list \<Rightarrow> Model" where
  "Model_SetStateSensitivities m i ss =
     (if 0 < n_states m
      then m\<lparr>s_states := fold (\<lambda>j d. d[nat (i * n_states m) + j := ss ! j])
                            [0..<nat (n_states m)] (s_states m)\<rparr>
      else m)"

definition Model_EvaluateSensitivityOutputs :: "Model \<Rightarrow> Model" where
  "Model_EvaluateSensitivityOutputs m = m"

subsection \<open>Logging\<close>

text \<open>
  \<^verbatim>\<open>_log_lists[i]\<close> is a borrowed pointer to a value of the log dict. It is represented by
  the key of that value, and the functions that append take the dict and return it.
  The arrays \<^verbatim>\<open>_log_lists\<close> and \<^verbatim>\<open>_log_vars\<close> are allocated with one entry for each key;
  the entries not yet written hold \<open>[]\<close> and \<open>Ref_time\<close>.
\<close>

definition Model__AddVariableToLog ::
  "Model \<Rightarrow> pydict \<Rightarrow> int \<Rightarrow> string \<Rightarrow> var_ref \<Rightarrow> Model \<times> int" where
  "Model__AddVariableToLog m d i name variable =
     (case PyDict_GetItem d name of
        None \<Rightarrow> (m, 0)
      | Some val \<Rightarrow>
          (m\<lparr>log_lists := (log_lists m)[nat i := name],
              log_vars := (log_vars m)[nat i := variable]\<rparr>, 1))"

text \<open>A run of statements \<^verbatim>\<open>i += Model__AddVariableToLog(model, log_dict, i, name, &var)\<close>.\<close>

definition add_variables :: "pydict \<Rightarrow> (string \<times> var_ref) list \<Rightarrow> Model \<times> int \<Rightarrow> Model \<times> int" where
  "add_variables d tab mi =
     fold (\<lambda>(name, variable) (m, i).
             case Model__AddVariableToLog m d i name variable of (m', k) \<Rightarrow> (m', i + k))
       tab mi"

definition state_names :: "(string \<times> var_ref) list" where
  "state_names =
    [(''membrane.V'', Ref_state 0), (''ina.m'', Ref_state 1), (''ina.h'', Ref_state 2),
     (''ina.j'', Ref_state 3), (''ica.d'', Ref_state 4), (''ica.f'', Ref_state 5),
     (''ik.x'', Ref_state 6), (''ica.Ca_i'', Ref_state 7)]"

definition derivative_names :: "(string \<times> var_ref) list" where
  "derivative_names =
    [(''dot(membrane.V)'', Ref_derivative 0), (''dot(ina.m)'', Ref_derivative 1),
     (''dot(ina.h)'', Ref_derivative 2), (''dot(ina.j)'', Ref_derivative 3),
     (''dot(ica.d)'', Ref_derivative 4), (''dot(ica.f)'', Ref_derivative 5),
     (''dot(ik.x)'', Ref_derivative 6), (''dot(ica.Ca_i)'', Ref_derivative 7)]"

definition bound_names :: "(string \<times> var_ref) list" where
  "bound_names =
    [(''engine.time'', Ref_time), (''engine.pace'', Ref_pace 0)]"

definition intermediary_names :: "(string \<times> var_ref) list" where
  "intermediary_names =
    [(''membrane.i_ion'', Ref_intermediary 0), (''membrane.i_stim'', Ref_intermediary 1),
     (''ik.x.alpha'', Ref_intermediary 2), (''ik.x.beta'', Ref_intermediary 3),
     (''ik.xi'', Ref_intermediary 4), (''ik.IK'', Ref_intermediary 5),
     (''ina.a'', Ref_intermediary 6), (''ina.m.alpha'', Ref_intermediary 7),
     (''ina.m.beta'', Ref_intermediary 8), (''ina.h.alpha'', Ref_intermediary 9),
     (''ina.h.beta'', Ref_intermediary 10), (''ina.j.alpha'', Ref_intermediary 11),
     (''ina.j.beta'', Ref_intermediary 12), (''ina.INa'', Ref_intermediary 13),
     (''ikp.Kp'', Ref_intermediary 14), (''ikp.IKp'', Ref_intermediary 15),
     (''ica.E'', Ref_intermediary 16), (''ica.d.alpha'', Ref_intermediary 17),
     (''ica.d.beta'', Ref_intermediary 18), (''ica.f.alpha'', Ref_intermediary 19),
     (''ica.f.beta'', Ref_intermediary 20), (''ica.ICa'', Ref_intermediary 21),
     (''ik1.g'', Ref_intermediary 22), (''ik1.g.alpha'', Ref_intermediary 23),
     (''ik1.g.beta'', Ref_intermediary 24), (''ik1.IK1'', Ref_intermediary 25),
     (''ib.Ib'', Ref_intermediary 26)]"

definition of_bool_int :: "bool \<Rightarrow> int" where
  "of_bool_int b = (if b then 1 else 0)"

definition Model_InitializeLogging :: "Model \<Rightarrow> pydict \<Rightarrow> Model_Flag \<times> Model" where
  "Model_InitializeLogging m0 d =
     (if logging_initialized m0 \<noteq> 0 then (Model_LOGGING_ALREADY_INITIALIZED, m0)
      else
        let m = m0\<lparr>n_logged_variables := PyDict_Size d\<rparr>;
            m = m\<lparr>log_lists := replicate (nat (n_logged_variables m)) [],
                  log_vars := replicate (nat (n_logged_variables m)) Ref_time\<rparr>;
            (m, i) = add_variables d state_names (m, 0);
            m = m\<lparr>logging_states := of_bool_int (i > 0)\<rparr>;
            j = i;
            (m, i) = add_variables d derivative_names (m, i);
            m = m\<lparr>logging_derivatives := of_bool_int (i \<noteq> j)\<rparr>;
            j = i;
            (m, i) = add_variables d bound_names (m, i);
            m = m\<lparr>logging_bound := of_bool_int (i \<noteq> j)\<rparr>;
            j = i;
            (m, i) = add_variables d intermediary_names (m, i);
            m = m\<lparr>logging_intermediary := of_bool_int (i \<noteq> j)\<rparr>
        in if i \<noteq> n_logged_variables m then (Model_UNKNOWN_VARIABLES_IN_LOG, m)
           else
             let m = (if list_update_string m = None
                      then m\<lparr>list_update_string := Some ''append''\<rparr> else m)
             in (Model_OK, m\<lparr>logging_initialized := 1\<rparr>))"

definition Model_DeInitializeLogging :: "Model \<Rightarrow> Model_Flag \<times> Model" where
  "Model_DeInitializeLogging m =
     (if logging_initialized m = 0 then (Model_LOGGING_NOT_INITIALIZED, m)
      else (Model_OK,
            m\<lparr>log_vars := [], log_lists := [], logging_initialized := 0,
              n_logged_variables := 0, logging_states := 0, logging_derivatives := 0,
              logging_intermediary := 0, logging_bound := 0\<rparr>))"

text \<open>One pass of the loop of \<^verbatim>\<open>Model_Log\<close>: the value of the \<open>i\<close>-th variable is appended
  to the \<open>i\<close>-th sink; a failed call returns at once.\<close>

definition append_to_sink :: "pydict \<Rightarrow> string \<Rightarrow> pyobj \<Rightarrow> pydict option" where
  "append_to_sink d k v =
     (case PyDict_GetItem d k of
        None \<Rightarrow> None
      | Some sink \<Rightarrow>
          (case py_append sink v of
             None \<Rightarrow> None
           | Some sink' \<Rightarrow> Some (dict_store d k sink')))"

fun Model_Log_loop :: "Model \<Rightarrow> nat list \<Rightarrow> pydict \<Rightarrow> Model_Flag \<times> pydict" where
  "Model_Log_loop m [] d = (Model_OK, d)"
| "Model_Log_loop m (i # rest) d =
     (case append_to_sink d (log_lists m ! i) (PyFloat (deref m (log_vars m ! i))) of
        None \<Rightarrow> (Model_LOG_APPEND_FAILED, d)
      | Some d' \<Rightarrow> Model_Log_loop m rest d')"

definition Model_Log :: "Model \<Rightarrow> pydict \<Rightarrow> Model_Flag \<times> pydict" where
  "Model_Log m d =
     (if logging_initialized m = 0 then (Model_LOGGING_NOT_INITIALIZED, d)
      else Model_Log_loop m [0..<nat (n_logged_variables m)] d)"

text \<open>The template of this model fills no entry of the matrix: the outer tuple has
  \<^verbatim>\<open>ns_dependents\<close> unset entries (here \<open>PyNone\<close>). \<^verbatim>\<open>PyTuple_New\<close> fails for a negative
  size.\<close>

definition Model_LogSensitivityMatrix :: "Model \<Rightarrow> pyobj \<Rightarrow> Model_Flag \<times> pyobj" where
  "Model_LogSensitivityMatrix m lst =
     (if ns_dependents m < 0 then (Model_OUT_OF_MEMORY, lst)
      else
        (case py_append lst (PyTuple (replicate (nat (ns_dependents m)) PyNone)) of
           None \<Rightarrow> (Model_SENSITIVITY_LOG_APPEND_FAILED, lst)
         | Some lst' \<Rightarrow> (Model_OK, lst')))"

subsection \<open>Creating a model\<close>

text \<open>
  \<open>Model_Create ok junk\<close>: \<open>ok\<close> tells whether the allocation of the struct succeeds, and
  \<open>junk\<close> gives the indeterminate contents of freshly allocated arrays. On failure the
  result is \<^verbatim>\<open>NULL\<close> (\<open>None\<close>) with the flag \<^verbatim>\<open>Model_OUT_OF_MEMORY\<close>.
\<close>

definition fresh_array :: "(nat \<Rightarrow> 'a) \<Rightarrow> int \<Rightarrow> 'a list" where
  "fresh_array junk n = map junk [0..<nat n]"

definition Model_Create :: "bool \<Rightarrow> (nat \<Rightarrow> real) \<Rightarrow> Model_Flag \<times> Model option" where
  "Model_Create ok junk =
     (if \<not> ok then (Model_OUT_OF_MEMORY, None)
      else
        let m = \<lparr>is_ode = 1, has_sensitivities = 0,
                 pace_values = [], n_pace = 0,
                 time = 0, realtime = 0, evaluations = 0,
                 n_states = 8,
                 states = fresh_array junk 8,
                 derivatives = fresh_array junk 8,
                 n_intermediary = 27,
                 intermediary = fresh_array junk 27,
                 n_parameters = 0, n_parameter_derived = 0,
                 parameters = fresh_array junk 0,
                 parameter_derived = fresh_array junk 0,
                 n_literals = 17, n_literal_derived = 6,
                 literals = fresh_array junk 17,
                 literal_derived = fresh_array junk 6,
                 ns_dependents = 0, ns_independents = 0,
                 s_independents = [], s_is_parameter = [],
                 s_states = fresh_array junk (8 * 0),
                 ns_intermediary = 0,
                 s_intermediary = fresh_array junk 0,
                 logging_initialized = 0,
                 logging_states = 0, logging_derivatives = 0,
                 logging_intermediary = 0, logging_bound = 0,
                 n_logged_variables = 0,
                 list_update_string = None,
                 log_lists = [], log_vars = []\<rparr>;
            m = block [
                  assign_C 0 1.8,
                  assign_C 1 145.0,
                  assign_C 2 5.4,
                  assign_C 3 10.0,
                  assign_C 4 140.0,
                  assign_C 5 96500.0,
                  assign_C 6 8314.0,
                  assign_C 7 310.0,
                  assign_C 8 (- 59.87),
                  assign_C 9 0.03921,
                  assign_C 10 0.09,
                  assign_C 11 0.01833,
                  assign_C 12 16.0,
                  assign_C 13 0.0183,
                  assign_C 14 1.0,
                  assign_C 15 0.0,
                  assign_C 16 (- 80.0)] m;
            m = Model_EvaluateLiteralDerivedVariables m;
            m = Model_EvaluateParameterDerivedVariables m;
            m = block [
                  assign_Y 0 (- 84.5286),
                  assign_Y 1 0.0017,
                  assign_Y 2 0.9832,
                  assign_Y 3 0.995484,
                  assign_Y 4 0.000003,
                  assign_Y 5 1.0,
                  assign_Y 6 0.0057,
                  assign_Y 7 0.0002] m
        in (Model_OK, Some m))"

subsection \<open>External collaborators of the driver\<close>

text \<open>
  The CVODES integrator, the pacing systems of \<^verbatim>\<open>pacing.h\<close>, the allocator and the Python
  interpreter are not part of the sources. Their state is a value of a type \<open>'w\<close>, and
  each of their functions that the driver calls is a field of the record \<open>extern\<close>. The
  theorems below hold for every choice of these functions unless a hypothesis says
  otherwise.

  \<^item> \<open>CVode w tout y t\<close> returns the flag, the new \<^verbatim>\<open>y\<close>, the new \<^verbatim>\<open>t\<close> and the points
    \<open>(t, y)\<close> at which the integrator called the right-hand side during the step.
  \<^item> \<open>CVodeGetDky\<close>, \<open>CVodeGetSensDky\<close>, \<open>CVodeGetSens\<close> and \<open>CVodeGetRootInfo\<close> return the
    flag and the contents of the vector they fill.
  \<^item> Pacing systems are addressed by their index in \<^verbatim>\<open>pacing_systems\<close>.
  \<^item> \<open>lib_alloc w name\<close> is a call of an allocating function (\<open>False\<close>: it returned
    \<^verbatim>\<open>NULL\<close>), \<open>lib_call w name\<close> a call of a library function that returns a flag.
  \<^item> \<open>fresh_memory\<close> gives the indeterminate contents of new arrays.
\<close>

datatype PSysType = EVENT | FIXED

record 'w extern =
  CVode :: "'w \<Rightarrow> real \<Rightarrow> real list \<Rightarrow> real
             \<Rightarrow> (int \<times> real list \<times> real \<times> (real \<times> real list) list) \<times> 'w"
  CVodeGetDky :: "'w \<Rightarrow> real \<Rightarrow> real list \<Rightarrow> int \<times> real list"
  CVodeGetSensDky :: "'w \<Rightarrow> real \<Rightarrow> real list list \<Rightarrow> int \<times> real list list"
  CVodeGetSens :: "'w \<Rightarrow> real \<Rightarrow> real list list \<Rightarrow> int \<times> real \<times> real list list"
  CVodeGetRootInfo :: "'w \<Rightarrow> int \<times> int"
  CVodeReInit :: "'w \<Rightarrow> real \<Rightarrow> real list \<Rightarrow> int \<times> 'w"
  CVodeSensReInit :: "'w \<Rightarrow> real list list \<Rightarrow> int \<times> 'w"
  ESys_Create :: "'w \<Rightarrow> nat \<Rightarrow> ESys_Flag \<times> 'w"
  ESys_Populate :: "'w \<Rightarrow> nat \<Rightarrow> pyobj \<Rightarrow> ESys_Flag \<times> 'w"
  ESys_AdvanceTime :: "'w \<Rightarrow> nat \<Rightarrow> real \<Rightarrow> ESys_Flag \<times> 'w"
  ESys_GetNextTime :: "'w \<Rightarrow> nat \<Rightarrow> real"
  ESys_GetLevel :: "'w \<Rightarrow> nat \<Rightarrow> real"
  ESys_eq :: "real \<Rightarrow> real \<Rightarrow> bool"
  FSys_Create :: "'w \<Rightarrow> nat \<Rightarrow> FSys_Flag \<times> 'w"
  FSys_Populate :: "'w \<Rightarrow> nat \<Rightarrow> pyobj \<Rightarrow> FSys_Flag \<times> 'w"
  FSys_GetLevel :: "'w \<Rightarrow> nat \<Rightarrow> real \<Rightarrow> real \<times> FSys_Flag"
  PyErr_CheckSignals :: "'w \<Rightarrow> int \<times> 'w"
  benchmarker_time :: "'w \<Rightarrow> pyobj \<times> 'w"
  lib_alloc :: "'w \<Rightarrow> string \<Rightarrow> bool \<times> 'w"
  lib_call :: "'w \<Rightarrow> string \<Rightarrow> int \<times> 'w"
  fresh_memory :: "'w \<Rightarrow> nat \<Rightarrow> real"

text \<open>The return values of \<^verbatim>\<open>CVode\<close> that the driver names (constants of \<^verbatim>\<open>cvodes.h\<close>).\<close>

definition CV_SUCCESS :: int where
  "CV_SUCCESS = 0"

definition CV_ROOT_RETURN :: int where
  "CV_ROOT_RETURN = 2"

subsection \<open>The module-level variables\<close>

text \<open>
  One field for each static variable of the driver that the embedded functions read or
  write. The variables \<^verbatim>\<open>t\<close>, \<^verbatim>\<open>y\<close>, \<^verbatim>\<open>sy\<close>, \<^verbatim>\<open>z\<close>, \<^verbatim>\<open>sz\<close>, \<^verbatim>\<open>realtime\<close>, \<^verbatim>\<open>evaluations\<close> and
  \<^verbatim>\<open>n_pace\<close> carry the suffix \<open>_g\<close>. \<^verbatim>\<open>udata->p\<close> is \<open>udata_p\<close>.

  When logging is dynamic or the model is not an ODE, \<^verbatim>\<open>z\<close> and \<^verbatim>\<open>sz\<close> are the pointers
  \<^verbatim>\<open>y\<close> and \<^verbatim>\<open>sy\<close>: this is the field \<open>z_is_y\<close>.

  Pointers are not represented as such: between two calls of the driver \<^verbatim>\<open>model\<close> (and
  every vector) is \<^verbatim>\<open>NULL\<close> exactly when \<^verbatim>\<open>initialized\<close> is \<open>0\<close>, since \<^verbatim>\<open>sim_init\<close> sets both
  and \<^verbatim>\<open>sim_clean\<close> clears both.
\<close>

record 'w sim =
  initialized :: int
  model :: Model
  pacing_types :: "PSysType list"
  pacing :: "real list"
  n_pace_g :: int
  udata_p :: "real list"
  pbar :: "real list"
  realtime_g :: real
  evaluations_g :: int
  steps :: int
  zero_step_count :: int
  y_g :: "real list"
  sy_g :: "real list list"
  z_is_y :: bool
  z_g :: "real list"
  sz_g :: "real list list"
  ylast :: "real list"
  state_py :: pyobj
  s_state_py :: pyobj
  bound_py :: pyobj
  t_g :: real
  tlast :: real
  tnext :: real
  tmin :: real
  tmax :: real
  dynamic_logging :: int
  log_dict :: pydict
  sens_list :: pyobj
  tlog :: real
  log_interval :: real
  ilog :: int
  log_times :: pyobj
  rf_index :: int
  rf_threshold :: real
  rf_list :: pyobj
  rf_direction :: "int list"
  log_realtime :: int
  realtime_start :: real
  world :: 'w

definition max_zero_step_count :: int where
  "max_zero_step_count = 500"

definition cur_z :: "'w sim \<Rightarrow> real list" where
  "cur_z s = (if z_is_y s then y_g s else z_g s)"

definition set_z :: "real list \<Rightarrow> 'w sim \<Rightarrow> 'w sim" where
  "set_z v s = (if z_is_y s then s\<lparr>y_g := v\<rparr> else s\<lparr>z_g := v\<rparr>)"

definition cur_sz :: "'w sim \<Rightarrow> real list list" where
  "cur_sz s = (if z_is_y s then sy_g s else sz_g s)"

definition set_sz :: "real list list \<Rightarrow> 'w sim \<Rightarrow> 'w sim" where
  "set_sz v s = (if z_is_y s then s\<lparr>sy_g := v\<rparr> else s\<lparr>sz_g := v\<rparr>)"

subsection \<open>Flags of the integrator\<close>

fun cvode_message :: "int \<Rightarrow> error" where
  "cvode_message flag =
    (if flag = - 1 then PyErr PyExc_Exception
       ''Function CVode() failed with flag -1 CV_TOO_MUCH_WORK: The solver took mxstep internal steps but could not reach tout.'' []
     else if flag = - 2 then PyErr PyExc_Exception
       ''Function CVode() failed with flag -2 CV_TOO_MUCH_ACC: The solver could not satisfy the accuracy demanded by the user for some internal step.'' []
     else if flag = - 3 then PyErr PyExc_ArithmeticError
       ''Function CVode() failed with flag -3 CV_ERR_FAILURE: Error test failures occurred too many times during one internal time step or minimum step size was reached.'' []
     else if flag = - 4 then PyErr PyExc_ArithmeticError
       ''Function CVode() failed with flag -4 CV_CONV_FAILURE: Convergence test failures occurred too many times during one internal time step or minimum step size was reached.'' []
     else if flag = - 5 then PyErr PyExc_ArithmeticError
       ''Function CVode() failed with flag -5 CV_LINIT_FAIL: The linear solver's initialization function failed.'' []
     else if flag = - 6 then PyErr PyExc_ArithmeticError
       ''Function CVode() failed with flag -6 CV_LSETUP_FAIL: The linear solver's setup function failed in an unrecoverable manner.'' []
     else if flag = - 7 then PyErr PyExc_ArithmeticError
       ''Function CVode() failed with flag -7 CV_LSOLVE_FAIL: The linear solver's solve function failed in an unrecoverable manner.'' []
     else if flag = - 8 then PyErr PyExc_ArithmeticError
       ''Function CVode() failed with flag -8 CV_RHSFUNC_FAIL: The right-hand side function failed in an unrecoverable manner.'' []
     else if flag = - 9 then PyErr PyExc_ArithmeticError
       ''Function CVode() failed with flag -9 CV_FIRST_RHSFUNC_ERR: The right-hand side function failed at the first call.'' []
     else if flag = - 10 then PyErr PyExc_ArithmeticError
       ''Function CVode() failed with flag -10 CV_REPTD_RHSFUNC_ERR: The right-hand side function had repeated recoverable errors.'' []
     else if flag = - 11 then PyErr PyExc_ArithmeticError
       ''Function CVode() failed with flag -11 CV_UNREC_RHSFUNC_ERR: The right-hand side function had a recoverable error, but no recovery is possible.'' []
     else if flag = - 12 then PyErr PyExc_ArithmeticError
       ''Function CVode() failed with flag -12 CV_RTFUNC_FAIL: The root finding function failed in an unrecoverable manner.'' []
     else if flag = - 20 then PyErr PyExc_Exception
       ''Function CVode() failed with flag -20 CV_MEM_FAIL: A memory allocation failed.'' []
     else if flag = - 21 then PyErr PyExc_Exception
       ''Function CVode() failed with flag -21 CV_MEM_NULL: The cvode mem argument was NULL.'' []
     else if flag = - 22 then PyErr PyExc_Exception
       ''Function CVode() failed with flag -22 CV_ILL_INPUT: One of the function inputs is illegal.'' []
     else if flag = - 23 then PyErr PyExc_Exception
       ''Function CVode() failed with flag -23 CV_NO_MALLOC: The cvode memory block was not allocated by a call to CVodeMalloc.'' []
     else if flag = - 24 then PyErr PyExc_Exception
       ''Function CVode() failed with flag -24 CV_BAD_K: The derivative order k is larger than the order used.'' []
     else if flag = - 25 then PyErr PyExc_Exception
       ''Function CVode() failed with flag -25 CV_BAD_T: The time t is outside the last step taken.'' []
     else if flag = - 26 then PyErr PyExc_Exception
       ''Function CVode() failed with flag -26 CV_BAD_DKY: The output derivative vector is NULL.'' []
     else if flag = - 27 then PyErr PyExc_Exception
       ''Function CVode() failed with flag -27 CV_TOO_CLOSE: The output and initial times are too close to each other.'' []
     else PyErr PyExc_Exception ''Function CVode() failed with unknown flag = %d'' [ArgInt flag])"

text \<open>\<^verbatim>\<open>check_cvode_flag\<close> with \<^verbatim>\<open>opt == 1\<close>: the exception for a negative flag.\<close>

definition check_cvode_flag :: "int \<Rightarrow> string \<Rightarrow> error option" where
  "check_cvode_flag flag funcname =
     (if flag < 0 then
        (if funcname = ''CVode'' then Some (cvode_message flag)
         else Some (PyErr PyExc_Exception ''%s() failed with flag = %d''
                      [ArgStr funcname, ArgInt flag]))
      else None)"

text \<open>\<^verbatim>\<open>check_cvode_flag\<close> with \<^verbatim>\<open>opt == 0\<close>: the exception for a \<^verbatim>\<open>NULL\<close> pointer.\<close>

definition check_cvode_null :: "bool \<Rightarrow> string \<Rightarrow> error option" where
  "check_cvode_null ok funcname =
     (if \<not> ok then
        Some (PyErr PyExc_Exception ''%s() failed - returned NULL pointer'' [ArgStr funcname])
      else None)"

subsection \<open>Right-hand side, sensitivity outputs, clean-up\<close>

text \<open>The loop of \<^verbatim>\<open>rhs\<close> over the pacing systems; it returns \<open>-1\<close> at the first
  time-series system that reports an error, after storing the level.\<close>

fun rhs_pacing ::
  "'w extern \<Rightarrow> 'w \<Rightarrow> PSysType list \<Rightarrow> real \<Rightarrow> nat list \<Rightarrow> real list \<Rightarrow> int \<times> real list" where
  "rhs_pacing X w types t [] pac = (0, pac)"
| "rhs_pacing X w types t (i # rest) pac =
     (if types ! i = FIXED then
        (case FSys_GetLevel X w i t of
           (level, flag_fpacing) \<Rightarrow>
             if flag_fpacing \<noteq> FSys_OK then (- 1, pac[i := level])
             else rhs_pacing X w types t rest (pac[i := level]))
      else rhs_pacing X w types t rest pac)"

definition rhs :: "'w extern \<Rightarrow> 'w sim \<Rightarrow> real \<Rightarrow> real list \<Rightarrow> int \<times> 'w sim" where
  "rhs X s0 t y =
     (case rhs_pacing X (world s0) (pacing_types s0) t [0..<nat (n_pace_g s0)] (pacing s0) of
        (r, pac) \<Rightarrow>
          let s = s0\<lparr>pacing := pac\<rparr> in
          if r \<noteq> 0 then (- 1, s)
          else
            let s = s\<lparr>evaluations_g := evaluations_g s + 1\<rparr>;
                m = Model_SetBoundVariables (model s) t (pacing s) (realtime_g s)
                      (real_of_int (evaluations_g s));
                m = (if has_sensitivities m \<noteq> 0
                     then Model_SetParametersFromIndependents m (udata_p s) else m);
                m = Model_SetStates m y;
                m = Model_EvaluateDerivatives m
            in (0, s\<lparr>model := m\<rparr>))"

definition shs :: "'w sim \<Rightarrow> real list list \<Rightarrow> 'w sim" where
  "shs s sv =
     (let m = model s;
          m = m\<lparr>s_states :=
                  fold (\<lambda>i ss. fold (\<lambda>j ss. ss[i * nat (n_states m) + j := sv ! i ! j])
                                  [0..<nat (n_states m)] ss)
                    [0..<nat (ns_independents m)] (s_states m)\<rparr>
      in s\<lparr>model := Model_EvaluateSensitivityOutputs m\<rparr>)"

text \<open>\<^verbatim>\<open>sim_clean\<close> frees what \<^verbatim>\<open>sim_init\<close> allocated and clears \<^verbatim>\<open>initialized\<close>. It leaves the
  lists of the host, the log and the counters as they are.\<close>

definition sim_clean :: "'w sim \<Rightarrow> 'w sim" where
  "sim_clean s = (if initialized s \<noteq> 0 then s\<lparr>initialized := 0\<rparr> else s)"

text \<open>\<^verbatim>\<open>benchmarker_realtime\<close>: the time of the benchmarker since \<^verbatim>\<open>realtime_start\<close>, or
  \<open>-1\<close> if the benchmarker did not return a float.\<close>

definition benchmarker_realtime :: "'w extern \<Rightarrow> 'w sim \<Rightarrow> real \<times> 'w sim" where
  "benchmarker_realtime X s =
     (case benchmarker_time X (world s) of
        (ret, w) \<Rightarrow>
          if \<not> PyFloat_Check ret then (- 1, s\<lparr>world := w\<rparr>)
          else (PyFloat_AsDouble ret - realtime_start s, s\<lparr>world := w\<rparr>))"

subsection \<open>Helpers of the step function\<close>

text \<open>Sequencing of steps that may raise: the first error ends the sequence.\<close>

definition bind_ok :: "'e + 'a \<Rightarrow> ('a \<Rightarrow> 'e + 'b) \<Rightarrow> 'e + 'b" where
  "bind_ok r f = (case r of Inl e \<Rightarrow> Inl e | Inr x \<Rightarrow> f x)"

text \<open>\<^verbatim>\<open>ilog\<close> is a \<^verbatim>\<open>Py_ssize_t\<close>: a signed 64-bit integer. The source expects its
  increment to wrap around; \<open>ssize_wrap\<close> is the wrap-around of two's complement.\<close>

definition ssize_wrap :: "int \<Rightarrow> int" where
  "ssize_wrap x = (x + 2 ^ 63) mod 2 ^ 64 - 2 ^ 63"

definition PySequence_Check :: "pyobj \<Rightarrow> bool" where
  "PySequence_Check ob =
     (case ob of PyList xs \<Rightarrow> True | PyTuple xs \<Rightarrow> True | PyStr cs \<Rightarrow> True | _ \<Rightarrow> False)"

definition seq_items :: "pyobj \<Rightarrow> pyobj list" where
  "seq_items ob =
     (case ob of
        PyList xs \<Rightarrow> xs
      | PyTuple xs \<Rightarrow> xs
      | PyStr cs \<Rightarrow> map (\<lambda>c. PyStr [c]) cs
      | _ \<Rightarrow> [])"

definition PySequence_Size :: "pyobj \<Rightarrow> int" where
  "PySequence_Size ob = (if PySequence_Check ob then int (length (seq_items ob)) else - 1)"

definition PyNumber_Check :: "pyobj \<Rightarrow> bool" where
  "PyNumber_Check ob = (case ob of PyFloat x \<Rightarrow> True | PyLong n \<Rightarrow> True | _ \<Rightarrow> False)"

text \<open>\<^verbatim>\<open>PyNumber_Float\<close> fails (\<open>None\<close>) for an integer too large for a double.\<close>

definition PyNumber_Float :: "pyobj \<Rightarrow> pyobj option" where
  "PyNumber_Float ob =
     (case ob of
        PyFloat x \<Rightarrow> Some (PyFloat x)
      | PyLong n \<Rightarrow> (if \<bar>n\<bar> < 2 ^ 1024 then Some (PyFloat (real_of_int n)) else None)
      | _ \<Rightarrow> None)"

text \<open>Reading one entry of \<^verbatim>\<open>log_times\<close>, as \<^verbatim>\<open>sim_init\<close> and \<^verbatim>\<open>sim_step\<close> both do.\<close>

definition log_time_value :: "pyobj \<Rightarrow> error + real" where
  "log_time_value val =
     (if PyFloat_Check val then Inr (PyFloat_AsDouble val)
      else if PyNumber_Check val then
        (case PyNumber_Float val of
           None \<Rightarrow> Inl (PyErr PyExc_ValueError
                         ''Unable to cast entry in 'log_times' to float.'' [])
         | Some ret \<Rightarrow> Inr (PyFloat_AsDouble ret))
      else Inl (PyErr PyExc_ValueError ''Entries in 'log_times' must be floats.'' []))"

text \<open>The loop \<^verbatim>\<open>for (i = 0; i < n; i++) PyList_SetItem(lst, off + i, PyFloat_FromDouble(src[i]))\<close>.\<close>

definition set_floats :: "pyobj \<Rightarrow> int \<Rightarrow> real list \<Rightarrow> int \<Rightarrow> pyobj" where
  "set_floats lst off src n =
     fold (\<lambda>i l. PyList_SetItem l (off + int i) (PyFloat (src ! i))) [0..<nat n] lst"

text \<open>Writing the bound variables into \<^verbatim>\<open>bound_py\<close>: time, realtime, evaluations, pacing.\<close>

definition set_bound :: "'w sim \<Rightarrow> real \<Rightarrow> pyobj" where
  "set_bound s tt =
     (let b = PyList_SetItem (bound_py s) 0 (PyFloat tt);
          b = PyList_SetItem b 1 (PyFloat (realtime_g s));
          b = PyList_SetItem b 2 (PyFloat (real_of_int (evaluations_g s)))
      in set_floats b 3 (pacing s) (n_pace_g s))"

text \<open>The outputs written when \<^verbatim>\<open>CVode\<close> fails: the state before the step and its time.\<close>

definition write_error_outputs :: "'w sim \<Rightarrow> 'w sim" where
  "write_error_outputs s =
     s\<lparr>state_py := set_floats (state_py s) 0 (ylast s) (n_states (model s)),
       bound_py := set_bound s (tlast s)\<rparr>"

text \<open>The outputs written when the simulation is finished.\<close>

definition set_sensitivities :: "'w sim \<Rightarrow> pyobj" where
  "set_sensitivities s =
     fold (\<lambda>i l. case PyList_GetItem l (int i) of
                    None \<Rightarrow> l
                  | Some val \<Rightarrow>
                      PyList_SetItem l (int i) (set_floats val 0 (sy_g s ! i) (n_states (model s))))
       [0..<nat (ns_independents (model s))] (s_state_py s)"

definition write_final_outputs :: "'w sim \<Rightarrow> 'w sim" where
  "write_final_outputs s =
     s\<lparr>state_py := set_floats (state_py s) 0 (y_g s) (n_states (model s)),
       s_state_py := (if has_sensitivities (model s) \<noteq> 0 then set_sensitivities s
                      else s_state_py s),
       bound_py := set_bound s (t_g s)\<rparr>"

subsection \<open>The phases of one pass of the step loop\<close>

definition backup :: "'w sim \<Rightarrow> 'w sim" where
  "backup s =
     s\<lparr>ylast := array_copy (n_states (model s)) (y_g s) (ylast s), tlast := t_g s\<rparr>"

text \<open>The integrator step. While it runs, \<^verbatim>\<open>CVode\<close> calls \<^verbatim>\<open>rhs\<close>, which changes the model,
  the pacing values and the count of evaluations.\<close>

definition take_step :: "'w extern \<Rightarrow> 'w sim \<Rightarrow> (error \<times> 'w sim) + (int \<times> 'w sim)" where
  "take_step X s0 =
     (if is_ode (model s0) \<noteq> 0 then
        (case CVode X (world s0) (tnext s0) (y_g s0) (t_g s0) of
           ((flag_cvode, y', t', calls), w) \<Rightarrow>
             let s = s0\<lparr>world := w\<rparr>;
                 s = fold (\<lambda>(tc, yc) s. snd (rhs X s tc yc)) calls s;
                 s = s\<lparr>y_g := y', t_g := t'\<rparr>
             in (case check_cvode_flag flag_cvode ''CVode'' of
                   Some e \<Rightarrow> Inl (e, write_error_outputs s)
                 | None \<Rightarrow> Inr (flag_cvode, s)))
      else
        Inr (CV_SUCCESS, s0\<lparr>t_g := (if tmax s0 > tnext s0 then tnext s0 else tmax s0)\<rparr>))"

definition check_progress :: "'w sim \<Rightarrow> (error \<times> 'w sim) + 'w sim" where
  "check_progress s0 =
     (if t_g s0 = tlast s0 then
        (let s = s0\<lparr>zero_step_count := zero_step_count s0 + 1\<rparr>
         in if zero_step_count s \<ge> max_zero_step_count
            then Inl (PyErr PyExc_ArithmeticError
                        ''Maximum number of zero-length steps taken at t=%g'' [ArgReal (t_g s)], s)
            else Inr s)
      else Inr (s0\<lparr>zero_step_count := 0\<rparr>))"

text \<open>Rewinding to \<^verbatim>\<open>tnext\<close>, and root finding. The result carries \<^verbatim>\<open>flag_reinit\<close>.\<close>

definition rewind :: "'w extern \<Rightarrow> 'w sim \<Rightarrow> (error \<times> 'w sim) + (int \<times> 'w sim)" where
  "rewind X s0 =
     (case CVodeGetDky X (world s0) (tnext s0) (y_g s0) of
        (flag_cvode, y') \<Rightarrow>
          let s = s0\<lparr>y_g := y'\<rparr> in
          (case check_cvode_flag flag_cvode ''CVodeGetDky'' of
             Some e \<Rightarrow> Inl (e, s)
           | None \<Rightarrow>
               bind_ok
                 (if has_sensitivities (model s) \<noteq> 0 then
                    (case CVodeGetSensDky X (world s) (tnext s) (sy_g s) of
                       (flag_cvode, sy') \<Rightarrow>
                         (case check_cvode_flag flag_cvode ''CVodeGetSensDky'' of
                            Some e \<Rightarrow> Inl (e, s\<lparr>sy_g := sy'\<rparr>)
                          | None \<Rightarrow> Inr (s\<lparr>sy_g := sy'\<rparr>)))
                  else Inr s)
                 (\<lambda>s. Inr (1, s\<lparr>t_g := tnext s\<rparr>))))"

definition found_root :: "'w extern \<Rightarrow> 'w sim \<Rightarrow> (error \<times> 'w sim) + 'w sim" where
  "found_root X s0 =
     (case CVodeGetRootInfo X (world s0) of
        (flag_root, direction) \<Rightarrow>
          let s = s0\<lparr>rf_direction := (rf_direction s0)[0 := direction]\<rparr> in
          (case check_cvode_flag flag_root ''CVodeGetRootInfo'' of
             Some e \<Rightarrow> Inl (e, s)
           | None \<Rightarrow>
               (case py_append (rf_list s)
                       (PyTuple [PyFloat (t_g s), PyLong (rf_direction s ! 0)]) of
                  None \<Rightarrow> Inl (PyErr PyExc_Exception
                                ''Call to append() failed on root finding list.'' [], s)
                | Some l \<Rightarrow> Inr (s\<lparr>rf_list := l\<rparr>))))"

definition rewind_or_root ::
  "'w extern \<Rightarrow> int \<Rightarrow> int \<Rightarrow> 'w sim \<Rightarrow> (error \<times> 'w sim) + (int \<times> 'w sim)" where
  "rewind_or_root X flag_cvode0 flag_reinit s0 =
     (if is_ode (model s0) \<noteq> 0 then
        (if t_g s0 > tnext s0 then rewind X s0
         else
           bind_ok
             (if has_sensitivities (model s0) \<noteq> 0 then
                (case CVodeGetSens X (world s0) (t_g s0) (sy_g s0) of
                   (flag_cvode, t', sy') \<Rightarrow>
                     (case check_cvode_flag flag_cvode ''CVodeGetSens'' of
                        Some e \<Rightarrow> Inl (e, s0\<lparr>t_g := t', sy_g := sy'\<rparr>)
                      | None \<Rightarrow> Inr (flag_cvode, s0\<lparr>t_g := t', sy_g := sy'\<rparr>)))
              else Inr (flag_cvode0, s0))
             (\<lambda>(flag_cvode, s).
                if flag_cvode = CV_ROOT_RETURN
                then bind_ok (found_root X s) (\<lambda>s. Inr (flag_reinit, s))
                else Inr (flag_reinit, s)))
      else Inr (flag_reinit, s0))"

text \<open>Setting \<^verbatim>\<open>realtime\<close> before a row is logged, if real time is logged.\<close>

definition set_realtime :: "'w extern \<Rightarrow> string \<Rightarrow> 'w sim \<Rightarrow> (error \<times> 'w sim) + 'w sim" where
  "set_realtime X msg s0 =
     (if log_realtime s0 \<noteq> 0 then
        (case benchmarker_realtime X s0 of
           (rt, s1) \<Rightarrow>
             let s = s1\<lparr>realtime_g := rt\<rparr> in
             if realtime_g s < 0 then Inl (PyErr PyExc_Exception msg [], s) else Inr s)
      else Inr s0)"

definition interpolate :: "'w extern \<Rightarrow> 'w sim \<Rightarrow> (error \<times> 'w sim) + 'w sim" where
  "interpolate X s0 =
     (if is_ode (model s0) \<noteq> 0 then
        (case CVodeGetDky X (world s0) (tlog s0) (cur_z s0) of
           (flag_cvode, z') \<Rightarrow>
             let s = set_z z' s0 in
             (case check_cvode_flag flag_cvode ''CVodeGetDky'' of
                Some e \<Rightarrow> Inl (e, s)
              | None \<Rightarrow>
                  (if has_sensitivities (model s) \<noteq> 0 then
                     (case CVodeGetSensDky X (world s) (tlog s) (cur_sz s) of
                        (flag_cvode, sz') \<Rightarrow>
                          (case check_cvode_flag flag_cvode ''CVodeGetSensDky'' of
                             Some e \<Rightarrow> Inl (e, set_sz sz' s)
                           | None \<Rightarrow> Inr (set_sz sz' s)))
                   else Inr s)))
      else Inr s0)"

definition write_log :: "'w sim \<Rightarrow> (error \<times> 'w sim) + 'w sim" where
  "write_log s0 =
     (case Model_Log (model s0) (log_dict s0) of
        (flag_model, d) \<Rightarrow>
          let s = s0\<lparr>log_dict := d\<rparr> in
          if flag_model \<noteq> Model_OK then Inl (Model_SetPyErr flag_model, s) else Inr s)"

definition write_sens :: "'w sim \<Rightarrow> real list list \<Rightarrow> (error \<times> 'w sim) + 'w sim" where
  "write_sens s0 sv =
     (if has_sensitivities (model s0) \<noteq> 0 then
        (let s1 = shs s0 sv in
         case Model_LogSensitivityMatrix (model s1) (sens_list s1) of
           (flag_model, l) \<Rightarrow>
             let s = s1\<lparr>sens_list := l\<rparr> in
             if flag_model \<noteq> Model_OK then Inl (Model_SetPyErr flag_model, s) else Inr s)
      else Inr s0)"

text \<open>The next logging point: the next multiple of the interval, or the next entry of
  the point list.\<close>

definition next_log_point :: "'w sim \<Rightarrow> (error \<times> 'w sim) + 'w sim" where
  "next_log_point s0 =
     (if log_interval s0 > 0 then
        (let s = s0\<lparr>ilog := ssize_wrap (ilog s0 + 1)\<rparr>;
             s = s\<lparr>tlog := tmin s + real_of_int (ilog s) * log_interval s\<rparr>
         in if ilog s = 0
            then Inl (PyErr PyExc_OverflowError
                        ''Overflow in logged step count: Simulation too long!'' [], s)
            else Inr s)
      else
        (if ilog s0 < PySequence_Size (log_times s0) then
           (case log_time_value (seq_items (log_times s0) ! nat (ilog s0)) of
              Inl e \<Rightarrow> Inl (e, s0)
            | Inr t_proposed \<Rightarrow>
                if t_proposed < tlog s0
                then Inl (PyErr PyExc_ValueError
                            ''Values in log_times must be non-decreasing.'' [], s0)
                else Inr (s0\<lparr>tlog := t_proposed, ilog := ilog s0 + 1\<rparr>))
         else Inr (s0\<lparr>tlog := tmax s0 + 1\<rparr>)))"

text \<open>One pass of the loop \<^verbatim>\<open>while (t > tlog)\<close>: a row for the time \<^verbatim>\<open>tlog\<close>.\<close>

definition log_point :: "'w extern \<Rightarrow> 'w sim \<Rightarrow> (error \<times> 'w sim) + 'w sim" where
  "log_point X s0 =
     bind_ok (set_realtime X ''Failed to set realtime during interpolation logging.'' s0)
       (\<lambda>s. bind_ok (interpolate X s)
         (\<lambda>s. bind_ok (write_log (snd (rhs X s (tlog s) (cur_z s))))
           (\<lambda>s. bind_ok (write_sens s (cur_sz s)) next_log_point)))"

text \<open>The loop itself. It need not end: with an exhausted point list and a time beyond
  \<^verbatim>\<open>tmax + 1\<close> it logs for ever, which is the value \<open>None\<close>.\<close>

partial_function (option) log_points ::
  "'w extern \<Rightarrow> 'w sim \<Rightarrow> ((error \<times> 'w sim) + 'w sim) option" where
  "log_points X s =
     (if t_g s > tlog s then
        (case log_point X s of
           Inl es \<Rightarrow> Some (Inl es)
         | Inr s' \<Rightarrow> log_points X s')
      else Some (Inr s))"

definition interpolation_logging ::
  "'w extern \<Rightarrow> 'w sim \<Rightarrow> ((error \<times> 'w sim) + 'w sim) option" where
  "interpolation_logging X s =
     (if dynamic_logging s = 0 \<and> t_g s > tlog s then log_points X s else Some (Inr s))"

text \<open>Event-based pacing is moved to the time \<^verbatim>\<open>t\<close>; \<^verbatim>\<open>tnext\<close> becomes the earliest of
  \<^verbatim>\<open>tmax\<close> and the next events.\<close>

fun advance_pacing :: "'w extern \<Rightarrow> nat list \<Rightarrow> 'w sim \<Rightarrow> (error \<times> 'w sim) + 'w sim" where
  "advance_pacing X [] s = Inr s"
| "advance_pacing X (i # rest) s0 =
     (if pacing_types s0 ! i = EVENT then
        (case ESys_AdvanceTime X (world s0) i (t_g s0) of
           (flag_epacing, w) \<Rightarrow>
             let s = s0\<lparr>world := w\<rparr> in
             if flag_epacing \<noteq> ESys_OK then Inl (ESysErr flag_epacing, s)
             else
               let t_proposed = ESys_GetNextTime X (world s) i;
                   s = s\<lparr>tnext := min (tnext s) t_proposed\<rparr>;
                   s = s\<lparr>pacing := (pacing s)[i := ESys_GetLevel X (world s) i]\<rparr>
               in advance_pacing X rest s)
      else advance_pacing X rest s0)"

definition update_pacing :: "'w extern \<Rightarrow> 'w sim \<Rightarrow> (error \<times> 'w sim) + 'w sim" where
  "update_pacing X s = advance_pacing X [0..<nat (n_pace_g s)] (s\<lparr>tnext := tmax s\<rparr>)"

definition dynamic_log :: "'w extern \<Rightarrow> 'w sim \<Rightarrow> (error \<times> 'w sim) + 'w sim" where
  "dynamic_log X s0 =
     (if dynamic_logging s0 \<noteq> 0 then
        bind_ok (set_realtime X ''Failed to set realtime during dynamic logging.'' s0)
          (\<lambda>s. let s = (if logging_derivatives (model s) \<noteq> 0
                           \<or> logging_intermediary (model s) \<noteq> 0
                           \<or> has_sensitivities (model s) \<noteq> 0
                        then snd (rhs X s (t_g s) (y_g s))
                        else if logging_bound (model s) \<noteq> 0
                        then s\<lparr>model := Model_SetBoundVariables (model s) (t_g s) (pacing s)
                                          (realtime_g s) (real_of_int (evaluations_g s))\<rparr>
                        else s)
                in bind_ok (write_log s) (\<lambda>s. write_sens s (sy_g s)))
      else Inr s0)"

definition reinit :: "'w extern \<Rightarrow> int \<Rightarrow> 'w sim \<Rightarrow> (error \<times> 'w sim) + (int \<times> 'w sim)" where
  "reinit X flag_reinit s0 =
     (if is_ode (model s0) \<noteq> 0 \<and> flag_reinit \<noteq> 0 then
        (case CVodeReInit X (world s0) (t_g s0) (y_g s0) of
           (flag_cvode, w) \<Rightarrow>
             let s = s0\<lparr>world := w\<rparr> in
             (case check_cvode_flag flag_cvode ''CVodeReInit'' of
                Some e \<Rightarrow> Inl (e, s)
              | None \<Rightarrow>
                  (if has_sensitivities (model s) \<noteq> 0 then
                     (case CVodeSensReInit X (world s) (sy_g s) of
                        (flag_cvode, w') \<Rightarrow>
                          (case check_cvode_flag flag_cvode ''CVodeSensReInit'' of
                             Some e \<Rightarrow> Inl (e, s\<lparr>world := w'\<rparr>)
                           | None \<Rightarrow> Inr (0, s\<lparr>world := w'\<rparr>)))
                   else Inr (0, s))))
      else Inr (flag_reinit, s0))"

text \<open>The test for the end of the simulation, after \<^verbatim>\<open>t\<close> is moved onto \<^verbatim>\<open>tmax\<close> when
  \<^verbatim>\<open>ESys_eq\<close> holds them for equal.\<close>

definition finish_check :: "'w extern \<Rightarrow> 'w sim \<Rightarrow> bool \<times> 'w sim" where
  "finish_check X s0 =
     (let s = (if ESys_eq X (t_g s0) (tmax s0) then s0\<lparr>t_g := tmax s0\<rparr> else s0)
      in (t_g s \<ge> tmax s, s))"

definition check_signals :: "'w extern \<Rightarrow> 'w sim \<Rightarrow> (error \<times> 'w sim) + 'w sim" where
  "check_signals X s0 =
     (case PyErr_CheckSignals X (world s0) of
        (r, w) \<Rightarrow> if r \<noteq> 0 then Inl (Interrupted, s0\<lparr>world := w\<rparr>) else Inr (s0\<lparr>world := w\<rparr>))"

subsection \<open>The step function\<close>

datatype loop_exit = Continue | Break

text \<open>
  One pass of the loop \<^verbatim>\<open>while (1)\<close> of \<^verbatim>\<open>sim_step\<close>, in three parts: the integrator step
  with the check of progress (\<open>step_begin\<close>), the block that runs when the step succeeded
  (\<open>step_block\<close>), and the test for the end with the check of the signals (\<open>step_end\<close>).
  The local variable \<^verbatim>\<open>flag_reinit\<close> goes in and comes out. The result of a pass is
  \<open>None\<close> if the loop over the logging points does not end, an error with the state in
  which it was raised, or the way the pass ends.
\<close>

definition step_begin :: "'w extern \<Rightarrow> 'w sim \<Rightarrow> (error \<times> 'w sim) + (int \<times> 'w sim)" where
  "step_begin X s0 =
     bind_ok (take_step X (backup s0))
       (\<lambda>(flag_cvode, s). bind_ok (check_progress s)
          (\<lambda>s. Inr (flag_cvode, s\<lparr>steps := steps s + 1\<rparr>)))"

definition step_block ::
  "'w extern \<Rightarrow> int \<Rightarrow> int \<Rightarrow> 'w sim \<Rightarrow> ((error \<times> 'w sim) + (int \<times> 'w sim)) option" where
  "step_block X flag_cvode flag_reinit s1 =
     (case rewind_or_root X flag_cvode flag_reinit s1 of
        Inl es \<Rightarrow> Some (Inl es)
      | Inr (flag_reinit, s2) \<Rightarrow>
          (case interpolation_logging X s2 of
             None \<Rightarrow> None
           | Some (Inl es) \<Rightarrow> Some (Inl es)
           | Some (Inr s3) \<Rightarrow>
               Some (bind_ok (update_pacing X s3)
                       (\<lambda>s. bind_ok (dynamic_log X s)
                          (\<lambda>s. reinit X flag_reinit s)))))"

definition step_end ::
  "'w extern \<Rightarrow> int \<Rightarrow> 'w sim \<Rightarrow> (error \<times> 'w sim) + (loop_exit \<times> int \<times> 'w sim)" where
  "step_end X flag_reinit s4 =
     (case finish_check X s4 of
        (done, s5) \<Rightarrow>
          if done then Inr (Break, flag_reinit, s5)
          else bind_ok (check_signals X s5) (\<lambda>s6. Inr (Continue, flag_reinit, s6)))"

definition sim_step_body ::
  "'w extern \<Rightarrow> int \<Rightarrow> 'w sim \<Rightarrow> ((error \<times> 'w sim) + (loop_exit \<times> int \<times> 'w sim)) option" where
  "sim_step_body X flag_reinit s0 =
     (case step_begin X s0 of
        Inl es \<Rightarrow> Some (Inl es)
      | Inr (flag_cvode, s1) \<Rightarrow>
          (case (if flag_cvode = CV_SUCCESS \<or> flag_cvode = CV_ROOT_RETURN
                 then step_block X flag_cvode flag_reinit s1
                 else Some (Inr (flag_reinit, s1))) of
             None \<Rightarrow> None
           | Some (Inl es) \<Rightarrow> Some (Inl es)
           | Some (Inr (flag_reinit, s4)) \<Rightarrow> Some (step_end X flag_reinit s4)))"

text \<open>How the loop of \<^verbatim>\<open>sim_step\<close> is left: by \<^verbatim>\<open>break\<close>, by the return of \<^verbatim>\<open>t\<close> after 100
  steps, or by an error.\<close>

datatype step_exit = Finished | Yielded real | Failed error

function sim_step_loop ::
  "'w extern \<Rightarrow> int \<Rightarrow> int \<Rightarrow> 'w sim \<Rightarrow> (step_exit \<times> 'w sim) option" where
  "sim_step_loop X steps_taken flag_reinit s =
     (case sim_step_body X flag_reinit s of
        None \<Rightarrow> None
      | Some (Inl (e, s')) \<Rightarrow> Some (Failed e, s')
      | Some (Inr (Break, flag_reinit', s')) \<Rightarrow> Some (Finished, s')
      | Some (Inr (Continue, flag_reinit', s')) \<Rightarrow>
          (if steps_taken + 1 \<ge> 100 then Some (Yielded (t_g s'), s')
           else sim_step_loop X (steps_taken + 1) flag_reinit' s'))"
  by pat_completeness auto
termination
  by (relation "measure (\<lambda>(X, steps_taken, flag_reinit, s). nat (100 - steps_taken))") auto

text \<open>
  \<^verbatim>\<open>sim_step\<close>. The result is the exception raised or the float returned, and the state
  left behind. A call without a preceding \<^verbatim>\<open>sim_init\<close> dereferences the \<^verbatim>\<open>NULL\<close> pointer
  \<^verbatim>\<open>model\<close>.
\<close>

definition start_realtime :: "'w extern \<Rightarrow> 'w sim \<Rightarrow> (error \<times> 'w sim) + 'w sim" where
  "start_realtime X s0 =
     (if log_realtime s0 \<noteq> 0 \<and> realtime_start s0 = 0 then
        (case benchmarker_realtime X s0 of
           (rt, s1) \<Rightarrow>
             let s = s1\<lparr>realtime_start := rt\<rparr> in
             if realtime_start s \<le> 0
             then Inl (PyErr PyExc_Exception ''Failed to set realtime_start.'' [], s)
             else Inr s)
      else Inr s0)"

definition sim_step :: "'w extern \<Rightarrow> 'w sim \<Rightarrow> ((error + real) \<times> 'w sim) option" where
  "sim_step X s0 =
     (if initialized s0 = 0 then Some (Inl Segfault, s0)
      else
        (case start_realtime X s0 of
           Inl (e, s) \<Rightarrow> Some (Inl e, sim_clean s)
         | Inr s1 \<Rightarrow>
             (case sim_step_loop X 0 0 s1 of
                None \<Rightarrow> None
              | Some (Failed e, s) \<Rightarrow> Some (Inl e, sim_clean s)
              | Some (Yielded tt, s) \<Rightarrow> Some (Inr tt, s)
              | Some (Finished, s) \<Rightarrow>
                  (let s' = write_final_outputs s in Some (Inr (t_g s'), sim_clean s')))))"

text \<open>
  Modelled from the spec: the loop of the host is not part of the sources. The host
  calls \<^verbatim>\<open>step\<close> again for as long as the time returned is before \<^verbatim>\<open>tmax\<close> (``proper
  sequence is init(), repeated step() calls till finished''). \<open>run X n s\<close> makes at most
  \<open>n\<close> calls; \<open>None\<close> means that they were not enough or that a call did not return.
\<close>

fun run :: "'w extern \<Rightarrow> nat \<Rightarrow> 'w sim \<Rightarrow> ((error + real) \<times> 'w sim) option" where
  "run X 0 s = None"
| "run X (Suc n) s =
     (case sim_step X s of
        None \<Rightarrow> None
      | Some (Inl e, s') \<Rightarrow> Some (Inl e, s')
      | Some (Inr tt, s') \<Rightarrow> (if tt < tmax s then run X n s' else Some (Inr tt, s')))"

subsection \<open>Initialisation\<close>

text \<open>The arguments of \<^verbatim>\<open>sim_init\<close>, in the order of the format string; the benchmarker
  object is part of the state of the interpreter.\<close>

record init_args =
  a_tmin :: real
  a_tmax :: real
  a_state :: pyobj
  a_s_state :: pyobj
  a_bound :: pyobj
  a_literals :: pyobj
  a_parameters :: pyobj
  a_protocols :: pyobj
  a_log :: pydict
  a_log_interval :: real
  a_log_times :: pyobj
  a_sens_list :: pyobj
  a_rf_index :: int
  a_rf_threshold :: real
  a_rf_list :: pyobj
  a_log_realtime :: int

definition tp_name :: "pyobj \<Rightarrow> string" where
  "tp_name ob =
     (case ob of
        PyFloat x \<Rightarrow> ''float''
      | PyLong n \<Rightarrow> ''int''
      | PyStr cs \<Rightarrow> ''str''
      | PyNone \<Rightarrow> ''NoneType''
      | PyList xs \<Rightarrow> ''list''
      | PyTuple xs \<Rightarrow> ''tuple''
      | PyInstance name \<Rightarrow> name)"

text \<open>
  The loop \<^verbatim>\<open>for (i = 0; i < n; i++)\<close> that reads the floats of a Python list into an
  array. \<^verbatim>\<open>PyList_GetItem\<close> returns \<^verbatim>\<open>NULL\<close> beyond the end of the list, and \<^verbatim>\<open>PyFloat_Check\<close>
  dereferences it. \<open>err i\<close> is the exception for an item that is not a float.
\<close>

fun read_floats :: "pyobj \<Rightarrow> (int \<Rightarrow> error) \<Rightarrow> nat list \<Rightarrow> real list \<Rightarrow> error + real list" where
  "read_floats lst err [] dst = Inr dst"
| "read_floats lst err (i # rest) dst =
     (case PyList_GetItem lst (int i) of
        None \<Rightarrow> Inl Segfault
      | Some val \<Rightarrow>
          if \<not> PyFloat_Check val then Inl (err (int i))
          else read_floats lst err rest (dst[i := PyFloat_AsDouble val]))"

text \<open>A run of calls into the libraries, each followed by \<^verbatim>\<open>check_cvode_flag\<close> and
  \<^verbatim>\<open>return sim_clean()\<close>. An entry is: whether the call allocates, the function called, and
  the name handed to \<^verbatim>\<open>check_cvode_flag\<close>.\<close>

fun lib_calls :: "'w extern \<Rightarrow> (bool \<times> string \<times> string) list \<Rightarrow> 'w \<Rightarrow> error option \<times> 'w" where
  "lib_calls X [] w = (None, w)"
| "lib_calls X ((allocates, f, name) # rest) w =
     (if allocates then
        (case lib_alloc X w f of
           (ok, w') \<Rightarrow>
             (case check_cvode_null ok name of
                Some e \<Rightarrow> (Some e, w')
              | None \<Rightarrow> lib_calls X rest w'))
      else
        (case lib_call X w f of
           (flag_cvode, w') \<Rightarrow>
             (case check_cvode_flag flag_cvode name of
                Some e \<Rightarrow> (Some e, w')
              | None \<Rightarrow> lib_calls X rest w')))"

text \<open>An allocation that ends the initialisation with the message \<open>msg\<close> if it fails.\<close>

definition alloc_or :: "'w extern \<Rightarrow> string \<Rightarrow> string \<Rightarrow> 'w sim \<Rightarrow> (error \<times> 'w sim) + 'w sim" where
  "alloc_or X f msg s =
     (case lib_alloc X (world s) f of
        (ok, w) \<Rightarrow>
          if \<not> ok then Inl (PyErr PyExc_Exception msg [], s\<lparr>world := w\<rparr>)
          else Inr (s\<lparr>world := w\<rparr>))"

definition init_model :: "'w extern \<Rightarrow> 'w sim \<Rightarrow> (error \<times> 'w sim) + 'w sim" where
  "init_model X s =
     (case lib_alloc X (world s) ''malloc'' of
        (ok, w) \<Rightarrow>
          (case Model_Create ok (fresh_memory X w) of
             (flag_model, None) \<Rightarrow> Inl (Model_SetPyErr flag_model, s\<lparr>world := w\<rparr>)
           | (flag_model, Some m) \<Rightarrow>
               if flag_model \<noteq> Model_OK then Inl (Model_SetPyErr flag_model, s\<lparr>world := w\<rparr>)
               else Inr (s\<lparr>world := w, model := m\<rparr>)))"

definition init_context :: "'w extern \<Rightarrow> 'w sim \<Rightarrow> (error \<times> 'w sim) + 'w sim" where
  "init_context X s =
     (case lib_call X (world s) ''SUNContext_Create'' of
        (flag_cvode, w) \<Rightarrow>
          (case check_cvode_flag flag_cvode ''SUNContext_Create'' of
             Some e \<Rightarrow> Inl (PyErr PyExc_Exception ''Failed to create Sundials context.'' [],
                           s\<lparr>world := w\<rparr>)
           | None \<Rightarrow> Inr (s\<lparr>world := w\<rparr>)))"

definition new_vector :: "'w extern \<Rightarrow> 'w sim \<Rightarrow> real list" where
  "new_vector X s = fresh_array (fresh_memory X (world s)) (n_states (model s))"

definition new_vector_array :: "'w extern \<Rightarrow> 'w sim \<Rightarrow> real list list" where
  "new_vector_array X s = replicate (nat (ns_independents (model s))) (new_vector X s)"

definition init_vectors :: "'w extern \<Rightarrow> 'w sim \<Rightarrow> (error \<times> 'w sim) + 'w sim" where
  "init_vectors X s0 =
     bind_ok (alloc_or X ''N_VNew_Serial'' ''Failed to create state vector.'' s0)
     (\<lambda>s. let s = s\<lparr>y_g := new_vector X s\<rparr> in
     bind_ok (alloc_or X ''N_VNew_Serial'' ''Failed to create last-state vector.'' s)
     (\<lambda>s. let s = s\<lparr>ylast := new_vector X s\<rparr> in
     bind_ok
       (if has_sensitivities (model s) \<noteq> 0 then
          bind_ok (alloc_or X ''N_VCloneVectorArray''
                     ''Failed to allocate space to store sensitivities.'' s)
            (\<lambda>s. Inr (s\<lparr>sy_g := new_vector_array X s\<rparr>))
        else Inr s)
     (\<lambda>s. let s = s\<lparr>dynamic_logging :=
                       of_bool_int (log_interval s \<le> 0 \<and> log_times s = PyNone)\<rparr> in
       if dynamic_logging s \<noteq> 0 \<or> is_ode (model s) = 0 then Inr (s\<lparr>z_is_y := True\<rparr>)
       else
         bind_ok (alloc_or X ''N_VNew_Serial''
                    ''Failed to create state vector for logging.'' (s\<lparr>z_is_y := False\<rparr>))
         (\<lambda>s. let s = s\<lparr>z_g := new_vector X s\<rparr> in
           if has_sensitivities (model s) \<noteq> 0 then
             bind_ok (alloc_or X ''N_VCloneVectorArray''
                        ''Failed to create state sensitivity vector array for logging.'' s)
               (\<lambda>s. Inr (s\<lparr>sz_g := new_vector_array X s\<rparr>))
           else Inr s))))"

text \<open>The initial state and the initial sensitivities.\<close>

fun read_sensitivities ::
  "pyobj \<Rightarrow> int \<Rightarrow> nat list \<Rightarrow> real list list \<Rightarrow> error + real list list" where
  "read_sensitivities lst n [] dst = Inr dst"
| "read_sensitivities lst n (i # rest) dst =
     (case PyList_GetItem lst (int i) of
        None \<Rightarrow> Inl Segfault
      | Some val \<Rightarrow>
          if \<not> PyList_Check val
          then Inl (PyErr PyExc_ValueError
                      ''Item %d in state sensitivity matrix is not a list.'' [ArgInt (int i)])
          else
            (case read_floats val
                    (\<lambda>j. PyErr PyExc_ValueError
                           ''Item %d, %d in state sensitivity matrix is not a float.''
                           [ArgInt (int i), ArgInt j])
                    [0..<nat n] (dst ! i) of
               Inl e \<Rightarrow> Inl e
             | Inr row \<Rightarrow> read_sensitivities lst n rest (dst[i := row])))"

definition init_state :: "'w sim \<Rightarrow> (error \<times> 'w sim) + 'w sim" where
  "init_state s0 =
     (if \<not> PyList_Check (state_py s0)
      then Inl (PyErr PyExc_TypeError '''state_py' must be a list.'' [], s0)
      else
        (case read_floats (state_py s0)
                (\<lambda>i. PyErr PyExc_ValueError ''Item %d in state vector is not a float.'' [ArgInt i])
                [0..<nat (n_states (model s0))] (states (model s0)) of
           Inl e \<Rightarrow> Inl (e, s0)
         | Inr ys \<Rightarrow>
             let s = s0\<lparr>model := (model s0)\<lparr>states := ys\<rparr>,
                       y_g := array_copy (n_states (model s0)) ys (y_g s0)\<rparr>
             in if has_sensitivities (model s) \<noteq> 0 then
                  (if \<not> PyList_Check (s_state_py s)
                   then Inl (PyErr PyExc_TypeError '''s_state_py' must be a list.'' [], s)
                   else
                     (case read_sensitivities (s_state_py s) (n_states (model s))
                             [0..<nat (ns_independents (model s))] (sy_g s) of
                        Inl e \<Rightarrow> Inl (e, s)
                      | Inr sv \<Rightarrow> Inr (shs (s\<lparr>sy_g := sv\<rparr>) sv)))
                else Inr s))"

text \<open>The values of the literals and of the parameters.\<close>

definition init_constants :: "'w sim \<Rightarrow> pyobj \<Rightarrow> pyobj \<Rightarrow> (error \<times> 'w sim) + 'w sim" where
  "init_constants s0 lits pars =
     (if \<not> PyList_Check lits
      then Inl (PyErr PyExc_TypeError '''literals' must be a list.'' [], s0)
      else
        (case read_floats lits
                (\<lambda>i. PyErr PyExc_ValueError ''Item %d in literal vector is not a float.'' [ArgInt i])
                [0..<nat (n_literals (model s0))] (literals (model s0)) of
           Inl e \<Rightarrow> Inl (e, s0)
         | Inr cs \<Rightarrow>
             let s = s0\<lparr>model := Model_EvaluateLiteralDerivedVariables
                                   ((model s0)\<lparr>literals := cs\<rparr>)\<rparr>
             in if has_sensitivities (model s) \<noteq> 0 then
                  (if \<not> PyList_Check pars
                   then Inl (PyErr PyExc_TypeError '''parameters' must be a list.'' [], s)
                   else
                     (case read_floats pars
                             (\<lambda>i. PyErr PyExc_ValueError
                                    ''Item %d in parameter vector is not a float.'' [ArgInt i])
                             [0..<nat (n_parameters (model s))] (parameters (model s)) of
                        Inl e \<Rightarrow> Inl (e, s)
                      | Inr ps \<Rightarrow>
                          Inr (s\<lparr>model := Model_EvaluateParameterDerivedVariables
                                             ((model s)\<lparr>parameters := ps\<rparr>)\<rparr>)))
                else Inr s))"

text \<open>The user data of the sensitivity calculation: the values of the independents and
  the scale of each of them.\<close>

definition independent_values :: "Model \<Rightarrow> real list \<Rightarrow> real list" where
  "independent_values m dst =
     fold (\<lambda>i d. d[i := deref m (s_independents m ! i)]) [0..<nat (ns_independents m)] dst"

definition parameter_scales :: "real list \<Rightarrow> int \<Rightarrow> real list \<Rightarrow> real list" where
  "parameter_scales p n dst =
     fold (\<lambda>i d. d[i := (if p ! i = 0 then 1 else \<bar>p ! i\<bar>)]) [0..<nat n] dst"

definition new_array :: "'w extern \<Rightarrow> 'w sim \<Rightarrow> int \<Rightarrow> real list" where
  "new_array X s n = fresh_array (fresh_memory X (world s)) n"

definition init_userdata :: "'w extern \<Rightarrow> 'w sim \<Rightarrow> (error \<times> 'w sim) + 'w sim" where
  "init_userdata X s0 =
     (if has_sensitivities (model s0) \<noteq> 0 then
        bind_ok (alloc_or X ''malloc''
                   ''Unable to create user data object to store parameter values.'' s0)
        (\<lambda>s. bind_ok (alloc_or X ''malloc''
                         ''Unable to allocate space to store parameter values.'' s)
        (\<lambda>s. let s = s\<lparr>udata_p := independent_values (model s)
                                       (new_array X s (ns_independents (model s)))\<rparr> in
          bind_ok (alloc_or X ''malloc''
                     ''Unable to allocate space to store parameter scales.'' s)
          (\<lambda>s. Inr (s\<lparr>pbar := parameter_scales (udata_p s) (ns_independents (model s))
                                  (new_array X s (ns_independents (model s)))\<rparr>))))
      else Inr s0)"

text \<open>The pacing systems, one for each protocol.\<close>

definition setup_event :: "'w extern \<Rightarrow> nat \<Rightarrow> pyobj \<Rightarrow> 'w sim \<Rightarrow> (error \<times> 'w sim) + 'w sim" where
  "setup_event X i protocol s0 =
     (case ESys_Create X (world s0) i of
        (flag_epacing, w) \<Rightarrow>
          let s = s0\<lparr>world := w, pacing_types := (pacing_types s0)[i := EVENT]\<rparr> in
          if flag_epacing \<noteq> ESys_OK then Inl (ESysErr flag_epacing, s)
          else
            (case ESys_Populate X (world s) i protocol of
               (flag_epacing, w) \<Rightarrow>
                 let s = s\<lparr>world := w\<rparr> in
                 if flag_epacing \<noteq> ESys_OK then Inl (ESysErr flag_epacing, s)
                 else
                   (case ESys_AdvanceTime X (world s) i (tmin s) of
                      (flag_epacing, w) \<Rightarrow>
                        let s = s\<lparr>world := w\<rparr> in
                        if flag_epacing \<noteq> ESys_OK then Inl (ESysErr flag_epacing, s)
                        else
                          let t_proposed = ESys_GetNextTime X (world s) i;
                              s = s\<lparr>pacing := (pacing s)[i := ESys_GetLevel X (world s) i]\<rparr>
                          in Inr (s\<lparr>tnext := min t_proposed (tnext s)\<rparr>))))"

definition setup_fixed :: "'w extern \<Rightarrow> nat \<Rightarrow> pyobj \<Rightarrow> 'w sim \<Rightarrow> (error \<times> 'w sim) + 'w sim" where
  "setup_fixed X i protocol s0 =
     (case FSys_Create X (world s0) i of
        (flag_fpacing, w) \<Rightarrow>
          let s = s0\<lparr>world := w, pacing_types := (pacing_types s0)[i := FIXED]\<rparr> in
          if flag_fpacing \<noteq> FSys_OK then Inl (FSysErr flag_fpacing, s)
          else
            (case FSys_Populate X (world s) i protocol of
               (flag_fpacing, w) \<Rightarrow>
                 if flag_fpacing \<noteq> FSys_OK then Inl (FSysErr flag_fpacing, s\<lparr>world := w\<rparr>)
                 else Inr (s\<lparr>world := w\<rparr>)))"

fun setup_protocols ::
  "'w extern \<Rightarrow> pyobj list \<Rightarrow> nat list \<Rightarrow> 'w sim \<Rightarrow> (error \<times> 'w sim) + 'w sim" where
  "setup_protocols X ps [] s = Inr s"
| "setup_protocols X ps (i # rest) s =
     (let protocol = ps ! i in
      if tp_name protocol = ''Protocol''
      then bind_ok (setup_event X i protocol s) (setup_protocols X ps rest)
      else if tp_name protocol = ''TimeSeriesProtocol''
      then bind_ok (setup_fixed X i protocol s) (setup_protocols X ps rest)
      else Inl (PyErr PyExc_TypeError
                  ''Item %d in 'protocols' is not a myokit.Protocol or myokit.TimeSeriesProtocol object.''
                  [ArgInt (int i)], s))"

definition init_pacing :: "'w extern \<Rightarrow> pyobj \<Rightarrow> 'w sim \<Rightarrow> (error \<times> 'w sim) + 'w sim" where
  "init_pacing X protocols s0 =
     (let s = s0\<lparr>n_pace_g := 0\<rparr> in
      if protocols \<noteq> PyNone \<and> \<not> PyList_Check protocols
      then Inl (PyErr PyExc_TypeError '''protocols' must be a list.'' [], s)
      else
        let s = (if protocols \<noteq> PyNone
                 then s\<lparr>n_pace_g := int (length (seq_items protocols))\<rparr> else s) in
        bind_ok (alloc_or X ''malloc'' ''Unable to allocate space to store pacing systems.'' s)
        (\<lambda>s. bind_ok (alloc_or X ''malloc'' ''Unable to allocate space to store pacing types.'' s)
        (\<lambda>s. let s = s\<lparr>pacing_types := replicate (nat (n_pace_g s)) EVENT\<rparr> in
          bind_ok (alloc_or X ''malloc'' ''Unable to allocate space to store pacing values.'' s)
          (\<lambda>s. let s = s\<lparr>pacing := new_array X s (n_pace_g s)\<rparr>;
                    s = s\<lparr>model := snd (Model_SetupPacing (model s) (n_pace_g s))\<rparr>;
                    s = s\<lparr>tnext := tmax s\<rparr>
                in if protocols \<noteq> PyNone
                   then setup_protocols X (seq_items protocols)
                          [0..<length (seq_items protocols)] s
                   else Inr s))))"

text \<open>The solver, for the branch \<^verbatim>\<open>SUNDIALS_VERSION_MAJOR >= 6\<close> of the source.\<close>

definition solver_calls :: "(bool \<times> string \<times> string) list" where
  "solver_calls =
    [(True, ''CVodeCreate'', ''CVodeCreate''),
     (False, ''CVodeSetErrHandlerFn'', ''CVodeInit''),
     (False, ''CVodeInit'', ''CVodeInit''),
     (False, ''CVodeSStolerances'', ''CVodeSStolerances''),
     (False, ''CVodeSetMaxStep'', ''CVodeSetmaxStep''),
     (False, ''CVodeSetMinStep'', ''CVodeSetminStep''),
     (True, ''SUNDenseMatrix'', ''SUNDenseMatrix''),
     (True, ''SUNLinSol_Dense'', ''SUNLinSol_Dense''),
     (False, ''CVodeSetLinearSolver'', ''CVodeSetLinearSolver'')]"

definition sensitivity_calls :: "(bool \<times> string \<times> string) list" where
  "sensitivity_calls =
    [(False, ''CVodeSensInit'', ''CVodeSensInit''),
     (False, ''CVodeSetUserData'', ''CVodeSetUserData''),
     (False, ''CVodeSetSensParams'', ''CVodeSetSensParams''),
     (False, ''CVodeSensEEtolerances'', ''CVodeSensEEtolerances'')]"

definition run_calls ::
  "'w extern \<Rightarrow> (bool \<times> string \<times> string) list \<Rightarrow> 'w sim \<Rightarrow> (error \<times> 'w sim) + 'w sim" where
  "run_calls X calls s =
     (case lib_calls X calls (world s) of
        (Some e, w) \<Rightarrow> Inl (e, s\<lparr>world := w\<rparr>)
      | (None, w) \<Rightarrow> Inr (s\<lparr>world := w\<rparr>))"

definition init_solver :: "'w extern \<Rightarrow> 'w sim \<Rightarrow> (error \<times> 'w sim) + 'w sim" where
  "init_solver X s0 =
     (if is_ode (model s0) \<noteq> 0 then
        bind_ok (run_calls X solver_calls s0)
          (\<lambda>s. if has_sensitivities (model s) \<noteq> 0 then run_calls X sensitivity_calls s
                else Inr s)
      else Inr s0)"

definition init_root :: "'w extern \<Rightarrow> 'w sim \<Rightarrow> (error \<times> 'w sim) + 'w sim" where
  "init_root X s0 =
     (let s = s0\<lparr>rf_direction := []\<rparr> in
      if is_ode (model s) \<noteq> 0 \<and> PyList_Check (rf_list s) then
        bind_ok (run_calls X [(False, ''CVodeRootInit'', ''CVodeRootInit'')] s)
          (\<lambda>s. Inr (s\<lparr>rf_direction := [0]\<rparr>))
      else Inr s)"

text \<open>The first logging point of a point list: the first entry that is not before \<^verbatim>\<open>t\<close>.\<close>

fun first_log_time :: "pyobj list \<Rightarrow> real \<Rightarrow> int \<Rightarrow> real \<Rightarrow> error + int \<times> real" where
  "first_log_time [] t i tl0 = Inr (i, tl0)"
| "first_log_time (val # rest) t i tl0 =
     (if tl0 < t then
        (case log_time_value val of
           Inl e \<Rightarrow> Inl e
         | Inr v \<Rightarrow> first_log_time rest t (i + 1) v)
      else Inr (i, tl0))"

definition log_first_point :: "'w extern \<Rightarrow> 'w sim \<Rightarrow> (error \<times> 'w sim) + 'w sim" where
  "log_first_point X s0 =
     (let first = (case log_dict s0 of
                     [] \<Rightarrow> True
                   | (key, val) # rest \<Rightarrow> PyObject_Size val \<le> 0)
      in if first then
           bind_ok (write_log (snd (rhs X s0 (t_g s0) (y_g s0))))
             (\<lambda>s. write_sens s (sy_g s))
         else Inr s0)"

definition init_logging :: "'w extern \<Rightarrow> 'w sim \<Rightarrow> (error \<times> 'w sim) + 'w sim" where
  "init_logging X s0 =
     (if log_interval s0 > 0 \<and> tmax s0 + log_interval s0 = tmax s0
      then Inl (PyErr PyExc_ValueError
                  ''Log interval is too small compared to tmax; issue with numerical precision: float(tmax + log_interval) = float(tmax).''
                  [], s0)
      else
        (case Model_InitializeLogging (model s0) (log_dict s0) of
           (flag_model, m) \<Rightarrow>
             let s = s0\<lparr>model := m\<rparr> in
             if flag_model \<noteq> Model_OK then Inl (Model_SetPyErr flag_model, s)
             else if has_sensitivities (model s) \<noteq> 0 \<and> \<not> PyList_Check (sens_list s)
             then Inl (PyErr PyExc_TypeError '''sens_list' must be a list.'' [], s)
             else if log_interval s > 0
             then Inr (s\<lparr>ilog := 0, tlog := tmin s\<rparr>)
             else if log_times s \<noteq> PyNone then
               (if \<not> PySequence_Check (log_times s)
                then Inl (PyErr PyExc_TypeError '''log_times' must be a sequence type.'' [], s)
                else
                  (case first_log_time (seq_items (log_times s)) (t_g s) 0 (t_g s - 1) of
                     Inl e \<Rightarrow> Inl (e, s)
                   | Inr (i, tl0) \<Rightarrow>
                       Inr (s\<lparr>ilog := i, tlog := (if tl0 < t_g s then tmax s + 1 else tl0)\<rparr>)))
             else log_first_point X s))"

text \<open>
  \<^verbatim>\<open>sim_init\<close>. The result is the exception raised, if any, and the state left behind.
  After the arguments are stored, every error goes through \<^verbatim>\<open>sim_clean\<close>.
\<close>

definition store_args :: "'w sim \<Rightarrow> init_args \<Rightarrow> 'w sim" where
  "store_args s a =
     s\<lparr>tmin := a_tmin a, tmax := a_tmax a, state_py := a_state a,
       s_state_py := a_s_state a, bound_py := a_bound a, log_dict := a_log a,
       log_interval := a_log_interval a, log_times := a_log_times a,
       sens_list := a_sens_list a, rf_index := a_rf_index a,
       rf_threshold := a_rf_threshold a, rf_list := a_rf_list a,
       log_realtime := a_log_realtime a\<rparr>"

definition reset_counters :: "'w sim \<Rightarrow> 'w sim" where
  "reset_counters s0 =
     (let s = s0\<lparr>initialized := 1\<rparr>;
          s = s\<lparr>t_g := tmin s, steps := 0, zero_step_count := 0, evaluations_g := 0,
                realtime_g := 0\<rparr>
      in if log_realtime s \<noteq> 0 then s\<lparr>realtime_start := 0\<rparr> else s)"

definition sim_init :: "'w extern \<Rightarrow> 'w sim \<Rightarrow> init_args \<Rightarrow> error option \<times> 'w sim" where
  "sim_init X s0 a =
     (if initialized s0 \<noteq> 0
      then (Some (PyErr PyExc_Exception ''Simulation already initialized.'' []), s0)
      else
        (case bind_ok (init_model X (reset_counters (store_args s0 a)))
               (\<lambda>s. bind_ok (init_context X s)
               (\<lambda>s. bind_ok (init_vectors X s)
               (\<lambda>s. bind_ok (init_state s)
               (\<lambda>s. bind_ok (init_constants s (a_literals a) (a_parameters a))
               (\<lambda>s. bind_ok (init_userdata X s)
               (\<lambda>s. bind_ok (init_pacing X (a_protocols a) s)
               (\<lambda>s. bind_ok (init_solver X s)
               (\<lambda>s. bind_ok (init_root X s)
               (\<lambda>s. init_logging X s))))))))) of
           Inl (e, s) \<Rightarrow> (Some e, sim_clean s)
         | Inr s \<Rightarrow> (None, s)))"

subsection \<open>Evaluating the derivatives at a given state\<close>

text \<open>
  \<^verbatim>\<open>sim_eval_derivatives\<close> works on a model of its own, and reads one variable of the
  module: \<^verbatim>\<open>n_pace\<close>. The result is the exception raised, if any, and the list
  \<^verbatim>\<open>deriv\<close> of the host.
\<close>

definition eval_error :: "string \<Rightarrow> int \<Rightarrow> error" where
  "eval_error msg i = PyErr PyExc_Exception msg [ArgInt i]"

definition sim_eval_derivatives ::
  "'w extern \<Rightarrow> 'w sim \<Rightarrow> real \<Rightarrow> pyobj \<Rightarrow> pyobj \<Rightarrow> pyobj \<Rightarrow> pyobj \<Rightarrow> pyobj
     \<Rightarrow> error option \<times> pyobj" where
  "sim_eval_derivatives X s time_in pace_in state deriv lits pars =
     (if \<not> PyList_Check pace_in
      then (Some (PyErr PyExc_Exception ''Pace argument must be a list.'' []), deriv)
      else if \<not> PyList_Check state
      then (Some (PyErr PyExc_Exception ''State argument must be a list.'' []), deriv)
      else if \<not> PyList_Check deriv
      then (Some (PyErr PyExc_Exception ''Derivatives argument must be a list.'' []), deriv)
      else if \<not> PyList_Check lits
      then (Some (PyErr PyExc_Exception ''Literals argument must be a list.'' []), deriv)
      else if \<not> PyList_Check pars
      then (Some (PyErr PyExc_Exception ''Parameters argument must be a list.'' []), deriv)
      else
        (case Model_Create (fst (lib_alloc X (world s) ''malloc'')) (fresh_memory X (world s)) of
           (flag_model, None) \<Rightarrow> (Some (Model_SetPyErr flag_model), deriv)
         | (flag_model, Some m0) \<Rightarrow>
             if flag_model \<noteq> Model_OK then (Some (Model_SetPyErr flag_model), deriv)
             else
               (case Model_SetupPacing m0 (n_pace_g s) of
                  (flag_model, m1) \<Rightarrow>
                    if flag_model \<noteq> Model_OK then (Some (Model_SetPyErr flag_model), deriv)
                    else
                      (case read_floats pace_in
                              (eval_error ''Item %d in pace vector is not a float.'')
                              [0..<nat (n_pace_g s)] (new_array X s (n_pace_g s)) of
                         Inl e \<Rightarrow> (Some e, deriv)
                       | Inr pacing_in \<Rightarrow>
                           let m2 = Model_SetBoundVariables m1 time_in pacing_in 0 0 in
                           (case read_floats lits
                                   (eval_error ''Item %d in literal vector is not a float.'')
                                   [0..<nat (n_literals m2)] (literals m2) of
                              Inl e \<Rightarrow> (Some e, deriv)
                            | Inr cs \<Rightarrow>
                                let m3 = Model_EvaluateLiteralDerivedVariables
                                           (m2\<lparr>literals := cs\<rparr>) in
                                (case read_floats pars
                                        (eval_error ''Item %d in parameter vector is not a float.'')
                                        [0..<nat (n_parameters m3)] (parameters m3) of
                                   Inl e \<Rightarrow> (Some e, deriv)
                                 | Inr ps \<Rightarrow>
                                     let m4 = Model_EvaluateParameterDerivedVariables
                                                (m3\<lparr>parameters := ps\<rparr>) in
                                     (case read_floats state
                                             (eval_error ''Item %d in state vector is not a float.'')
                                             [0..<nat (n_states m4)] (states m4) of
                                        Inl e \<Rightarrow> (Some e, deriv)
                                      | Inr ys \<Rightarrow>
                                          let m5 = Model_EvaluateDerivatives (m4\<lparr>states := ys\<rparr>)
                                          in (None, set_floats deriv 0 (derivatives m5)
                                                      (n_states m5)))))))))"

section \<open>Specification of the driver\<close>

subsection \<open>What a model keeps for its whole life\<close>

text \<open>The fields of a model that no evaluator and no setter changes: its kind, the sizes
  of its arrays, the description of its sensitivities and its logging bindings.\<close>

definition static ::
  "Model \<Rightarrow> (int \<times> int) \<times> (int \<times> int \<times> int \<times> int \<times> int \<times> int)
     \<times> (int \<times> int \<times> var_ref list \<times> int list \<times> int)
     \<times> (int \<times> int \<times> int \<times> int \<times> int \<times> int \<times> string option \<times> string list \<times> var_ref list)" where
  "static m =
     ((is_ode m, has_sensitivities m),
      (n_states m, n_intermediary m, n_parameters m, n_parameter_derived m, n_literals m,
       n_literal_derived m),
      (ns_dependents m, ns_independents m, s_independents m, s_is_parameter m, ns_intermediary m),
      (logging_initialized m, logging_states m, logging_derivatives m, logging_intermediary m,
       logging_bound m, n_logged_variables m, list_update_string m, log_lists m, log_vars m))"

text \<open>A model without its logging bindings.\<close>

definition unlogged :: "Model \<Rightarrow> Model" where
  "unlogged m =
     m\<lparr>logging_initialized := 0, logging_states := 0, logging_derivatives := 0,
       logging_intermediary := 0, logging_bound := 0, n_logged_variables := 0,
       list_update_string := None, log_lists := [], log_vars := []\<rparr>"

subsection \<open>Frames\<close>

text \<open>
  \<open>frame C s s'\<close>: the state \<open>s'\<close> differs from \<open>s\<close> at most in the module-level variables
  named in \<open>C\<close>, and the model of \<open>s'\<close> has the static part of the model of \<open>s\<close>.
\<close>

datatype field =
    F_initialized
  | F_model
  | F_pacing_types
  | F_pacing
  | F_n_pace_g
  | F_udata_p
  | F_pbar
  | F_realtime_g
  | F_evaluations_g
  | F_steps
  | F_zero_step_count
  | F_y_g
  | F_sy_g
  | F_z_is_y
  | F_z_g
  | F_sz_g
  | F_ylast
  | F_state_py
  | F_s_state_py
  | F_bound_py
  | F_t_g
  | F_tlast
  | F_tnext
  | F_tmin
  | F_tmax
  | F_dynamic_logging
  | F_log_dict
  | F_sens_list
  | F_tlog
  | F_log_interval
  | F_ilog
  | F_log_times
  | F_rf_index
  | F_rf_threshold
  | F_rf_list
  | F_rf_direction
  | F_log_realtime
  | F_realtime_start
  | F_world

fun field_eq :: "field \<Rightarrow> 'w sim \<Rightarrow> 'w sim \<Rightarrow> bool" where
  "field_eq F_initialized s s' \<longleftrightarrow> initialized s' = initialized s"
| "field_eq F_model s s' \<longleftrightarrow> model s' = model s"
| "field_eq F_pacing_types s s' \<longleftrightarrow> pacing_types s' = pacing_types s"
| "field_eq F_pacing s s' \<longleftrightarrow> pacing s' = pacing s"
| "field_eq F_n_pace_g s s' \<longleftrightarrow> n_pace_g s' = n_pace_g s"
| "field_eq F_udata_p s s' \<longleftrightarrow> udata_p s' = udata_p s"
| "field_eq F_pbar s s' \<longleftrightarrow> pbar s' = pbar s"
| "field_eq F_realtime_g s s' \<longleftrightarrow> realtime_g s' = realtime_g s"
| "field_eq F_evaluations_g s s' \<longleftrightarrow> evaluations_g s' = evaluations_g s"
| "field_eq F_steps s s' \<longleftrightarrow> steps s' = steps s"
| "field_eq F_zero_step_count s s' \<longleftrightarrow> zero_step_count s' = zero_step_count s"
| "field_eq F_y_g s s' \<longleftrightarrow> y_g s' = y_g s"
| "field_eq F_sy_g s s' \<longleftrightarrow> sy_g s' = sy_g s"
| "field_eq F_z_is_y s s' \<longleftrightarrow> z_is_y s' = z_is_y s"
| "field_eq F_z_g s s' \<longleftrightarrow> z_g s' = z_g s"
| "field_eq F_sz_g s s' \<longleftrightarrow> sz_g s' = sz_g s"
| "field_eq F_ylast s s' \<longleftrightarrow> ylast s' = ylast s"
| "field_eq F_state_py s s' \<longleftrightarrow> state_py s' = state_py s"
| "field_eq F_s_state_py s s' \<longleftrightarrow> s_state_py s' = s_state_py s"
| "field_eq F_bound_py s s' \<longleftrightarrow> bound_py s' = bound_py s"
| "field_eq F_t_g s s' \<longleftrightarrow> t_g s' = t_g s"
| "field_eq F_tlast s s' \<longleftrightarrow> tlast s' = tlast s"
| "field_eq F_tnext s s' \<longleftrightarrow> tnext s' = tnext s"
| "field_eq F_tmin s s' \<longleftrightarrow> tmin s' = tmin s"
| "field_eq F_tmax s s' \<longleftrightarrow> tmax s' = tmax s"
| "field_eq F_dynamic_logging s s' \<longleftrightarrow> dynamic_logging s' = dynamic_logging s"
| "field_eq F_log_dict s s' \<longleftrightarrow> log_dict s' = log_dict s"
| "field_eq F_sens_list s s' \<longleftrightarrow> sens_list s' = sens_list s"
| "field_eq F_tlog s s' \<longleftrightarrow> tlog s' = tlog s"
| "field_eq F_log_interval s s' \<longleftrightarrow> log_interval s' = log_interval s"
| "field_eq F_ilog s s' \<longleftrightarrow> ilog s' = ilog s"
| "field_eq F_log_times s s' \<longleftrightarrow> log_times s' = log_times s"
| "field_eq F_rf_index s s' \<longleftrightarrow> rf_index s' = rf_index s"
| "field_eq F_rf_threshold s s' \<longleftrightarrow> rf_threshold s' = rf_threshold s"
| "field_eq F_rf_list s s' \<longleftrightarrow> rf_list s' = rf_list s"
| "field_eq F_rf_direction s s' \<longleftrightarrow> rf_direction s' = rf_direction s"
| "field_eq F_log_realtime s s' \<longleftrightarrow> log_realtime s' = log_realtime s"
| "field_eq F_realtime_start s s' \<longleftrightarrow> realtime_start s' = realtime_start s"
| "field_eq F_world s s' \<longleftrightarrow> world s' = world s"

definition frame :: "field set \<Rightarrow> 'w sim \<Rightarrow> 'w sim \<Rightarrow> bool" where
  "frame C s s' \<longleftrightarrow>
     static (model s') = static (model s) \<and> (\<forall>f. f \<notin> C \<longrightarrow> field_eq f s s')"

text \<open>The state in which a phase ends, whether it raised or not.\<close>

definition st :: "(error \<times> 's) + 's \<Rightarrow> 's" where
  "st r = (case r of Inl (e, s) \<Rightarrow> s | Inr s \<Rightarrow> s)"

definition st2 :: "(error \<times> 's) + ('a \<times> 's) \<Rightarrow> 's" where
  "st2 r = (case r of Inl (e, s) \<Rightarrow> s | Inr (x, s) \<Rightarrow> s)"

definition st3 :: "(error \<times> 's) + ('a \<times> 'b \<times> 's) \<Rightarrow> 's" where
  "st3 r = (case r of Inl (e, s) \<Rightarrow> s | Inr (x, y, s) \<Rightarrow> s)"

subsection \<open>A whole simulation\<close>

text \<open>
  Modelled from the spec: the host initialises a simulation and then calls \<^verbatim>\<open>step\<close> until
  the simulation is finished or fails. \<open>simulate X n s0 a\<close> is \<^verbatim>\<open>init\<close> with the arguments
  \<open>a\<close> followed by at most \<open>n\<close> calls of \<^verbatim>\<open>step\<close>.
\<close>

definition simulate ::
  "'w extern \<Rightarrow> nat \<Rightarrow> 'w sim \<Rightarrow> init_args \<Rightarrow> ((error + real) \<times> 'w sim) option" where
  "simulate X n s0 a =
     (case sim_init X s0 a of
        (Some e, s) \<Rightarrow> Some (Inl e, s)
      | (None, s) \<Rightarrow> run X n s)"

subsection \<open>Kinds of errors\<close>

definition cvode_step_failure :: "error \<Rightarrow> bool" where
  "cvode_step_failure e \<longleftrightarrow> (\<exists>flag. flag < 0 \<and> e = cvode_message flag)"

definition zero_step_error :: "real \<Rightarrow> error" where
  "zero_step_error t =
     PyErr PyExc_ArithmeticError ''Maximum number of zero-length steps taken at t=%g'' [ArgReal t]"

definition log_append_error :: error where
  "log_append_error = Model_SetPyErr Model_LOG_APPEND_FAILED"

text \<open>The errors of a pass that are raised after the integrator step and the check of
  progress: every error that is neither a failure of \<^verbatim>\<open>CVode\<close> nor the limit of the
  zero-length steps.\<close>

definition late_error :: "error \<Rightarrow> bool" where
  "late_error e \<longleftrightarrow> \<not> cvode_step_failure e \<and> (\<forall>t. e \<noteq> zero_step_error t)"

text \<open>The return values of \<^verbatim>\<open>CVode\<close> in the mode \<^verbatim>\<open>CV_ONE_STEP\<close> without a stop time, as
  the documentation of the integrator gives them: \<^verbatim>\<open>CV_SUCCESS\<close>, \<^verbatim>\<open>CV_ROOT_RETURN\<close>, or a
  negative flag.\<close>

definition cvode_flags_documented :: "'w extern \<Rightarrow> bool" where
  "cvode_flags_documented X \<longleftrightarrow>
     (\<forall>w tout y t. fst (fst (CVode X w tout y t)) < 0
        \<or> fst (fst (CVode X w tout y t)) = CV_SUCCESS
        \<or> fst (fst (CVode X w tout y t)) = CV_ROOT_RETURN)"

subsection \<open>Sets of variables that the phases of a step may change\<close>

definition step_fields :: "field set" where
  "step_fields = {F_world, F_pacing, F_evaluations_g, F_model, F_y_g, F_t_g}"

text \<open>What the initialisation may change between the creation of the model and the
  set-up of the logging.\<close>

definition init_fields :: "field set" where
  "init_fields = {F_world, F_y_g, F_ylast, F_sy_g, F_dynamic_logging, F_z_is_y, F_z_g, F_sz_g,
     F_model, F_udata_p, F_pbar, F_n_pace_g, F_pacing_types, F_pacing, F_tnext,
     F_rf_direction}"

definition log_point_fields :: "field set" where
  "log_point_fields = {F_world, F_realtime_g, F_y_g, F_z_g, F_sy_g, F_sz_g, F_pacing,
     F_evaluations_g, F_model, F_log_dict, F_ilog, F_tlog}"

definition dynamic_log_fields :: "field set" where
  "dynamic_log_fields = {F_world, F_realtime_g, F_pacing, F_evaluations_g, F_model, F_log_dict}"

definition block_fields :: "field set" where
  "block_fields = {F_world, F_realtime_g, F_y_g, F_z_g, F_sy_g, F_sz_g, F_pacing,
     F_evaluations_g, F_model, F_log_dict, F_ilog, F_tlog, F_t_g, F_rf_direction, F_rf_list,
     F_tnext}"

definition body_fields :: "field set" where
  "body_fields = {F_world, F_realtime_g, F_y_g, F_z_g, F_sy_g, F_sz_g, F_pacing,
     F_evaluations_g, F_model, F_log_dict, F_ilog, F_tlog, F_t_g, F_rf_direction, F_rf_list,
     F_tnext, F_ylast, F_tlast, F_zero_step_count, F_steps}"

text \<open>The sensitivity list may change only if the model has sensitivities.\<close>

definition sens_ok :: "field set \<Rightarrow> 'w sim \<Rightarrow> bool" where
  "sens_ok E s \<longleftrightarrow> (has_sensitivities (model s) \<noteq> 0 \<longrightarrow> F_sens_list \<in> E)"

subsection \<open>A concrete environment\<close>

text \<open>
  An environment for the examples: every allocation and every library call succeeds,
  fresh memory holds zeros, the integrator advances the time by \<open>h\<close> and leaves \<^verbatim>\<open>y\<close> as it
  is, event-based pacing has its next event at the time \<open>10^6\<close>, and \<^verbatim>\<open>ESys_eq\<close> is equality.
  Its state is the number of signals checks still to pass before a signal arrives
  (\<open>0\<close>: none is pending).
\<close>

definition X0 :: "real \<Rightarrow> unit extern" where
  "X0 h =
     \<lparr>CVode = (\<lambda>w tout y t. ((0, y, t + h, []), w)),
      CVodeGetDky = (\<lambda>w t y. (0, y)),
      CVodeGetSensDky = (\<lambda>w t sv. (0, sv)),
      CVodeGetSens = (\<lambda>w t sv. (0, t, sv)),
      CVodeGetRootInfo = (\<lambda>w. (0, 1)),
      CVodeReInit = (\<lambda>w t y. (0, w)),
      CVodeSensReInit = (\<lambda>w sv. (0, w)),
      ESys_Create = (\<lambda>w i. (ESys_OK, w)),
      ESys_Populate = (\<lambda>w i p. (ESys_OK, w)),
      ESys_AdvanceTime = (\<lambda>w i t. (ESys_OK, w)),
      ESys_GetNextTime = (\<lambda>w i. 1000000),
      ESys_GetLevel = (\<lambda>w i. 0),
      ESys_eq = (\<lambda>a b. a = b),
      FSys_Create = (\<lambda>w i. (FSys_OK, w)),
      FSys_Populate = (\<lambda>w i p. (FSys_OK, w)),
      FSys_GetLevel = (\<lambda>w i t. (0, FSys_OK)),
      PyErr_CheckSignals = (\<lambda>w. (0, w)),
      benchmarker_time = (\<lambda>w. (PyFloat 1, w)),
      lib_alloc = (\<lambda>w f. (True, w)),
      lib_call = (\<lambda>w f. (0, w)),
      fresh_memory = (\<lambda>w i. 0)\<rparr>"

text \<open>The module-level variables of a process in which the driver has not run yet:
  static storage is zero.\<close>

definition null_model :: Model where
  "null_model =
     \<lparr>is_ode = 0, has_sensitivities = 0, pace_values = [], n_pace = 0, time = 0, realtime = 0,
      evaluations = 0, n_states = 0, states = [], derivatives = [], n_intermediary = 0,
      intermediary = [], n_parameters = 0, n_parameter_derived = 0, parameters = [],
      parameter_derived = [], n_literals = 0, n_literal_derived = 0, literals = [],
      literal_derived = [], ns_dependents = 0, ns_independents = 0, s_independents = [],
      s_is_parameter = [], s_states = [], ns_intermediary = 0, s_intermediary = [],
      logging_initialized = 0, logging_states = 0, logging_derivatives = 0,
      logging_intermediary = 0, logging_bound = 0, n_logged_variables = 0,
      list_update_string = None, log_lists = [], log_vars = []\<rparr>"

definition s_boot :: "unit sim" where
  "s_boot =
     \<lparr>initialized = 0, model = null_model, pacing_types = [], pacing = [], n_pace_g = 0,
      udata_p = [], pbar = [], realtime_g = 0, evaluations_g = 0, steps = 0,
      zero_step_count = 0, y_g = [], sy_g = [], z_is_y = False, z_g = [], sz_g = [],
      ylast = [], state_py = PyNone, s_state_py = PyNone, bound_py = PyNone, t_g = 0,
      tlast = 0, tnext = 0, tmin = 0, tmax = 0, dynamic_logging = 0, log_dict = [],
      sens_list = PyNone, tlog = 0, log_interval = 0, ilog = 0, log_times = PyNone,
      rf_index = 0, rf_threshold = 0, rf_list = PyNone, rf_direction = [], log_realtime = 0,
      realtime_start = 0, world = ()\<rparr>"

text \<open>The model that \<^verbatim>\<open>Model_Create\<close> returns when the allocation succeeds.\<close>

definition created :: "(nat \<Rightarrow> real) \<Rightarrow> Model" where
  "created junk = (case Model_Create True junk of (flag, Some m) \<Rightarrow> m | (flag, None) \<Rightarrow> null_model)"

text \<open>Arguments for \<^verbatim>\<open>eval_derivatives\<close>: one pacing value, the eight states and the
  seventeen literals of the model, no parameters, and a list for the result.\<close>

definition pace1 :: pyobj where
  "pace1 = PyList [PyFloat 1]"

definition state8 :: pyobj where
  "state8 = PyList (map PyFloat [- 84, 0, 1, 1, 0, 1, 0, 1 / 5000])"

definition lits17 :: pyobj where
  "lits17 = PyList (map PyFloat [1.8, 145, 5.4, 10, 140, 96500, 8314, 310, - 59.87, 0.03921,
                                  0.09, 0.01833, 16, 0.0183, 1, 0, - 80])"

definition deriv8 :: pyobj where
  "deriv8 = PyList (replicate 8 PyNone)"

text \<open>Arguments for \<^verbatim>\<open>init\<close>: a simulation from the time \<open>0\<close> to the time \<open>2\<close> without pacing
  protocols, without root finding and without real time, that logs the time every unit
  of time.\<close>

definition args0 :: init_args where
  "args0 =
     \<lparr>a_tmin = 0, a_tmax = 2, a_state = state8, a_s_state = PyNone,
      a_bound = PyList (replicate 3 PyNone), a_literals = lits17, a_parameters = PyList [],
      a_protocols = PyNone, a_log = [(''engine.time'', PyList [])], a_log_interval = 1,
      a_log_times = PyNone, a_sens_list = PyList [], a_rf_index = 0, a_rf_threshold = 0,
      a_rf_list = PyNone, a_log_realtime = 0\<rparr>"

text \<open>The state in which \<^verbatim>\<open>init\<close> leaves the module for these arguments, up to the model
  \<open>m\<close>; and what \<^verbatim>\<open>init\<close> has settled about that model: it is the model of this file, and
  the time is its one logged variable.\<close>

definition s_run :: "Model \<Rightarrow> unit sim" where
  "s_run m =
     s_boot\<lparr>initialized := 1, model := m,
            y_g := [- 84, 0, 1, 1, 0, 1, 0, 1 / 5000], z_g := replicate 8 0,
            ylast := replicate 8 0, state_py := state8,
            bound_py := PyList (replicate 3 PyNone), tnext := 2, tmax := 2,
            log_dict := [(''engine.time'', PyList [])], sens_list := PyList [],
            log_interval := 1\<rparr>"

definition time_logged :: "Model \<Rightarrow> bool" where
  "time_logged m \<longleftrightarrow>
     static m = ((1, 0), (8, 27, 0, 0, 17, 6), (0, 0, [], [], 0),
                 (1, 0, 0, 0, 1, 1, Some ''append'', [''engine.time''], [Ref_time]))"

text \<open>The same simulation after 499 steps of length zero in a row.\<close>

definition s_stalled :: "unit sim" where
  "s_stalled = (snd (sim_init (X0 0) s_boot args0))\<lparr>zero_step_count := 499\<rparr>"

text \<open>Arguments for a long simulation that logs at the points of an empty list, that
  is, never; and the state in which \<^verbatim>\<open>init\<close> leaves the module for them, up to the model.\<close>

definition args_quiet :: init_args where
  "args_quiet = args0\<lparr>a_tmax := 1000, a_log_interval := 0, a_log_times := PyList []\<rparr>"

definition s_quiet :: "Model \<Rightarrow> unit sim" where
  "s_quiet m =
     (s_run m)\<lparr>tnext := 1000, tmax := 1000, log_interval := 0, log_times := PyList [],
               tlog := 1001\<rparr>"

text \<open>An environment whose integrator fails at every step with the flag
  \<^verbatim>\<open>CV_CONV_FAILURE\<close>, and arguments whose one log sink is \<^verbatim>\<open>None\<close>, an object without
  \<^verbatim>\<open>append\<close>.\<close>

definition X_fail :: "unit extern" where
  "X_fail = (X0 1)\<lparr>CVode := (\<lambda>w tout y t. ((- 4, y, t, []), w))\<rparr>"

definition args_bad :: init_args where
  "args_bad = args0\<lparr>a_log := [(''engine.time'', PyNone)]\<rparr>"

section \<open>Proofs\<close>

subsection \<open>Frames of the phases\<close>

lemma block_Nil [simp]: "block [] s = s"
  by (simp add: block_def)

lemma block_Cons [simp]: "block (f # fs) s = block fs (f s)"
  by (simp add: block_def)

lemma st_simps [simp]: "st (Inl (e, s)) = s" "st (Inr s) = s"
  by (simp_all add: st_def)

lemma st2_simps [simp]: "st2 (Inl (e, s)) = s" "st2 (Inr (x, s)) = s"
  by (simp_all add: st2_def)

lemma st3_simps [simp]: "st3 (Inl (e, s)) = s" "st3 (Inr (x, y, s)) = s"
  by (simp_all add: st3_def)

lemma bind_ok_simps [simp]: "bind_ok (Inl e) f = Inl e" "bind_ok (Inr x) f = f x"
  by (simp_all add: bind_ok_def)

lemma frame_refl [simp]: "frame C s s"
  by (simp add: frame_def) (rule allI, case_tac f; simp)

lemma field_eq_trans: "field_eq f s s1 \<Longrightarrow> field_eq f s1 s2 \<Longrightarrow> field_eq f s s2"
  by (cases f) simp_all

lemma frame_trans: "frame C s s1 \<Longrightarrow> frame D s1 s2 \<Longrightarrow> frame (C \<union> D) s s2"
  unfolding frame_def by (auto intro: field_eq_trans)

lemma frame_mono: "frame C s s' \<Longrightarrow> C \<subseteq> D \<Longrightarrow> frame D s s'"
  unfolding frame_def by blast

lemma frame_static: "frame C s s' \<Longrightarrow> static (model s') = static (model s)"
  by (simp add: frame_def)

lemma frame_upd_initialized [simp]:
  "F_initialized \<in> C \<Longrightarrow> frame C s (s'\<lparr>initialized := v\<rparr>) = frame C s s'"
  unfolding frame_def
  by (rule conj_cong, simp, rule all_cong1, case_tac f; simp; blast)

lemma frame_upd_pacing_types [simp]:
  "F_pacing_types \<in> C \<Longrightarrow> frame C s (s'\<lparr>pacing_types := v\<rparr>) = frame C s s'"
  unfolding frame_def
  by (rule conj_cong, simp, rule all_cong1, case_tac f; simp; blast)

lemma frame_upd_pacing [simp]:
  "F_pacing \<in> C \<Longrightarrow> frame C s (s'\<lparr>pacing := v\<rparr>) = frame C s s'"
  unfolding frame_def
  by (rule conj_cong, simp, rule all_cong1, case_tac f; simp; blast)

lemma frame_upd_n_pace_g [simp]:
  "F_n_pace_g \<in> C \<Longrightarrow> frame C s (s'\<lparr>n_pace_g := v\<rparr>) = frame C s s'"
  unfolding frame_def
  by (rule conj_cong, simp, rule all_cong1, case_tac f; simp; blast)

lemma frame_upd_udata_p [simp]:
  "F_udata_p \<in> C \<Longrightarrow> frame C s (s'\<lparr>udata_p := v\<rparr>) = frame C s s'"
  unfolding frame_def
  by (rule conj_cong, simp, rule all_cong1, case_tac f; simp; blast)

lemma frame_upd_pbar [simp]:
  "F_pbar \<in> C \<Longrightarrow> frame C s (s'\<lparr>pbar := v\<rparr>) = frame C s s'"
  unfolding frame_def
  by (rule conj_cong, simp, rule all_cong1, case_tac f; simp; blast)

lemma frame_upd_realtime_g [simp]:
  "F_realtime_g \<in> C \<Longrightarrow> frame C s (s'\<lparr>realtime_g := v\<rparr>) = frame C s s'"
  unfolding frame_def
  by (rule conj_cong, simp, rule all_cong1, case_tac f; simp; blast)

lemma frame_upd_evaluations_g [simp]:
  "F_evaluations_g \<in> C \<Longrightarrow> frame C s (s'\<lparr>evaluations_g := v\<rparr>) = frame C s s'"
  unfolding frame_def
  by (rule conj_cong, simp, rule all_cong1, case_tac f; simp; blast)

lemma frame_upd_steps [simp]:
  "F_steps \<in> C \<Longrightarrow> frame C s (s'\<lparr>steps := v\<rparr>) = frame C s s'"
  unfolding frame_def
  by (rule conj_cong, simp, rule all_cong1, case_tac f; simp; blast)

lemma frame_upd_zero_step_count [simp]:
  "F_zero_step_count \<in> C \<Longrightarrow> frame C s (s'\<lparr>zero_step_count := v\<rparr>) = frame C s s'"
  unfolding frame_def
  by (rule conj_cong, simp, rule all_cong1, case_tac f; simp; blast)

lemma frame_upd_y_g [simp]:
  "F_y_g \<in> C \<Longrightarrow> frame C s (s'\<lparr>y_g := v\<rparr>) = frame C s s'"
  unfolding frame_def
  by (rule conj_cong, simp, rule all_cong1, case_tac f; simp; blast)

lemma frame_upd_sy_g [simp]:
  "F_sy_g \<in> C \<Longrightarrow> frame C s (s'\<lparr>sy_g := v\<rparr>) = frame C s s'"
  unfolding frame_def
  by (rule conj_cong, simp, rule all_cong1, case_tac f; simp; blast)

lemma frame_upd_z_is_y [simp]:
  "F_z_is_y \<in> C \<Longrightarrow> frame C s (s'\<lparr>z_is_y := v\<rparr>) = frame C s s'"
  unfolding frame_def
  by (rule conj_cong, simp, rule all_cong1, case_tac f; simp; blast)

lemma frame_upd_z_g [simp]:
  "F_z_g \<in> C \<Longrightarrow> frame C s (s'\<lparr>z_g := v\<rparr>) = frame C s s'"
  unfolding frame_def
  by (rule conj_cong, simp, rule all_cong1, case_tac f; simp; blast)

lemma frame_upd_sz_g [simp]:
  "F_sz_g \<in> C \<Longrightarrow> frame C s (s'\<lparr>sz_g := v\<rparr>) = frame C s s'"
  unfolding frame_def
  by (rule conj_cong, simp, rule all_cong1, case_tac f; simp; blast)

lemma frame_upd_ylast [simp]:
  "F_ylast \<in> C \<Longrightarrow> frame C s (s'\<lparr>ylast := v\<rparr>) = frame C s s'"
  unfolding frame_def
  by (rule conj_cong, simp, rule all_cong1, case_tac f; simp; blast)

lemma frame_upd_state_py [simp]:
  "F_state_py \<in> C \<Longrightarrow> frame C s (s'\<lparr>state_py := v\<rparr>) = frame C s s'"
  unfolding frame_def
  by (rule conj_cong, simp, rule all_cong1, case_tac f; simp; blast)

lemma frame_upd_s_state_py [simp]:
  "F_s_state_py \<in> C \<Longrightarrow> frame C s (s'\<lparr>s_state_py := v\<rparr>) = frame C s s'"
  unfolding frame_def
  by (rule conj_cong, simp, rule all_cong1, case_tac f; simp; blast)

lemma frame_upd_bound_py [simp]:
  "F_bound_py \<in> C \<Longrightarrow> frame C s (s'\<lparr>bound_py := v\<rparr>) = frame C s s'"
  unfolding frame_def
  by (rule conj_cong, simp, rule all_cong1, case_tac f; simp; blast)

lemma frame_upd_t_g [simp]:
  "F_t_g \<in> C \<Longrightarrow> frame C s (s'\<lparr>t_g := v\<rparr>) = frame C s s'"
  unfolding frame_def
  by (rule conj_cong, simp, rule all_cong1, case_tac f; simp; blast)

lemma frame_upd_tlast [simp]:
  "F_tlast \<in> C \<Longrightarrow> frame C s (s'\<lparr>tlast := v\<rparr>) = frame C s s'"
  unfolding frame_def
  by (rule conj_cong, simp, rule all_cong1, case_tac f; simp; blast)

lemma frame_upd_tnext [simp]:
  "F_tnext \<in> C \<Longrightarrow> frame C s (s'\<lparr>tnext := v\<rparr>) = frame C s s'"
  unfolding frame_def
  by (rule conj_cong, simp, rule all_cong1, case_tac f; simp; blast)

lemma frame_upd_tmin [simp]:
  "F_tmin \<in> C \<Longrightarrow> frame C s (s'\<lparr>tmin := v\<rparr>) = frame C s s'"
  unfolding frame_def
  by (rule conj_cong, simp, rule all_cong1, case_tac f; simp; blast)

lemma frame_upd_tmax [simp]:
  "F_tmax \<in> C \<Longrightarrow> frame C s (s'\<lparr>tmax := v\<rparr>) = frame C s s'"
  unfolding frame_def
  by (rule conj_cong, simp, rule all_cong1, case_tac f; simp; blast)

lemma frame_upd_dynamic_logging [simp]:
  "F_dynamic_logging \<in> C \<Longrightarrow> frame C s (s'\<lparr>dynamic_logging := v\<rparr>) = frame C s s'"
  unfolding frame_def
  by (rule conj_cong, simp, rule all_cong1, case_tac f; simp; blast)

lemma frame_upd_log_dict [simp]:
  "F_log_dict \<in> C \<Longrightarrow> frame C s (s'\<lparr>log_dict := v\<rparr>) = frame C s s'"
  unfolding frame_def
  by (rule conj_cong, simp, rule all_cong1, case_tac f; simp; blast)

lemma frame_upd_sens_list [simp]:
  "F_sens_list \<in> C \<Longrightarrow> frame C s (s'\<lparr>sens_list := v\<rparr>) = frame C s s'"
  unfolding frame_def
  by (rule conj_cong, simp, rule all_cong1, case_tac f; simp; blast)

lemma frame_upd_tlog [simp]:
  "F_tlog \<in> C \<Longrightarrow> frame C s (s'\<lparr>tlog := v\<rparr>) = frame C s s'"
  unfolding frame_def
  by (rule conj_cong, simp, rule all_cong1, case_tac f; simp; blast)

lemma frame_upd_log_interval [simp]:
  "F_log_interval \<in> C \<Longrightarrow> frame C s (s'\<lparr>log_interval := v\<rparr>) = frame C s s'"
  unfolding frame_def
  by (rule conj_cong, simp, rule all_cong1, case_tac f; simp; blast)

lemma frame_upd_ilog [simp]:
  "F_ilog \<in> C \<Longrightarrow> frame C s (s'\<lparr>ilog := v\<rparr>) = frame C s s'"
  unfolding frame_def
  by (rule conj_cong, simp, rule all_cong1, case_tac f; simp; blast)

lemma frame_upd_log_times [simp]:
  "F_log_times \<in> C \<Longrightarrow> frame C s (s'\<lparr>log_times := v\<rparr>) = frame C s s'"
  unfolding frame_def
  by (rule conj_cong, simp, rule all_cong1, case_tac f; simp; blast)

lemma frame_upd_rf_index [simp]:
  "F_rf_index \<in> C \<Longrightarrow> frame C s (s'\<lparr>rf_index := v\<rparr>) = frame C s s'"
  unfolding frame_def
  by (rule conj_cong, simp, rule all_cong1, case_tac f; simp; blast)

lemma frame_upd_rf_threshold [simp]:
  "F_rf_threshold \<in> C \<Longrightarrow> frame C s (s'\<lparr>rf_threshold := v\<rparr>) = frame C s s'"
  unfolding frame_def
  by (rule conj_cong, simp, rule all_cong1, case_tac f; simp; blast)

lemma frame_upd_rf_list [simp]:
  "F_rf_list \<in> C \<Longrightarrow> frame C s (s'\<lparr>rf_list := v\<rparr>) = frame C s s'"
  unfolding frame_def
  by (rule conj_cong, simp, rule all_cong1, case_tac f; simp; blast)

lemma frame_upd_rf_direction [simp]:
  "F_rf_direction \<in> C \<Longrightarrow> frame C s (s'\<lparr>rf_direction := v\<rparr>) = frame C s s'"
  unfolding frame_def
  by (rule conj_cong, simp, rule all_cong1, case_tac f; simp; blast)

lemma frame_upd_log_realtime [simp]:
  "F_log_realtime \<in> C \<Longrightarrow> frame C s (s'\<lparr>log_realtime := v\<rparr>) = frame C s s'"
  unfolding frame_def
  by (rule conj_cong, simp, rule all_cong1, case_tac f; simp; blast)

lemma frame_upd_realtime_start [simp]:
  "F_realtime_start \<in> C \<Longrightarrow> frame C s (s'\<lparr>realtime_start := v\<rparr>) = frame C s s'"
  unfolding frame_def
  by (rule conj_cong, simp, rule all_cong1, case_tac f; simp; blast)

lemma frame_upd_world [simp]:
  "F_world \<in> C \<Longrightarrow> frame C s (s'\<lparr>world := v\<rparr>) = frame C s s'"
  unfolding frame_def
  by (rule conj_cong, simp, rule all_cong1, case_tac f; simp; blast)

lemma frame_upd_model [simp]:
  "F_model \<in> C \<Longrightarrow> static m = static (model s) \<Longrightarrow> static (model s') = static (model s)
     \<Longrightarrow> frame C s (s'\<lparr>model := m\<rparr>) = frame C s s'"
  unfolding frame_def
  by (rule conj_cong, simp, rule all_cong1, case_tac f; simp; blast)

lemma frame_initialized: "frame C s s' \<Longrightarrow> F_initialized \<notin> C \<Longrightarrow> initialized s' = initialized s"
  unfolding frame_def by (drule conjunct2, drule spec[of _ F_initialized], simp)

lemma frame_model: "frame C s s' \<Longrightarrow> F_model \<notin> C \<Longrightarrow> model s' = model s"
  unfolding frame_def by (drule conjunct2, drule spec[of _ F_model], simp)

lemma frame_pacing_types: "frame C s s' \<Longrightarrow> F_pacing_types \<notin> C \<Longrightarrow> pacing_types s' = pacing_types s"
  unfolding frame_def by (drule conjunct2, drule spec[of _ F_pacing_types], simp)

lemma frame_pacing: "frame C s s' \<Longrightarrow> F_pacing \<notin> C \<Longrightarrow> pacing s' = pacing s"
  unfolding frame_def by (drule conjunct2, drule spec[of _ F_pacing], simp)

lemma frame_n_pace_g: "frame C s s' \<Longrightarrow> F_n_pace_g \<notin> C \<Longrightarrow> n_pace_g s' = n_pace_g s"
  unfolding frame_def by (drule conjunct2, drule spec[of _ F_n_pace_g], simp)

lemma frame_udata_p: "frame C s s' \<Longrightarrow> F_udata_p \<notin> C \<Longrightarrow> udata_p s' = udata_p s"
  unfolding frame_def by (drule conjunct2, drule spec[of _ F_udata_p], simp)

lemma frame_pbar: "frame C s s' \<Longrightarrow> F_pbar \<notin> C \<Longrightarrow> pbar s' = pbar s"
  unfolding frame_def by (drule conjunct2, drule spec[of _ F_pbar], simp)

lemma frame_realtime_g: "frame C s s' \<Longrightarrow> F_realtime_g \<notin> C \<Longrightarrow> realtime_g s' = realtime_g s"
  unfolding frame_def by (drule conjunct2, drule spec[of _ F_realtime_g], simp)

lemma frame_evaluations_g: "frame C s s' \<Longrightarrow> F_evaluations_g \<notin> C \<Longrightarrow> evaluations_g s' = evaluations_g s"
  unfolding frame_def by (drule conjunct2, drule spec[of _ F_evaluations_g], simp)

lemma frame_steps: "frame C s s' \<Longrightarrow> F_steps \<notin> C \<Longrightarrow> steps s' = steps s"
  unfolding frame_def by (drule conjunct2, drule spec[of _ F_steps], simp)

lemma frame_zero_step_count: "frame C s s' \<Longrightarrow> F_zero_step_count \<notin> C \<Longrightarrow> zero_step_count s' = zero_step_count s"
  unfolding frame_def by (drule conjunct2, drule spec[of _ F_zero_step_count], simp)

lemma frame_y_g: "frame C s s' \<Longrightarrow> F_y_g \<notin> C \<Longrightarrow> y_g s' = y_g s"
  unfolding frame_def by (drule conjunct2, drule spec[of _ F_y_g], simp)

lemma frame_sy_g: "frame C s s' \<Longrightarrow> F_sy_g \<notin> C \<Longrightarrow> sy_g s' = sy_g s"
  unfolding frame_def by (drule conjunct2, drule spec[of _ F_sy_g], simp)

lemma frame_z_is_y: "frame C s s' \<Longrightarrow> F_z_is_y \<notin> C \<Longrightarrow> z_is_y s' = z_is_y s"
  unfolding frame_def by (drule conjunct2, drule spec[of _ F_z_is_y], simp)

lemma frame_z_g: "frame C s s' \<Longrightarrow> F_z_g \<notin> C \<Longrightarrow> z_g s' = z_g s"
  unfolding frame_def by (drule conjunct2, drule spec[of _ F_z_g], simp)

lemma frame_sz_g: "frame C s s' \<Longrightarrow> F_sz_g \<notin> C \<Longrightarrow> sz_g s' = sz_g s"
  unfolding frame_def by (drule conjunct2, drule spec[of _ F_sz_g], simp)

lemma frame_ylast: "frame C s s' \<Longrightarrow> F_ylast \<notin> C \<Longrightarrow> ylast s' = ylast s"
  unfolding frame_def by (drule conjunct2, drule spec[of _ F_ylast], simp)

lemma frame_state_py: "frame C s s' \<Longrightarrow> F_state_py \<notin> C \<Longrightarrow> state_py s' = state_py s"
  unfolding frame_def by (drule conjunct2, drule spec[of _ F_state_py], simp)

lemma frame_s_state_py: "frame C s s' \<Longrightarrow> F_s_state_py \<notin> C \<Longrightarrow> s_state_py s' = s_state_py s"
  unfolding frame_def by (drule conjunct2, drule spec[of _ F_s_state_py], simp)

lemma frame_bound_py: "frame C s s' \<Longrightarrow> F_bound_py \<notin> C \<Longrightarrow> bound_py s' = bound_py s"
  unfolding frame_def by (drule conjunct2, drule spec[of _ F_bound_py], simp)

lemma frame_t_g: "frame C s s' \<Longrightarrow> F_t_g \<notin> C \<Longrightarrow> t_g s' = t_g s"
  unfolding frame_def by (drule conjunct2, drule spec[of _ F_t_g], simp)

lemma frame_tlast: "frame C s s' \<Longrightarrow> F_tlast \<notin> C \<Longrightarrow> tlast s' = tlast s"
  unfolding frame_def by (drule conjunct2, drule spec[of _ F_tlast], simp)

lemma frame_tnext: "frame C s s' \<Longrightarrow> F_tnext \<notin> C \<Longrightarrow> tnext s' = tnext s"
  unfolding frame_def by (drule conjunct2, drule spec[of _ F_tnext], simp)

lemma frame_tmin: "frame C s s' \<Longrightarrow> F_tmin \<notin> C \<Longrightarrow> tmin s' = tmin s"
  unfolding frame_def by (drule conjunct2, drule spec[of _ F_tmin], simp)

lemma frame_tmax: "frame C s s' \<Longrightarrow> F_tmax \<notin> C \<Longrightarrow> tmax s' = tmax s"
  unfolding frame_def by (drule conjunct2, drule spec[of _ F_tmax], simp)

lemma frame_dynamic_logging: "frame C s s' \<Longrightarrow> F_dynamic_logging \<notin> C \<Longrightarrow> dynamic_logging s' = dynamic_logging s"
  unfolding frame_def by (drule conjunct2, drule spec[of _ F_dynamic_logging], simp)

lemma frame_log_dict: "frame C s s' \<Longrightarrow> F_log_dict \<notin> C \<Longrightarrow> log_dict s' = log_dict s"
  unfolding frame_def by (drule conjunct2, drule spec[of _ F_log_dict], simp)

lemma frame_sens_list: "frame C s s' \<Longrightarrow> F_sens_list \<notin> C \<Longrightarrow> sens_list s' = sens_list s"
  unfolding frame_def by (drule conjunct2, drule spec[of _ F_sens_list], simp)

lemma frame_tlog: "frame C s s' \<Longrightarrow> F_tlog \<notin> C \<Longrightarrow> tlog s' = tlog s"
  unfolding frame_def by (drule conjunct2, drule spec[of _ F_tlog], simp)

lemma frame_log_interval: "frame C s s' \<Longrightarrow> F_log_interval \<notin> C \<Longrightarrow> log_interval s' = log_interval s"
  unfolding frame_def by (drule conjunct2, drule spec[of _ F_log_interval], simp)

lemma frame_ilog: "frame C s s' \<Longrightarrow> F_ilog \<notin> C \<Longrightarrow> ilog s' = ilog s"
  unfolding frame_def by (drule conjunct2, drule spec[of _ F_ilog], simp)

lemma frame_log_times: "frame C s s' \<Longrightarrow> F_log_times \<notin> C \<Longrightarrow> log_times s' = log_times s"
  unfolding frame_def by (drule conjunct2, drule spec[of _ F_log_times], simp)

lemma frame_rf_index: "frame C s s' \<Longrightarrow> F_rf_index \<notin> C \<Longrightarrow> rf_index s' = rf_index s"
  unfolding frame_def by (drule conjunct2, drule spec[of _ F_rf_index], simp)

lemma frame_rf_threshold: "frame C s s' \<Longrightarrow> F_rf_threshold \<notin> C \<Longrightarrow> rf_threshold s' = rf_threshold s"
  unfolding frame_def by (drule conjunct2, drule spec[of _ F_rf_threshold], simp)

lemma frame_rf_list: "frame C s s' \<Longrightarrow> F_rf_list \<notin> C \<Longrightarrow> rf_list s' = rf_list s"
  unfolding frame_def by (drule conjunct2, drule spec[of _ F_rf_list], simp)

lemma frame_rf_direction: "frame C s s' \<Longrightarrow> F_rf_direction \<notin> C \<Longrightarrow> rf_direction s' = rf_direction s"
  unfolding frame_def by (drule conjunct2, drule spec[of _ F_rf_direction], simp)

lemma frame_log_realtime: "frame C s s' \<Longrightarrow> F_log_realtime \<notin> C \<Longrightarrow> log_realtime s' = log_realtime s"
  unfolding frame_def by (drule conjunct2, drule spec[of _ F_log_realtime], simp)

lemma frame_realtime_start: "frame C s s' \<Longrightarrow> F_realtime_start \<notin> C \<Longrightarrow> realtime_start s' = realtime_start s"
  unfolding frame_def by (drule conjunct2, drule spec[of _ F_realtime_start], simp)

lemma frame_world: "frame C s s' \<Longrightarrow> F_world \<notin> C \<Longrightarrow> world s' = world s"
  unfolding frame_def by (drule conjunct2, drule spec[of _ F_world], simp)

lemmas frame_fields =
  frame_initialized frame_model frame_pacing_types frame_pacing frame_n_pace_g frame_udata_p
  frame_pbar frame_realtime_g frame_evaluations_g frame_steps frame_zero_step_count frame_y_g
  frame_sy_g frame_z_is_y frame_z_g frame_sz_g frame_ylast frame_state_py
  frame_s_state_py frame_bound_py frame_t_g frame_tlast frame_tnext frame_tmin
  frame_tmax frame_dynamic_logging frame_log_dict frame_sens_list frame_tlog frame_log_interval
  frame_ilog frame_log_times frame_rf_index frame_rf_threshold frame_rf_list frame_rf_direction
  frame_log_realtime frame_realtime_start frame_world

subsection \<open>The static part of a model\<close>

lemma static_assign [simp]:
  "static (assign_V i e m) = static m"
  "static (assign_D i e m) = static m"
  "static (assign_LD i e m) = static m"
  "static (assign_C i v m) = static m"
  "static (assign_Y i v m) = static m"
  by (simp_all add: static_def assign_V_def assign_D_def assign_LD_def assign_C_def assign_Y_def)

lemma static_evaluators [simp]:
  "static (Model_EvaluateDerivatives m) = static m"
  "static (Model_EvaluateLiteralDerivedVariables m) = static m"
  "static (Model_EvaluateParameterDerivedVariables m) = static m"
  "static (Model_EvaluateSensitivityOutputs m) = static m"
  by (simp_all add: Model_EvaluateDerivatives_def Model_EvaluateLiteralDerivedVariables_def
      Model_EvaluateParameterDerivedVariables_def Model_EvaluateSensitivityOutputs_def)

lemma static_setters [simp]:
  "static (Model_SetBoundVariables m t ps rt ev) = static m"
  "static (Model_SetStates m ys) = static m"
  "static (Model_SetParametersFromIndependents m xs) = static m"
  "static (Model_SetParameters m xs) = static m"
  "static (snd (Model_SetupPacing m n)) = static m"
  by (simp_all add: static_def Model_SetBoundVariables_def Model_SetStates_def
      Model_SetParametersFromIndependents_def Model_SetParameters_def Model_SetupPacing_def
      Model_EvaluateParameterDerivedVariables_def)

lemma static_updates [simp]:
  "static (m\<lparr>states := ys\<rparr>) = static m"
  "static (m\<lparr>literals := cs\<rparr>) = static m"
  "static (m\<lparr>parameters := ps\<rparr>) = static m"
  "static (m\<lparr>s_states := ss\<rparr>) = static m"
  by (simp_all add: static_def)

lemma staticD:
  assumes "static m' = static m"
  shows "is_ode m' = is_ode m" "has_sensitivities m' = has_sensitivities m"
    "n_states m' = n_states m" "ns_independents m' = ns_independents m"
    "logging_initialized m' = logging_initialized m"
    "logging_states m' = logging_states m" "logging_derivatives m' = logging_derivatives m"
    "logging_intermediary m' = logging_intermediary m" "logging_bound m' = logging_bound m"
    "n_logged_variables m' = n_logged_variables m"
    "log_lists m' = log_lists m" "log_vars m' = log_vars m"
    "ns_dependents m' = ns_dependents m" "n_literals m' = n_literals m"
    "n_parameters m' = n_parameters m" "n_intermediary m' = n_intermediary m"
    "list_update_string m' = list_update_string m" "s_independents m' = s_independents m"
    "s_is_parameter m' = s_is_parameter m" "n_literal_derived m' = n_literal_derived m"
    "n_parameter_derived m' = n_parameter_derived m" "ns_intermediary m' = ns_intermediary m"
  using assms by (simp_all add: static_def)

subsection \<open>Frames of the simple phases\<close>

lemma frame_trans': "frame E s s1 \<Longrightarrow> frame E s1 s2 \<Longrightarrow> frame E s s2"
  using frame_trans [of E s s1 E s2] by simp

lemma rhs_frame: "frame {F_pacing, F_evaluations_g, F_model} s (snd (rhs X s t y))"
  by (simp add: rhs_def Let_def split: prod.splits)

lemma rhs_calls_frame:
  "frame {F_pacing, F_evaluations_g, F_model} s (fold (\<lambda>(tc, yc) s. snd (rhs X s tc yc)) calls s)"
proof (induction calls arbitrary: s)
  case Nil
  show ?case by simp
next
  case (Cons c calls)
  obtain tc yc where c: "c = (tc, yc)" by (cases c)
  show ?case
    using frame_trans' [OF rhs_frame [of s X tc yc] Cons.IH [of "snd (rhs X s tc yc)"]]
    by (simp add: c)
qed

lemma shs_frame: "frame {F_model} s (shs s sv)"
  by (simp add: shs_def Let_def)

lemma backup_frame: "frame {F_ylast, F_tlast} s (backup s)"
  by (simp add: backup_def)

lemma write_error_outputs_frame: "frame {F_state_py, F_bound_py} s (write_error_outputs s)"
  by (simp add: write_error_outputs_def)

lemma write_final_outputs_frame:
  "frame {F_state_py, F_s_state_py, F_bound_py} s (write_final_outputs s)"
  by (simp add: write_final_outputs_def)

lemma sim_clean_frame: "frame {F_initialized} s (sim_clean s)"
  by (simp add: sim_clean_def)

lemma check_signals_frame: "frame {F_world} s (st (check_signals X s))"
  by (simp add: check_signals_def split: prod.splits)

lemma check_progress_frame: "frame {F_zero_step_count} s (st (check_progress s))"
  by (simp add: check_progress_def Let_def)

lemma finish_check_frame: "frame {F_t_g} s (snd (finish_check X s))"
  by (simp add: finish_check_def Let_def)

lemma reinit_frame: "frame {F_world} s (st2 (reinit X fr s))"
  by (simp add: reinit_def Let_def split: prod.splits option.splits)

lemma set_realtime_frame: "frame {F_world, F_realtime_g} s (st (set_realtime X msg s))"
  by (simp add: set_realtime_def benchmarker_realtime_def Let_def split: prod.splits)

lemma start_realtime_frame: "frame {F_world, F_realtime_start} s (st (start_realtime X s))"
  by (simp add: start_realtime_def benchmarker_realtime_def Let_def split: prod.splits)

lemma next_log_point_frame: "frame {F_ilog, F_tlog} s (st (next_log_point s))"
  by (simp add: next_log_point_def Let_def split: sum.splits)

lemma write_log_frame: "frame {F_log_dict} s (st (write_log s))"
  by (simp add: write_log_def Let_def split: prod.splits)

lemma write_sens_frame: "frame {F_model, F_sens_list} s (st (write_sens s sv))"
  using frame_mono [OF shs_frame [of s sv], of "{F_model, F_sens_list}"]
  by (simp add: write_sens_def Let_def split: prod.splits)

lemma interpolate_frame: "frame {F_y_g, F_z_g, F_sy_g, F_sz_g} s (st (interpolate X s))"
  by (simp add: interpolate_def set_z_def set_sz_def Let_def split: prod.splits option.splits)

lemma rewind_frame: "frame {F_y_g, F_sy_g, F_t_g} s (st2 (rewind X s))"
  by (simp add: rewind_def bind_ok_def Let_def split: prod.splits option.splits)

lemma found_root_frame: "frame {F_rf_direction, F_rf_list} s (st (found_root X s))"
  by (simp add: found_root_def bind_ok_def Let_def split: prod.splits option.splits)

lemma sens_ok_frame: "sens_ok E s \<Longrightarrow> frame E s x \<Longrightarrow> sens_ok E x"
  using staticD(2) [OF frame_static, of E s x] by (simp add: sens_ok_def)

lemma frame_bind:
  assumes "frame E s (st r)" and "\<And>x. r = Inr x \<Longrightarrow> frame E s x \<Longrightarrow> frame E x (st (f x))"
  shows "frame E s (st (bind_ok r f))"
proof (cases r)
  case (Inl es)
  with assms(1) show ?thesis by (cases es) simp
next
  case (Inr x)
  with assms show ?thesis using frame_trans' [of E s x "st (f x)"] by simp
qed

lemma frame_bind2:
  assumes "frame E s (st r)" and "\<And>x. r = Inr x \<Longrightarrow> frame E s x \<Longrightarrow> frame E x (st2 (f x))"
  shows "frame E s (st2 (bind_ok r f))"
proof (cases r)
  case (Inl es)
  with assms(1) show ?thesis by (cases es) simp
next
  case (Inr x)
  with assms show ?thesis using frame_trans' [of E s x "st2 (f x)"] by simp
qed

lemma frame_bind22:
  assumes "frame E s (st2 r)"
    and "\<And>a x. r = Inr (a, x) \<Longrightarrow> frame E s x \<Longrightarrow> frame E x (st2 (f (a, x)))"
  shows "frame E s (st2 (bind_ok r f))"
proof (cases r)
  case (Inl es)
  with assms(1) show ?thesis by (cases es) simp
next
  case (Inr ax)
  obtain a x where "ax = (a, x)" by (cases ax)
  with Inr assms show ?thesis using frame_trans' [of E s x "st2 (f (a, x))"] by simp
qed

lemma write_sens_none: "has_sensitivities (model s) = 0 \<Longrightarrow> write_sens s sv = Inr s"
  by (simp add: write_sens_def)

lemma write_sens_frame':
  assumes "F_model \<in> E" and "sens_ok E s"
  shows "frame E s (st (write_sens s sv))"
proof (cases "has_sensitivities (model s) = 0")
  case True
  then show ?thesis by (simp add: write_sens_none)
next
  case False
  with assms have "{F_model, F_sens_list} \<subseteq> E" by (simp add: sens_ok_def)
  from frame_mono [OF write_sens_frame this] show ?thesis .
qed

lemma log_point_frame:
  assumes E: "log_point_fields \<subseteq> E" and so: "sens_ok E s"
  shows "frame E s (st (log_point X s))"
  unfolding log_point_def
proof (rule frame_bind)
  show "frame E s (st (set_realtime X ''Failed to set realtime during interpolation logging.'' s))"
    using E by (intro frame_mono [OF set_realtime_frame]) (simp add: log_point_fields_def)
next
  fix s1 assume f1: "frame E s s1"
  show "frame E s1 (st (bind_ok (interpolate X s1)
           (\<lambda>s. bind_ok (write_log (snd (rhs X s (tlog s) (cur_z s))))
              (\<lambda>s. bind_ok (write_sens s (cur_sz s)) next_log_point))))"
  proof (rule frame_bind)
    show "frame E s1 (st (interpolate X s1))"
      using E by (intro frame_mono [OF interpolate_frame]) (simp add: log_point_fields_def)
  next
    fix s2 assume f2: "frame E s1 s2"
    let ?s3 = "snd (rhs X s2 (tlog s2) (cur_z s2))"
    have f3: "frame E s2 ?s3"
      using E by (intro frame_mono [OF rhs_frame]) (simp add: log_point_fields_def)
    have "frame E ?s3 (st (bind_ok (write_log ?s3)
              (\<lambda>s. bind_ok (write_sens s (cur_sz s)) next_log_point)))"
    proof (rule frame_bind)
      show "frame E ?s3 (st (write_log ?s3))"
        using E by (intro frame_mono [OF write_log_frame]) (simp add: log_point_fields_def)
    next
      fix s4 assume f4: "frame E ?s3 s4"
      have so4: "sens_ok E s4"
        using so f1 f2 f3 f4 by (blast intro: sens_ok_frame)
      show "frame E s4 (st (bind_ok (write_sens s4 (cur_sz s4)) next_log_point))"
      proof (rule frame_bind)
        show "frame E s4 (st (write_sens s4 (cur_sz s4)))"
          using E so4 by (intro write_sens_frame') (simp_all add: log_point_fields_def)
      next
        fix s5
        show "frame E s5 (st (next_log_point s5))"
          using E by (intro frame_mono [OF next_log_point_frame]) (simp add: log_point_fields_def)
      qed
    qed
    from frame_trans' [OF f3 this]
    show "frame E s2 (st (bind_ok (write_log ?s3)
              (\<lambda>s. bind_ok (write_sens s (cur_sz s)) next_log_point)))" .
  qed
qed

lemma log_points_rule:
  assumes "log_points X s = Some r"
    and "I s"
    and step: "\<And>s s'. I s \<Longrightarrow> t_g s > tlog s \<Longrightarrow> log_point X s = Inr s' \<Longrightarrow> I s'"
    and err: "\<And>s e s'. I s \<Longrightarrow> t_g s > tlog s \<Longrightarrow> log_point X s = Inl (e, s') \<Longrightarrow> Q (Inl (e, s'))"
    and fin: "\<And>s. I s \<Longrightarrow> \<not> t_g s > tlog s \<Longrightarrow> Q (Inr s)"
  shows "Q r"
proof -
  have "Y = X \<longrightarrow> I s0 \<longrightarrow> Q r0" if "log_points Y s0 = Some r0" for Y s0 r0
    using that
  proof (rule log_points.raw_induct [rotated, where P = "\<lambda>Y s0 r0. Y = X \<longrightarrow> I s0 \<longrightarrow> Q r0"])
    fix lp Y s r
    assume IH: "\<And>Y s r. lp Y s = Some r \<Longrightarrow> Y = X \<longrightarrow> I s \<longrightarrow> Q r"
      and eq: "(if tlog s < t_g s
                then case log_point Y s of Inl es \<Rightarrow> Some (Inl es) | Inr s' \<Rightarrow> lp Y s'
                else Some (Inr s)) = Some r"
    show "Y = X \<longrightarrow> I s \<longrightarrow> Q r"
    proof (intro impI)
      assume Y: "Y = X" and I: "I s"
      show "Q r"
      proof (cases "t_g s > tlog s")
        case False
        with eq have "r = Inr s" by simp
        with fin [OF I False] show ?thesis by simp
      next
        case True
        show ?thesis
        proof (cases "log_point X s")
          case (Inl es)
          obtain e s' where es: "es = (e, s')" by (cases es)
          from eq True Inl Y have "r = Inl (e, s')" by (simp add: es)
          with err [OF I True] Inl es show ?thesis by simp
        next
          case (Inr s')
          from eq True Inr Y have lp: "lp X s' = Some r" by simp
          have "I s'" by (rule step [OF I True Inr])
          with IH [of X s' r] lp show ?thesis by simp
        qed
      qed
    qed
  qed
  from this [of X s r] assms(1,2) show ?thesis by simp
qed

lemma log_points_frame:
  assumes "log_points X s = Some r" and E: "log_point_fields \<subseteq> E" and so: "sens_ok E s"
  shows "frame E s (st r)"
proof (rule log_points_rule [OF assms(1), where I = "\<lambda>s'. frame E s s'"
      and Q = "\<lambda>r. frame E s (st r)"])
  show "frame E s s" by simp
next
  fix s1 s2 assume "frame E s s1" "log_point X s1 = Inr s2"
  then show "frame E s s2"
    using frame_trans' [OF _ log_point_frame [OF E sens_ok_frame [OF so], of s1 X]] by simp
next
  fix s1 e s2 assume "frame E s s1" "log_point X s1 = Inl (e, s2)"
  then show "frame E s (st (Inl (e, s2)))"
    using frame_trans' [OF _ log_point_frame [OF E sens_ok_frame [OF so], of s1 X]] by simp
next
  fix s1 assume "frame E s s1"
  then show "frame E s (st (Inr s1))" by simp
qed

lemma interpolation_logging_frame:
  assumes "interpolation_logging X s = Some r" and "log_point_fields \<subseteq> E" and "sens_ok E s"
  shows "frame E s (st r)"
  using assms log_points_frame [of X s r E]
  by (auto simp: interpolation_logging_def split: if_splits)

lemma advance_pacing_frame: "frame {F_world, F_tnext, F_pacing} s (st (advance_pacing X is s))"
proof (induction "is" arbitrary: s)
  case Nil
  show ?case by simp
next
  case (Cons i rest)
  show ?case
  proof (cases "pacing_types s ! i = EVENT")
    case False
    with Cons.IH [of s] show ?thesis by simp
  next
    case True
    obtain fl w where a: "ESys_AdvanceTime X (world s) i (t_g s) = (fl, w)"
      by (cases "ESys_AdvanceTime X (world s) i (t_g s)")
    show ?thesis
    proof (cases "fl = ESys_OK")
      case False
      with True a show ?thesis by simp
    next
      case ok: True
      let ?s2 = "s\<lparr>world := w, tnext := min (tnext s) (ESys_GetNextTime X w i),
                    pacing := (pacing s)[i := ESys_GetLevel X w i]\<rparr>"
      have "frame {F_world, F_tnext, F_pacing} s ?s2" by simp
      from frame_trans' [OF this Cons.IH [of ?s2]] True a ok show ?thesis
        by (simp add: Let_def)
    qed
  qed
qed

lemma update_pacing_frame: "frame {F_world, F_tnext, F_pacing} s (st (update_pacing X s))"
  unfolding update_pacing_def
  by (rule frame_trans' [OF _ advance_pacing_frame]) simp

lemma log_row_frame:
  assumes E: "dynamic_log_fields \<subseteq> E" and so: "sens_ok E s"
  shows "frame E s (st (bind_ok (write_log s) (\<lambda>s. write_sens s (f s))))"
proof (rule frame_bind)
  show "frame E s (st (write_log s))"
    using E by (intro frame_mono [OF write_log_frame]) (simp add: dynamic_log_fields_def)
next
  fix x assume "frame E s x"
  from sens_ok_frame [OF so this] E show "frame E x (st (write_sens x (f x)))"
    by (intro write_sens_frame') (simp_all add: dynamic_log_fields_def)
qed

lemma dynamic_log_frame:
  assumes E: "dynamic_log_fields \<subseteq> E" and so: "sens_ok E s"
  shows "frame E s (st (dynamic_log X s))"
proof (cases "dynamic_logging s \<noteq> 0")
  case False
  then show ?thesis by (simp add: dynamic_log_def)
next
  case True
  have "frame E s
     (st (bind_ok (set_realtime X ''Failed to set realtime during dynamic logging.'' s)
          (\<lambda>s. let s = (if logging_derivatives (model s) \<noteq> 0
                           \<or> logging_intermediary (model s) \<noteq> 0
                           \<or> has_sensitivities (model s) \<noteq> 0
                        then snd (rhs X s (t_g s) (y_g s))
                        else if logging_bound (model s) \<noteq> 0
                        then s\<lparr>model := Model_SetBoundVariables (model s) (t_g s) (pacing s)
                                          (realtime_g s) (real_of_int (evaluations_g s))\<rparr>
                        else s)
                in bind_ok (write_log s) (\<lambda>s. write_sens s (sy_g s)))))"
  proof (rule frame_bind)
    show "frame E s
            (st (set_realtime X ''Failed to set realtime during dynamic logging.'' s))"
      using E by (intro frame_mono [OF set_realtime_frame]) (simp add: dynamic_log_fields_def)
  next
    fix x assume fx: "frame E s x"
    let ?x' = "(if logging_derivatives (model x) \<noteq> 0
                           \<or> logging_intermediary (model x) \<noteq> 0
                           \<or> has_sensitivities (model x) \<noteq> 0
                        then snd (rhs X x (t_g x) (y_g x))
                        else if logging_bound (model x) \<noteq> 0
                        then x\<lparr>model := Model_SetBoundVariables (model x) (t_g x) (pacing x)
                                          (realtime_g x) (real_of_int (evaluations_g x))\<rparr>
                        else x)"
    have "F_model \<in> E" using E by (auto simp: dynamic_log_fields_def)
    then have f': "frame E x ?x'"
      using frame_mono [OF rhs_frame [of x X "t_g x" "y_g x"], of E] E
      by (simp add: dynamic_log_fields_def)
    have "sens_ok E ?x'"
      by (rule sens_ok_frame [OF sens_ok_frame [OF so fx] f'])
    from frame_trans' [OF f' log_row_frame [OF E this, of sy_g]]
    show "frame E x
            (st (let s = ?x' in bind_ok (write_log s) (\<lambda>s. write_sens s (sy_g s))))"
      by (simp add: Let_def)
  qed
  with True show ?thesis by (simp add: dynamic_log_def)
qed

lemma rewind_or_root_frame:
  "frame {F_y_g, F_sy_g, F_t_g, F_rf_direction, F_rf_list} s (st2 (rewind_or_root X fl fr s))"
proof -
  let ?E = "{F_y_g, F_sy_g, F_t_g, F_rf_direction, F_rf_list}"
  have a: "frame ?E s (st2 (rewind X s))"
    by (rule frame_mono [OF rewind_frame]) simp
  have b: "frame ?E x (st (found_root X x))" for x
    by (rule frame_mono [OF found_root_frame]) simp
  have c: "frame ?E s (st2 (bind_ok (found_root X x) (\<lambda>s. Inr (fr, s))))"
    if "frame ?E s x" for x
    using frame_trans' [OF that b [of x]] by (cases "found_root X x") auto
  show ?thesis
    using a c
    by (auto simp: rewind_or_root_def split: prod.splits option.splits)
qed

subsection \<open>Arrays\<close>

lemma fold_update_length [simp]: "length (fold (\<lambda>i d. d[i := f i]) xs dst) = length dst"
  by (induction xs arbitrary: dst) auto

lemma fold_update_nth:
  "i < length dst \<Longrightarrow>
   fold (\<lambda>i d. d[i := f i]) [0..<n] dst ! i = (if i < n then f i else dst ! i)"
  by (induction n) (auto simp: nth_list_update less_Suc_eq)

lemma fresh_array_length [simp]: "length (fresh_array junk n) = nat n"
  by (simp add: fresh_array_def)

lemma alloc_or_Inr: "alloc_or X f msg s = Inr s' \<Longrightarrow> \<exists>w. s' = s\<lparr>world := w\<rparr>"
  by (auto simp: alloc_or_def split: prod.splits if_splits)

subsection \<open>The model that is created\<close>

lemma Model_Create_True: "Model_Create True junk = (Model_OK, Some (created junk))"
  by (simp add: created_def Model_Create_def Let_def)

lemma Model_Create_Some:
  "Model_Create ok junk = (flag, Some m) \<Longrightarrow> ok \<and> flag = Model_OK \<and> m = created junk"
  by (cases ok) (auto simp: Model_Create_True, simp add: Model_Create_def)

lemma Model_Create_None:
  "Model_Create ok junk = (flag, None) \<Longrightarrow> \<not> ok \<and> flag = Model_OUT_OF_MEMORY"
  by (cases ok) (auto simp: Model_Create_True, simp add: Model_Create_def)

lemma created_static:
  "static (created junk) =
     ((1, 0), (8, 27, 0, 0, 17, 6), (0, 0, [], [], 0), (0, 0, 0, 0, 0, 0, None, [], []))"
  by (simp add: created_def Model_Create_def Let_def) (simp add: static_def)

lemmas created_fields [simp] = created_static [unfolded static_def, simplified]

lemma length_assign [simp]:
  "length (states (assign_Y i v m)) = length (states m)"
  by (simp add: assign_Y_def)

lemma created_arrays [simp]:
  "length (states (created junk)) = 8"
  "length (derivatives (created junk)) = 8"
  "length (intermediary (created junk)) = 27"
  "length (literals (created junk)) = 17"
  "length (literal_derived (created junk)) = 6"
  "parameters (created junk) = []"
  "pace_values (created junk) = []"
  "n_pace (created junk) = 0"
  by (simp_all add: created_def Model_Create_def Let_def assign_Y_def assign_C_def assign_LD_def
      Model_EvaluateLiteralDerivedVariables_def Model_EvaluateParameterDerivedVariables_def
      fresh_array_def)

lemmas static_fields_evaluators [simp] =
  staticD [OF static_evaluators(1)] staticD [OF static_evaluators(2)]
  staticD [OF static_evaluators(3)] staticD [OF static_evaluators(4)]
  staticD [OF static_setters(1)] staticD [OF static_setters(2)]
  staticD [OF static_setters(3)] staticD [OF static_setters(4)]
  staticD [OF static_setters(5)]

lemma array_copy_length [simp]: "length (array_copy n src dst) = length dst"
  by (simp add: array_copy_def)

lemma read_floats_ok:
  assumes "\<forall>i \<in> set is. i < length xs \<and> PyFloat_Check (xs ! i)"
  shows "\<exists>r. read_floats (PyList xs) err is dst = Inr r \<and> length r = length dst"
  using assms
proof (induction "is" arbitrary: dst)
  case Nil
  show ?case by simp
next
  case (Cons a rest)
  from Cons.prems have a: "a < length xs" "PyFloat_Check (xs ! a)" by simp_all
  from Cons.prems have "\<forall>i \<in> set rest. i < length xs \<and> PyFloat_Check (xs ! i)" by simp
  from Cons.IH [OF this, of "dst[a := PyFloat_AsDouble (xs ! a)]"] a show ?case
    by (simp add: PyList_GetItem_def)
qed

lemma arrays_assign [simp]:
  "length (derivatives (assign_V i e m)) = length (derivatives m)"
  "length (derivatives (assign_D i e m)) = length (derivatives m)"
  "length (states (assign_LD i e m)) = length (states m)"
  "parameters (assign_LD i e m) = parameters m"
  by (simp_all add: assign_V_def assign_D_def assign_LD_def)

lemma arrays_evaluators [simp]:
  "length (literals (Model_SetBoundVariables m t ps rt ev)) = length (literals m)"
  "length (states (Model_SetBoundVariables m t ps rt ev)) = length (states m)"
  "parameters (Model_SetBoundVariables m t ps rt ev) = parameters m"
  "length (literals (snd (Model_SetupPacing m n))) = length (literals m)"
  "length (states (snd (Model_SetupPacing m n))) = length (states m)"
  "parameters (snd (Model_SetupPacing m n)) = parameters m"
  "length (states (Model_EvaluateLiteralDerivedVariables m)) = length (states m)"
  "parameters (Model_EvaluateLiteralDerivedVariables m) = parameters m"
  "length (states (Model_EvaluateParameterDerivedVariables m)) = length (states m)"
  "length (derivatives (Model_EvaluateDerivatives m)) = length (derivatives m)"
  by (simp_all add: Model_SetBoundVariables_def Model_SetupPacing_def
      Model_EvaluateLiteralDerivedVariables_def Model_EvaluateParameterDerivedVariables_def
      Model_EvaluateDerivatives_def)

subsection \<open>Lists of the host\<close>

lemma set_floats_list:
  "\<exists>ys. set_floats (PyList xs) off src n = PyList ys \<and> length ys = length xs \<and>
        (\<forall>i < length xs. ys ! i =
           (if off \<le> int i \<and> int i < off + int (nat n) then PyFloat (src ! nat (int i - off))
            else xs ! i))"
proof -
  have "\<exists>ys. fold (\<lambda>i l. PyList_SetItem l (off + int i) (PyFloat (src ! i))) [0..<k] (PyList xs)
               = PyList ys \<and> length ys = length xs \<and>
        (\<forall>i < length xs. ys ! i =
           (if off \<le> int i \<and> int i < off + int k then PyFloat (src ! nat (int i - off))
            else xs ! i))" for k
  proof (induction k)
    case 0
    show ?case by auto
  next
    case (Suc k)
    then obtain ys where ys: "fold (\<lambda>i l. PyList_SetItem l (off + int i) (PyFloat (src ! i))) [0..<k] (PyList xs) = PyList ys"
      "length ys = length xs"
      "\<forall>i < length xs. ys ! i =
           (if off \<le> int i \<and> int i < off + int k then PyFloat (src ! nat (int i - off))
            else xs ! i)" by blast
    show ?case
    proof (cases "0 \<le> off + int k \<and> off + int k < int (length ys)")
      case True
      then have "fold (\<lambda>i l. PyList_SetItem l (off + int i) (PyFloat (src ! i))) [0..<Suc k] (PyList xs)
                  = PyList (ys[nat (off + int k) := PyFloat (src ! k)])"
        by (simp add: ys) (simp add: PyList_SetItem_def ys(2))
      moreover have "\<forall>i < length xs. (ys[nat (off + int k) := PyFloat (src ! k)]) ! i =
           (if off \<le> int i \<and> int i < off + int (Suc k) then PyFloat (src ! nat (int i - off))
            else xs ! i)"
      proof (intro allI impI)
        fix i assume i: "i < length xs"
        show "(ys[nat (off + int k) := PyFloat (src ! k)]) ! i =
           (if off \<le> int i \<and> int i < off + int (Suc k) then PyFloat (src ! nat (int i - off))
            else xs ! i)"
        proof (cases "i = nat (off + int k)")
          case True
          with \<open>0 \<le> off + int k \<and> off + int k < int (length ys)\<close> i ys(2) show ?thesis
            by (simp add: nat_diff_distrib')
        next
          case False
          with ys(3) i True show ?thesis by (auto simp: nth_list_update)
        qed
      qed
      ultimately show ?thesis using ys(2) by simp
    next
      case False
      then have "fold (\<lambda>i l. PyList_SetItem l (off + int i) (PyFloat (src ! i))) [0..<Suc k] (PyList xs)
                  = PyList ys"
        by (simp add: ys) (auto simp: PyList_SetItem_def ys(2))
      moreover have "\<forall>i < length xs. ys ! i =
           (if off \<le> int i \<and> int i < off + int (Suc k) then PyFloat (src ! nat (int i - off))
            else xs ! i)"
        using ys(3) ys(2) False by auto
      ultimately show ?thesis using ys(2) by simp
    qed
  qed
  from this [of "nat n"] show ?thesis unfolding set_floats_def .
qed

lemma set_floats_other [simp]: "\<not> PyList_Check ob \<Longrightarrow> set_floats ob off src n = ob"
proof -
  assume a: "\<not> PyList_Check ob"
  have "fold (\<lambda>i l. PyList_SetItem l (off + int i) (PyFloat (src ! i))) ks ob = ob" for ks
    using a by (induction ks) (auto simp: PyList_SetItem_def PyList_Check_def split: pyobj.splits)
  then show ?thesis by (simp add: set_floats_def)
qed


lemma floats_check [simp]: "PyFloat_Check (PyFloat x)" "PyList_Check (PyList xs)"
  "\<not> PyList_Check PyNone"
  by (simp_all add: PyFloat_Check_def PyList_Check_def)

lemma sim_eval_derivatives_ok:
  assumes alloc: "fst (lib_alloc X (world s) ''malloc'')"
    and n: "0 \<le> n_pace_g s"
    and pace: "\<forall>i < nat (n_pace_g s). i < length ps \<and> PyFloat_Check (ps ! i)"
    and state: "\<forall>i < 8. i < length ys \<and> PyFloat_Check (ys ! i)"
    and lits: "\<forall>i < 17. i < length cs \<and> PyFloat_Check (cs ! i)"
  shows "\<exists>d. sim_eval_derivatives X s time_in (PyList ps) (PyList ys) (PyList ds) (PyList cs)
                (PyList qs) = (None, set_floats (PyList ds) 0 d 8)"
proof -
  let ?junk = "fresh_memory X (world s)"
  have c: "Model_Create (fst (lib_alloc X (world s) ''malloc'')) ?junk =
             (Model_OK, Some (created ?junk))"
    using alloc by (simp add: Model_Create_True)
  obtain m1 where m1: "Model_SetupPacing (created ?junk) (n_pace_g s) = (Model_OK, m1)"
    and s1: "static m1 = static (created ?junk)"
    and l1: "length (literals m1) = 17" "length (states m1) = 8" "parameters m1 = []"
    using n by (simp add: Model_SetupPacing_def static_def)
  from pace obtain pacing_in where p: "read_floats (PyList ps)
        (eval_error ''Item %d in pace vector is not a float.'')
        [0..<nat (n_pace_g s)] (new_array X s (n_pace_g s)) = Inr pacing_in"
    using read_floats_ok [of "[0..<nat (n_pace_g s)]" ps] by simp blast
  let ?m2 = "Model_SetBoundVariables m1 time_in pacing_in 0 0"
  have n2: "n_literals ?m2 = 17" "length (literals ?m2) = 17"
    using staticD [OF s1] l1 by simp_all
  from lits obtain cs' where cs: "read_floats (PyList cs)
        (eval_error ''Item %d in literal vector is not a float.'')
        [0..<17] (literals ?m2) = Inr cs'"
    using read_floats_ok [of "[0..<17]" cs] by simp blast
  let ?m3 = "Model_EvaluateLiteralDerivedVariables (?m2\<lparr>literals := cs'\<rparr>)"
  have n3: "n_parameters ?m3 = 0" "n_states ?m3 = 8" "length (states ?m3) = 8"
    using staticD [OF s1] l1 by simp_all
  let ?m4 = "Model_EvaluateParameterDerivedVariables (?m3\<lparr>parameters := parameters ?m3\<rparr>)"
  have n4: "n_states ?m4 = 8"
    using n3 by (simp add: Model_EvaluateParameterDerivedVariables_def)
  from state obtain ys' where ys: "read_floats (PyList ys)
        (eval_error ''Item %d in state vector is not a float.'')
        [0..<8] (states ?m4) = Inr ys'"
    using read_floats_ok [of "[0..<8]" ys] by simp blast
  have k1: "n_literals m1 = 17" "n_parameters m1 = 0" "n_states m1 = 8"
    using staticD [OF s1] by simp_all
  have e: "Model_EvaluateParameterDerivedVariables = (\<lambda>m. m)"
    by (simp add: fun_eq_iff Model_EvaluateParameterDerivedVariables_def)
  show ?thesis
    unfolding sim_eval_derivatives_def
    using cs ys n3 l1
    by (simp add: c m1 p k1 e Let_def del: upt_Suc) blast
qed

lemma assign_V_update:
  "(assign_V i e m)\<lparr>intermediary := v, derivatives := d\<rparr> = m\<lparr>intermediary := v, derivatives := d\<rparr>"
  by (simp add: assign_V_def)

lemma assign_D_update:
  "(assign_D i e m)\<lparr>intermediary := v, derivatives := d\<rparr> = m\<lparr>intermediary := v, derivatives := d\<rparr>"
  by (simp add: assign_D_def)

lemma Model_EvaluateDerivatives_update:
  "(Model_EvaluateDerivatives m)\<lparr>intermediary := v, derivatives := d\<rparr> =
     m\<lparr>intermediary := v, derivatives := d\<rparr>"
  by (simp add: Model_EvaluateDerivatives_def assign_V_update assign_D_update)

lemma Model_EvaluateDerivatives_keeps [simp]:
  "time (Model_EvaluateDerivatives m) = time m"
  "pace_values (Model_EvaluateDerivatives m) = pace_values m"
  "states (Model_EvaluateDerivatives m) = states m"
  "literals (Model_EvaluateDerivatives m) = literals m"
  "realtime (Model_EvaluateDerivatives m) = realtime m"
  "evaluations (Model_EvaluateDerivatives m) = evaluations m"
proof -
  let ?m = "Model_EvaluateDerivatives m"
  have e: "?m\<lparr>intermediary := [], derivatives := []\<rparr> = m\<lparr>intermediary := [], derivatives := []\<rparr>"
    by (rule Model_EvaluateDerivatives_update)
  have "time ?m = time (?m\<lparr>intermediary := [], derivatives := []\<rparr>)" by simp
  then show "time ?m = time m" by (simp only: e) simp
  have "pace_values ?m = pace_values (?m\<lparr>intermediary := [], derivatives := []\<rparr>)" by simp
  then show "pace_values ?m = pace_values m" by (simp only: e) simp
  have "states ?m = states (?m\<lparr>intermediary := [], derivatives := []\<rparr>)" by simp
  then show "states ?m = states m" by (simp only: e) simp
  have "literals ?m = literals (?m\<lparr>intermediary := [], derivatives := []\<rparr>)" by simp
  then show "literals ?m = literals m" by (simp only: e) simp
  have "realtime ?m = realtime (?m\<lparr>intermediary := [], derivatives := []\<rparr>)" by simp
  then show "realtime ?m = realtime m" by (simp only: e) simp
  have "evaluations ?m = evaluations (?m\<lparr>intermediary := [], derivatives := []\<rparr>)" by simp
  then show "evaluations ?m = evaluations m" by (simp only: e) simp
qed

lemma time_setters [simp]:
  "time (Model_SetStates m ys) = time m"
  "time (Model_SetBoundVariables m t ps rt ev) = t"
  "time (Model_SetParametersFromIndependents m xs) = time m"
  by (simp_all add: Model_SetStates_def Model_SetBoundVariables_def
      Model_SetParametersFromIndependents_def Model_EvaluateParameterDerivedVariables_def)

subsection \<open>Kinds of errors\<close>

declare cvode_message.simps [simp del]

lemma cvode_message_prefix:
  "\<exists>ex msg args. cvode_message flag = PyErr ex msg args \<and> take 17 msg = ''Function CVode() ''"
  by (simp add: cvode_message.simps)

lemma cvode_failure_prefix:
  assumes "cvode_step_failure e"
  shows "\<exists>ex msg args. e = PyErr ex msg args \<and> take 8 msg = ''Function''"
proof -
  from assms obtain flag where "e = cvode_message flag" by (auto simp: cvode_step_failure_def)
  with cvode_message_prefix [of flag] obtain ex msg args where
    e: "e = PyErr ex msg args" and m: "take 17 msg = ''Function CVode() ''" by auto
  have "take 8 msg = take 8 (take 17 msg)" by simp
  also have "\<dots> = ''Function''" by (simp only: m) simp
  finally show ?thesis using e by simp
qed

lemma check_cvode_flag_CVode:
  "check_cvode_flag flag ''CVode'' = Some e \<Longrightarrow> cvode_step_failure e"
  by (auto simp: check_cvode_flag_def cvode_step_failure_def split: if_splits)

lemma check_cvode_flag_None: "check_cvode_flag flag name = None \<longleftrightarrow> 0 \<le> flag"
  by (auto simp: check_cvode_flag_def)

lemma late_error_PyErr:
  "take 8 msg \<noteq> ''Function'' \<Longrightarrow> msg \<noteq> ''Maximum number of zero-length steps taken at t=%g''
   \<Longrightarrow> late_error (PyErr ex msg args)"
  using cvode_failure_prefix [of "PyErr ex msg args"]
  by (auto simp: late_error_def zero_step_error_def)

lemma late_error_simps [simp]:
  "late_error (ESysErr ef)" "late_error (FSysErr ff)" "late_error Interrupted"
  "late_error Segfault" "late_error NoException"
  using cvode_failure_prefix [of "ESysErr ef"] cvode_failure_prefix [of "FSysErr ff"]
    cvode_failure_prefix [of Interrupted] cvode_failure_prefix [of Segfault]
    cvode_failure_prefix [of NoException]
  by (auto simp: late_error_def zero_step_error_def)

lemma late_error_Model [simp]: "late_error (Model_SetPyErr flag)"
  by (cases flag) (simp_all add: late_error_PyErr)

lemma late_error_flag:
  "check_cvode_flag flag name = Some e \<Longrightarrow> name \<noteq> ''CVode'' \<Longrightarrow> late_error e"
  by (auto simp: check_cvode_flag_def late_error_PyErr split: if_splits)

lemma not_late [simp]:
  "\<not> late_error (zero_step_error t)" "cvode_step_failure e \<Longrightarrow> \<not> late_error e"
  by (auto simp: late_error_def)

lemma zero_step_not_cvode [simp]: "\<not> cvode_step_failure (zero_step_error t)"
  using cvode_failure_prefix [of "zero_step_error t"]
  by (auto simp: zero_step_error_def)


lemma bind_ok_Inl:
  "bind_ok r f = Inl es \<longleftrightarrow> r = Inl es \<or> (\<exists>x. r = Inr x \<and> f x = Inl es)"
  by (cases r) (simp_all add: bind_ok_def)

lemma bind_ok_Inr:
  "bind_ok r f = Inr y \<longleftrightarrow> (\<exists>x. r = Inr x \<and> f x = Inr y)"
  by (cases r) (simp_all add: bind_ok_def)

subsection \<open>The errors of the phases after the check of progress\<close>

lemma set_realtime_late:
  "set_realtime X msg s = Inl (e, s') \<Longrightarrow> take 8 msg \<noteq> ''Function'' \<Longrightarrow>
   msg \<noteq> ''Maximum number of zero-length steps taken at t=%g'' \<Longrightarrow> late_error e"
  by (auto simp: set_realtime_def Let_def late_error_PyErr split: prod.splits if_splits)

lemma interpolate_late: "interpolate X s = Inl (e, s') \<Longrightarrow> late_error e"
  by (auto simp: interpolate_def Let_def late_error_flag
      split: prod.splits if_splits option.splits)

lemma write_log_late: "write_log s = Inl (e, s') \<Longrightarrow> late_error e"
  by (auto simp: write_log_def Let_def split: prod.splits if_splits)

lemma write_sens_late: "write_sens s sv = Inl (e, s') \<Longrightarrow> late_error e"
  by (auto simp: write_sens_def Let_def split: prod.splits if_splits)

lemma log_time_value_late: "log_time_value v = Inl e \<Longrightarrow> late_error e"
  by (auto simp: log_time_value_def late_error_PyErr split: if_splits option.splits)

lemma next_log_point_late: "next_log_point s = Inl (e, s') \<Longrightarrow> late_error e"
  by (auto simp: next_log_point_def Let_def late_error_PyErr log_time_value_late
      split: if_splits sum.splits)

lemma log_point_late: "log_point X s = Inl (e, s') \<Longrightarrow> late_error e"
  by (auto simp: log_point_def bind_ok_Inl
      dest: set_realtime_late interpolate_late write_log_late write_sens_late
        next_log_point_late)

lemma log_points_late:
  assumes "log_points X s = Some (Inl (e, s'))"
  shows "late_error e"
  using log_points_rule [OF assms, where I = "\<lambda>s. True"
      and Q = "\<lambda>r. \<forall>e s'. r = Inl (e, s') \<longrightarrow> late_error e"]
  by (auto dest: log_point_late)

lemma interpolation_logging_late:
  "interpolation_logging X s = Some (Inl (e, s')) \<Longrightarrow> late_error e"
  by (auto simp: interpolation_logging_def dest: log_points_late split: if_splits)

lemma advance_pacing_late: "advance_pacing X is s = Inl (e, s') \<Longrightarrow> late_error e"
  by (induction X "is" s rule: advance_pacing.induct)
    (auto simp: Let_def split: prod.splits if_splits)

lemma update_pacing_late: "update_pacing X s = Inl (e, s') \<Longrightarrow> late_error e"
  by (auto simp: update_pacing_def dest: advance_pacing_late)

lemma dynamic_log_late: "dynamic_log X s = Inl (e, s') \<Longrightarrow> late_error e"
  by (auto simp: dynamic_log_def bind_ok_Inl Let_def
      dest: set_realtime_late write_log_late write_sens_late split: if_splits)

lemma reinit_late: "reinit X fr s = Inl (e, s') \<Longrightarrow> late_error e"
  by (auto simp: reinit_def Let_def late_error_flag
      split: prod.splits if_splits option.splits)

lemma rewind_late: "rewind X s = Inl (e, s') \<Longrightarrow> late_error e"
  by (auto simp: rewind_def Let_def bind_ok_Inl late_error_flag
      split: prod.splits if_splits option.splits)

lemma found_root_late: "found_root X s = Inl (e, s') \<Longrightarrow> late_error e"
  by (auto simp: found_root_def Let_def late_error_flag late_error_PyErr
      split: prod.splits if_splits option.splits)

lemma rewind_or_root_late: "rewind_or_root X fl fr s = Inl (e, s') \<Longrightarrow> late_error e"
  by (auto simp: rewind_or_root_def Let_def bind_ok_Inl late_error_flag
      dest: rewind_late found_root_late
      split: prod.splits if_splits option.splits)

lemma check_signals_late: "check_signals X s = Inl (e, s') \<Longrightarrow> late_error e"
  by (auto simp: check_signals_def split: prod.splits if_splits)

lemma step_block_late: "step_block X fl fr s = Some (Inl (e, s')) \<Longrightarrow> late_error e"
  by (auto simp: step_block_def bind_ok_Inl
      dest: rewind_or_root_late interpolation_logging_late update_pacing_late
        dynamic_log_late reinit_late
      split: sum.splits prod.splits option.splits)

lemma step_end_late: "step_end X fr s = Inl (e, s') \<Longrightarrow> late_error e"
  by (auto simp: step_end_def bind_ok_Inl dest: check_signals_late
      split: prod.splits if_splits)

subsection \<open>The integrator step and the check of progress\<close>

lemma take_step_frame:
  assumes "take_step X s = Inr (fl, s1)"
  shows "frame step_fields s s1"
proof (cases "is_ode (model s) \<noteq> 0")
  case False
  with assms show ?thesis by (auto simp: take_step_def step_fields_def)
next
  case True
  obtain fc y' t' calls w where c: "CVode X (world s) (tnext s) (y_g s) (t_g s) = ((fc, y', t', calls), w)"
    by (metis prod.exhaust)
  let ?s1 = "fold (\<lambda>(tc, yc) s. snd (rhs X s tc yc)) calls (s\<lparr>world := w\<rparr>)"
  have "frame step_fields (s\<lparr>world := w\<rparr>) ?s1"
    by (rule frame_mono [OF rhs_calls_frame]) (simp add: step_fields_def)
  moreover have "frame step_fields s (s\<lparr>world := w\<rparr>)" by (simp add: step_fields_def)
  ultimately have "frame step_fields s ?s1" by (rule frame_trans' [rotated])
  moreover have "frame step_fields ?s1 (?s1\<lparr>y_g := y', t_g := t'\<rparr>)" by (simp add: step_fields_def)
  ultimately have "frame step_fields s (?s1\<lparr>y_g := y', t_g := t'\<rparr>)" by (rule frame_trans')
  with assms True c show ?thesis
    by (auto simp: take_step_def Let_def split: option.splits)
qed

lemma take_step_error:
  assumes "take_step X s = Inl (e, s1)"
  shows "cvode_step_failure e \<and> (\<exists>s'. frame step_fields s s' \<and> s1 = write_error_outputs s')"
proof (cases "is_ode (model s) \<noteq> 0")
  case False
  with assms show ?thesis by (auto simp: take_step_def)
next
  case True
  obtain fc y' t' calls w where c: "CVode X (world s) (tnext s) (y_g s) (t_g s) = ((fc, y', t', calls), w)"
    by (metis prod.exhaust)
  let ?s1 = "fold (\<lambda>(tc, yc) s. snd (rhs X s tc yc)) calls (s\<lparr>world := w\<rparr>)"
  have "frame step_fields (s\<lparr>world := w\<rparr>) ?s1"
    by (rule frame_mono [OF rhs_calls_frame]) (simp add: step_fields_def)
  moreover have "frame step_fields s (s\<lparr>world := w\<rparr>)" by (simp add: step_fields_def)
  ultimately have "frame step_fields s ?s1" by (rule frame_trans' [rotated])
  moreover have "frame step_fields ?s1 (?s1\<lparr>y_g := y', t_g := t'\<rparr>)" by (simp add: step_fields_def)
  ultimately have "frame step_fields s (?s1\<lparr>y_g := y', t_g := t'\<rparr>)" by (rule frame_trans')
  with assms True c show ?thesis
    by (auto simp: take_step_def Let_def dest: check_cvode_flag_CVode split: option.splits)
qed

lemma take_step_flag:
  "take_step X s = Inr (fl, s1) \<Longrightarrow> 0 \<le> fl"
  by (auto simp: take_step_def Let_def check_cvode_flag_None CV_SUCCESS_def
      split: prod.splits option.splits if_splits)

lemma take_step_documented:
  "take_step X s = Inr (fl, s1) \<Longrightarrow> cvode_flags_documented X \<Longrightarrow>
   fl = CV_SUCCESS \<or> fl = CV_ROOT_RETURN"
  by (auto simp: take_step_def Let_def cvode_flags_documented_def check_cvode_flag_def
      split: prod.splits option.splits if_splits)
    (metis fst_conv less_irrefl)+


lemma step_begin_cases:
  obtains
    (cvode) e s' where "step_begin X s = Inl (e, write_error_outputs s')"
      "cvode_step_failure e" "frame step_fields (backup s) s'"
      "take_step X (backup s) = Inl (e, write_error_outputs s')"
  | (zero) fl s1 where "take_step X (backup s) = Inr (fl, s1)" "t_g s1 = t_g s"
      "500 \<le> zero_step_count s + 1"
      "step_begin X s = Inl (zero_step_error (t_g s1),
                            s1\<lparr>zero_step_count := zero_step_count s + 1\<rparr>)"
  | (ok) fl s1 where "take_step X (backup s) = Inr (fl, s1)"
      "t_g s1 = t_g s \<longrightarrow> zero_step_count s + 1 < 500"
      "step_begin X s =
         Inr (fl, s1\<lparr>zero_step_count := (if t_g s1 = t_g s then zero_step_count s + 1 else 0),
                     steps := steps s + 1\<rparr>)"
proof (cases "take_step X (backup s)")
  case (Inl es)
  obtain e s1 where es: "es = (e, s1)" by (cases es)
  from take_step_error [of X "backup s" e s1] Inl es obtain s' where
    "cvode_step_failure e" "frame step_fields (backup s) s'" "s1 = write_error_outputs s'"
    by auto
  with Inl es show ?thesis
    by (intro cvode [of e s']) (simp_all add: step_begin_def bind_ok_def)
next
  case (Inr fs)
  obtain fl s1 where fs: "fs = (fl, s1)" by (cases fs)
  from take_step_frame [of X "backup s" fl s1] Inr fs
  have f: "frame step_fields (backup s) s1" by simp
  have b: "tlast s1 = t_g s" "zero_step_count s1 = zero_step_count s" "steps s1 = steps s"
    using frame_tlast [OF f] frame_zero_step_count [OF f] frame_steps [OF f]
    by (simp_all add: step_fields_def backup_def)
  show ?thesis
  proof (cases "t_g s1 = t_g s \<and> 500 \<le> zero_step_count s + 1")
    case True
    with Inr fs b show ?thesis
      by (intro zero [of fl s1])
        (simp_all add: step_begin_def bind_ok_def check_progress_def max_zero_step_count_def
          zero_step_error_def)
  next
    case False
    with Inr fs b show ?thesis
      by (intro ok [of fl s1])
        (auto simp: step_begin_def bind_ok_def check_progress_def max_zero_step_count_def)
  qed
qed

subsection \<open>The block after a successful step, and the end of a pass\<close>

lemma step_block_frame:
  assumes r: "step_block X fl fr s = Some r" and E: "block_fields \<subseteq> E" and so: "sens_ok E s"
  shows "frame E s (st2 r)"
proof -
  have lp: "log_point_fields \<subseteq> E" and dl: "dynamic_log_fields \<subseteq> E"
    using E by (auto simp: block_fields_def log_point_fields_def dynamic_log_fields_def)
  have f1: "frame E s (st2 (rewind_or_root X fl fr s))"
    using E by (intro frame_mono [OF rewind_or_root_frame]) (simp add: block_fields_def)
  show ?thesis
  proof (cases "rewind_or_root X fl fr s")
    case (Inl es)
    with r f1 show ?thesis by (simp add: step_block_def)
  next
    case (Inr fs)
    obtain fr' s2 where fs: "fs = (fr', s2)" by (cases fs)
    from f1 Inr fs have f2: "frame E s s2" by simp
    have so2: "sens_ok E s2" by (rule sens_ok_frame [OF so f2])
    from r Inr fs obtain r3 where r3: "interpolation_logging X s2 = Some r3"
      by (auto simp: step_block_def split: option.splits)
    have f3: "frame E s2 (st r3)" by (rule interpolation_logging_frame [OF r3 lp so2])
    show ?thesis
    proof (cases r3)
      case (Inl es)
      with r \<open>rewind_or_root X fl fr s = Inr fs\<close> fs r3 f3 frame_trans' [OF f2, of "st r3"]
      show ?thesis
        by (cases es) (auto simp: step_block_def)
    next
      case (Inr s3)
      with f3 have f3': "frame E s2 s3" by simp
      have so3: "sens_ok E s3" by (rule sens_ok_frame [OF so2 f3'])
      have "frame E s3 (st2 (bind_ok (update_pacing X s3)
                       (\<lambda>s. bind_ok (dynamic_log X s) (\<lambda>s. reinit X fr' s))))"
      proof (rule frame_bind2)
        show "frame E s3 (st (update_pacing X s3))"
          using E by (intro frame_mono [OF update_pacing_frame]) (simp add: block_fields_def)
      next
        fix s4 assume f4: "frame E s3 s4"
        have so4: "sens_ok E s4" by (rule sens_ok_frame [OF so3 f4])
        show "frame E s4 (st2 (bind_ok (dynamic_log X s4) (\<lambda>s. reinit X fr' s)))"
        proof (rule frame_bind2)
          show "frame E s4 (st (dynamic_log X s4))" by (rule dynamic_log_frame [OF dl so4])
        next
          fix s5
          show "frame E s5 (st2 (reinit X fr' s5))"
            using E by (intro frame_mono [OF reinit_frame]) (simp add: block_fields_def)
        qed
      qed
      from frame_trans' [OF frame_trans' [OF f2 f3'] this] r \<open>rewind_or_root X fl fr s = Inr fs\<close>
        fs r3 Inr
      show ?thesis by (simp add: step_block_def)
    qed
  qed
qed

lemma step_end_frame: "frame {F_t_g, F_world} s (st3 (step_end X fr s))"
proof -
  obtain d s5 where fc: "finish_check X s = (d, s5)" by (cases "finish_check X s")
  from frame_mono [OF finish_check_frame [of s X], of "{F_t_g, F_world}"] fc
  have f5: "frame {F_t_g, F_world} s s5" by simp
  have f6: "frame {F_t_g, F_world} s5 (st (check_signals X s5))"
    by (rule frame_mono [OF check_signals_frame]) simp
  show ?thesis
  proof (cases d)
    case True
    with fc f5 show ?thesis by (simp add: step_end_def)
  next
    case False
    with fc frame_trans' [OF f5 f6] show ?thesis
      by (cases "check_signals X s5") (auto simp: step_end_def bind_ok_def)
  qed
qed

lemma sim_step_body_cases:
  assumes r: "sim_step_body X fr s = Some r"
  obtains
    (cvode) e s' where "r = Inl (e, write_error_outputs s')" "cvode_step_failure e"
      "frame step_fields (backup s) s'"
      "take_step X (backup s) = Inl (e, write_error_outputs s')"
  | (zero) fl s1 where "take_step X (backup s) = Inr (fl, s1)" "t_g s1 = t_g s"
      "500 \<le> zero_step_count s + 1"
      "r = Inl (zero_step_error (t_g s1), s1\<lparr>zero_step_count := zero_step_count s + 1\<rparr>)"
  | (late) fl s1 s2 where "take_step X (backup s) = Inr (fl, s1)"
      "t_g s1 = t_g s \<longrightarrow> zero_step_count s + 1 < 500"
      "s2 = s1\<lparr>zero_step_count := (if t_g s1 = t_g s then zero_step_count s + 1 else 0),
                steps := steps s + 1\<rparr>"
      "step_begin X s = Inr (fl, s2)"
      "\<forall>e s'. r = Inl (e, s') \<longrightarrow> late_error e"
      "\<forall>E. block_fields \<subseteq> E \<longrightarrow> sens_ok E s2 \<longrightarrow> frame E s2 (st3 r)"
proof (cases rule: step_begin_cases [of X s])
  case (cvode e s')
  with r show ?thesis by (intro that(1) [of e s']) (simp_all add: sim_step_body_def)
next
  case (zero fl s1)
  with r show ?thesis by (intro that(2) [of fl s1]) (simp_all add: sim_step_body_def)
next
  case (ok fl s1)
  let ?s2 = "s1\<lparr>zero_step_count := (if t_g s1 = t_g s then zero_step_count s + 1 else 0),
                steps := steps s + 1\<rparr>"
  let ?rb = "if fl = CV_SUCCESS \<or> fl = CV_ROOT_RETURN then step_block X fl fr ?s2
             else Some (Inr (fr, ?s2))"
  from r ok(3) obtain x where x: "?rb = Some x"
    by (auto simp: sim_step_body_def split: option.splits)
  have fb: "frame E ?s2 (st2 x)" if "block_fields \<subseteq> E" "sens_ok E ?s2" for E
    using x step_block_frame [of X fl fr ?s2 x E] that by (auto split: if_splits)
  have lb: "late_error e" if "x = Inl (e, s')" for e s'
    using x that step_block_late [of X fl fr ?s2 e s'] by (auto split: if_splits)
  have "(\<forall>e s'. r = Inl (e, s') \<longrightarrow> late_error e) \<and>
        (\<forall>E. block_fields \<subseteq> E \<longrightarrow> sens_ok E ?s2 \<longrightarrow> frame E ?s2 (st3 r))"
  proof (cases x)
    case (Inl es)
    obtain e s' where es: "es = (e, s')" by (cases es)
    from r ok(3) x Inl es have "r = Inl (e, s')" by (simp add: sim_step_body_def)
    with lb [of e s'] fb Inl es show ?thesis by auto
  next
    case (Inr fs)
    obtain fr' s4 where fs: "fs = (fr', s4)" by (cases fs)
    from r ok(3) x Inr fs have re: "r = step_end X fr' s4" by (simp add: sim_step_body_def)
    have "frame E ?s2 (st3 r)" if "block_fields \<subseteq> E" "sens_ok E ?s2" for E
    proof -
      from fb [OF that] Inr fs have "frame E ?s2 s4" by simp
      moreover have "frame E s4 (st3 r)"
        unfolding re using that(1)
        by (intro frame_mono [OF step_end_frame]) (simp add: block_fields_def)
      ultimately show ?thesis by (rule frame_trans')
    qed
    with re step_end_late [of X fr' s4] show ?thesis by auto
  qed
  with ok show ?thesis by (intro that(3) [of fl s1 ?s2]) simp_all
qed

subsection \<open>The loop of the step function\<close>

lemma sim_step_body_Inr:
  assumes "sim_step_body X fr s = Some (Inr x)"
  shows "\<exists>fl s2 fr' s4. step_begin X s = Inr (fl, s2) \<and>
           (if fl = CV_SUCCESS \<or> fl = CV_ROOT_RETURN then step_block X fl fr s2
            else Some (Inr (fr, s2))) = Some (Inr (fr', s4)) \<and>
           step_end X fr' s4 = Inr x"
proof (cases "step_begin X s")
  case (Inl es)
  with assms show ?thesis by (simp add: sim_step_body_def)
next
  case (Inr fs)
  obtain fl s2 where fs: "fs = (fl, s2)" by (cases fs)
  let ?rb = "if fl = CV_SUCCESS \<or> fl = CV_ROOT_RETURN then step_block X fl fr s2
             else Some (Inr (fr, s2))"
  from assms Inr fs have a: "(case ?rb of None \<Rightarrow> None | Some (Inl es) \<Rightarrow> Some (Inl es)
           | Some (Inr (flag_reinit, s4)) \<Rightarrow> Some (step_end X flag_reinit s4)) = Some (Inr x)"
    by (simp add: sim_step_body_def)
  show ?thesis
  proof (cases ?rb)
    case None
    with a show ?thesis by simp
  next
    case (Some y)
    show ?thesis
    proof (cases y)
      case (Inl es)
      with a Some show ?thesis by simp
    next
      case (Inr fs')
      obtain fr' s4 where "fs' = (fr', s4)" by (cases fs')
      with a Some Inr have "?rb = Some (Inr (fr', s4))" "step_end X fr' s4 = Inr x" by simp_all
      with \<open>step_begin X s = Inr fs\<close> fs show ?thesis by blast
    qed
  qed
qed

lemma step_end_Continue:
  assumes "step_end X fr s = Inr (Continue, fr', s')"
  shows "t_g s' < tmax s'" "frame {F_t_g, F_world} s s'"
proof -
  from step_end_frame [of s X fr] assms show "frame {F_t_g, F_world} s s'" by simp
  from assms show "t_g s' < tmax s'"
    by (auto simp: step_end_def finish_check_def check_signals_def bind_ok_def Let_def
        split: if_splits prod.splits)
qed

lemma step_end_Break:
  assumes "step_end X fr s = Inr (Break, fr', s')"
  shows "tmax s' \<le> t_g s'" "t_g s \<le> tmax s \<Longrightarrow> t_g s' = tmax s"
    "frame {F_t_g} s s'"
  using assms
  by (auto simp: step_end_def finish_check_def check_signals_def bind_ok_def Let_def
      split: if_splits prod.splits)

lemma sim_step_loop_rule:
  assumes r: "sim_step_loop X k fr s = Some (ex, s')"
    and I: "I k s"
    and cont: "\<And>k fr s fr' s1. I k s \<Longrightarrow> sim_step_body X fr s = Some (Inr (Continue, fr', s1))
                 \<Longrightarrow> k + 1 < 100 \<Longrightarrow> I (k + 1) s1"
    and yield: "\<And>k fr s fr' s1. I k s \<Longrightarrow> sim_step_body X fr s = Some (Inr (Continue, fr', s1))
                 \<Longrightarrow> 100 \<le> k + 1 \<Longrightarrow> Q (Yielded (t_g s1)) s1"
    and break: "\<And>k fr s fr' s1. I k s \<Longrightarrow> sim_step_body X fr s = Some (Inr (Break, fr', s1))
                 \<Longrightarrow> Q Finished s1"
    and fail: "\<And>k fr s e s1. I k s \<Longrightarrow> sim_step_body X fr s = Some (Inl (e, s1))
                 \<Longrightarrow> Q (Failed e) s1"
  shows "Q ex s'"
  using r I
proof (induction "nat (100 - k)" arbitrary: k fr s rule: less_induct)
  case less
  note prems = less.prems
  note unfold = sim_step_loop.simps [of X k fr s]
  from prems(1) obtain rb where rb: "sim_step_body X fr s = Some rb"
    by (cases "sim_step_body X fr s") (simp_all del: sim_step_loop.simps add: unfold)
  show ?case
  proof (cases rb)
    case (Inl es)
    obtain e s1 where es: "es = (e, s1)" by (cases es)
    from rb Inl es have b: "sim_step_body X fr s = Some (Inl (e, s1))" by simp
    from prems(1) b have "ex = Failed e" "s' = s1"
      by (simp_all del: sim_step_loop.simps add: unfold)
    with fail [OF prems(2) b] show ?thesis by simp
  next
    case (Inr x)
    obtain le fr' s1 where x: "x = (le, fr', s1)" by (cases x)
    show ?thesis
    proof (cases le)
      case Break
      from rb Inr x Break have b: "sim_step_body X fr s = Some (Inr (Break, fr', s1))" by simp
      from prems(1) b have "ex = Finished" "s' = s1"
        by (simp_all del: sim_step_loop.simps add: unfold)
      with break [OF prems(2) b] show ?thesis by simp
    next
      case Continue
      from rb Inr x Continue have b: "sim_step_body X fr s = Some (Inr (Continue, fr', s1))"
        by simp
      show ?thesis
      proof (cases "100 \<le> k + 1")
        case True
        from prems(1) b True have "ex = Yielded (t_g s1)" "s' = s1"
          by (auto simp del: sim_step_loop.simps simp add: unfold)
        with yield [OF prems(2) b True] show ?thesis by simp
      next
        case False
        from prems(1) b False
        have rec: "sim_step_loop X (k + 1) fr' s1 = Some (ex, s')"
          by (simp del: sim_step_loop.simps add: unfold)
        from False have "k + 1 < 100" by simp
        from cont [OF prems(2) b this] have i: "I (k + 1) s1" .
        from \<open>k + 1 < 100\<close> have "nat (100 - (k + 1)) < nat (100 - k)" by simp
        from less.hyps [OF this rec i] show ?thesis .
      qed
    qed
  qed
qed

subsection \<open>What a pass may change\<close>

lemma begin_frame:
  assumes "take_step X (backup s) = Inr (fl, s1)" and "body_fields \<subseteq> E"
  shows "frame E s (s1\<lparr>zero_step_count := z, steps := n\<rparr>)"
    and "frame E s (s1\<lparr>zero_step_count := z\<rparr>)"
proof -
  have "frame E s (backup s)"
    using assms(2) by (intro frame_mono [OF backup_frame]) (simp add: body_fields_def)
  moreover have "frame E (backup s) s1"
    using assms(2)
    by (intro frame_mono [OF take_step_frame [OF assms(1)]])
      (auto simp: body_fields_def step_fields_def)
  ultimately have f: "frame E s s1" by (rule frame_trans')
  have "F_zero_step_count \<in> E" "F_steps \<in> E" using assms(2) by (auto simp: body_fields_def)
  then have "frame E s1 (s1\<lparr>zero_step_count := z, steps := n\<rparr>)"
    "frame E s1 (s1\<lparr>zero_step_count := z\<rparr>)" by simp_all
  then show "frame E s (s1\<lparr>zero_step_count := z, steps := n\<rparr>)"
    and "frame E s (s1\<lparr>zero_step_count := z\<rparr>)"
    using frame_trans' [OF f] by blast+
qed

lemma body_frame_late:
  assumes r: "sim_step_body X fr s = Some r" and E: "body_fields \<subseteq> E" and so: "sens_ok E s"
    and nc: "\<forall>e s'. r = Inl (e, s') \<longrightarrow> \<not> cvode_step_failure e"
  shows "frame E s (st3 r)"
  using r
proof (cases rule: sim_step_body_cases)
  case (cvode e s')
  with nc show ?thesis by simp
next
  case (zero fl s1)
  with begin_frame(2) [OF zero(1) E] show ?thesis by simp
next
  case (late fl s1 s2)
  have f2: "frame E s s2" unfolding late(3) by (rule begin_frame(1) [OF late(1) E])
  have "block_fields \<subseteq> E" using E by (auto simp: body_fields_def block_fields_def)
  with late(6) sens_ok_frame [OF so f2] have "frame E s2 (st3 r)" by simp
  with f2 show ?thesis by (rule frame_trans')
qed

lemma body_frame:
  assumes r: "sim_step_body X fr s = Some r"
    and E: "body_fields \<union> {F_state_py, F_bound_py} \<subseteq> E" and so: "sens_ok E s"
  shows "frame E s (st3 r)"
  using r
proof (cases rule: sim_step_body_cases)
  case (cvode e s')
  have "frame E s (backup s)"
    using E by (intro frame_mono [OF backup_frame]) (simp add: body_fields_def)
  moreover have "frame E (backup s) s'"
    using E
    by (intro frame_mono [OF cvode(3)]) (auto simp: body_fields_def step_fields_def)
  moreover have "frame E s' (write_error_outputs s')"
    using E by (intro frame_mono [OF write_error_outputs_frame]) simp
  ultimately have "frame E s (write_error_outputs s')"
    using frame_trans' [of E s "backup s" s'] frame_trans' [of E s s' "write_error_outputs s'"]
    by blast
  then show ?thesis using cvode(1) by simp
next
  case (zero fl s1)
  from E have "body_fields \<subseteq> E" by simp
  with begin_frame(2) [OF zero(1)] zero(4) show ?thesis by simp
next
  case (late fl s1 s2)
  from E have E': "body_fields \<subseteq> E" by simp
  have f2: "frame E s s2" unfolding late(3) by (rule begin_frame(1) [OF late(1) E'])
  have "block_fields \<subseteq> E" using E by (auto simp: body_fields_def block_fields_def)
  with late(6) sens_ok_frame [OF so f2] have "frame E s2 (st3 r)" by simp
  with f2 show ?thesis by (rule frame_trans')
qed

lemma body_steps:
  assumes r: "sim_step_body X fr s = Some r"
  shows "steps (st3 r) \<le> steps s + 1"
    and "\<And>x. r = Inr x \<Longrightarrow> steps (st3 r) = steps s + 1"
proof -
  let ?E = "block_fields \<union> {F_sens_list}"
  have so: "sens_ok ?E x" for x :: "'a sim" by (simp add: sens_ok_def)
  have a: "steps (st3 r) \<le> steps s + 1 \<and> (\<forall>x. r = Inr x \<longrightarrow> steps (st3 r) = steps s + 1)"
    using r
  proof (cases rule: sim_step_body_cases)
    case (cvode e s')
    from frame_steps [OF cvode(3)] cvode(1) show ?thesis
      by (simp add: step_fields_def backup_def write_error_outputs_def)
  next
    case (zero fl s1)
    from frame_steps [OF take_step_frame [OF zero(1)]] zero(4) show ?thesis
      by (simp add: step_fields_def backup_def)
  next
    case (late fl s1 s2)
    have "block_fields \<subseteq> ?E" by blast
    with late(6) so [of s2] have "frame ?E s2 (st3 r)" by blast
    from frame_steps [OF this] have "steps (st3 r) = steps s2"
      by (simp add: block_fields_def)
    moreover have "steps s2 = steps s + 1" by (simp add: late(3))
    ultimately show ?thesis by auto
  qed
  from a show "steps (st3 r) \<le> steps s + 1" by simp
  from a show "\<And>x. r = Inr x \<Longrightarrow> steps (st3 r) = steps s + 1" by simp
qed

subsection \<open>What a call of the step function may change\<close>

lemma body_exit:
  assumes "sim_step_body X fr s = Some (Inr (le, fr', s1))"
  shows "le = Continue \<Longrightarrow> t_g s1 < tmax s1" and "le = Break \<Longrightarrow> tmax s1 \<le> t_g s1"
proof -
  from sim_step_body_Inr [OF assms] obtain fr2 s4 where
    e: "step_end X fr2 s4 = Inr (le, fr', s1)" by blast
  from e show "le = Continue \<Longrightarrow> t_g s1 < tmax s1" using step_end_Continue(1) by blast
  from e show "le = Break \<Longrightarrow> tmax s1 \<le> t_g s1" using step_end_Break(1) by blast
qed

lemma sim_step_loop_frame:
  assumes r: "sim_step_loop X k fr s = Some (ex, s')"
    and E: "body_fields \<union> {F_state_py, F_bound_py} \<subseteq> E" and so: "sens_ok E s"
  shows "frame E s s'"
proof (rule sim_step_loop_rule [OF r, where I = "\<lambda>k s1. frame E s s1"
      and Q = "\<lambda>ex s1. frame E s s1"])
  show "frame E s s" by simp
next
  fix k fr s0 fr' s1
  assume f: "frame E s s0" and b: "sim_step_body X fr s0 = Some (Inr (Continue, fr', s1))"
  from body_frame [OF b E sens_ok_frame [OF so f]] have "frame E s0 s1" by simp
  with f have fs: "frame E s s1" by (rule frame_trans')
  show "frame E s s1" by (rule fs)
  show "frame E s s1" by (rule fs)
next
  fix k fr s0 fr' s1
  assume f: "frame E s s0" and b: "sim_step_body X fr s0 = Some (Inr (Break, fr', s1))"
  from body_frame [OF b E sens_ok_frame [OF so f]] have "frame E s0 s1" by simp
  with f show "frame E s s1" by (rule frame_trans')
next
  fix k fr s0 e s1
  assume f: "frame E s s0" and b: "sim_step_body X fr s0 = Some (Inl (e, s1))"
  from body_frame [OF b E sens_ok_frame [OF so f]] have "frame E s0 s1" by simp
  with f show "frame E s s1" by (rule frame_trans')
qed

lemma sim_step_frame:
  assumes r: "sim_step X s = Some (r, s')"
    and E: "body_fields \<union> {F_state_py, F_bound_py, F_s_state_py, F_initialized,
              F_realtime_start} \<subseteq> E"
    and so: "sens_ok E s"
  shows "frame E s s'"
proof (cases "initialized s = 0")
  case True
  with r show ?thesis by (simp add: sim_step_def)
next
  case False
  have c: "frame E x (sim_clean x)" for x :: "'a sim"
    using E by (intro frame_mono [OF sim_clean_frame]) simp
  have f1: "frame E s (st (start_realtime X s))"
    using E by (intro frame_mono [OF start_realtime_frame]) (auto simp: body_fields_def)
  show ?thesis
  proof (cases "start_realtime X s")
    case (Inl es)
    obtain e s1 where es: "es = (e, s1)" by (cases es)
    from f1 Inl es have "frame E s s1" by simp
    from frame_trans' [OF this c [of s1]] r False Inl es show ?thesis
      by (simp add: sim_step_def)
  next
    case (Inr s1)
    with f1 have f: "frame E s s1" by simp
    from r False Inr obtain ex s2 where l: "sim_step_loop X 0 0 s1 = Some (ex, s2)"
      by (auto simp: sim_step_def split: option.splits)
    from E have E': "body_fields \<union> {F_state_py, F_bound_py} \<subseteq> E" by auto
    have f2: "frame E s s2"
      by (rule frame_trans' [OF f sim_step_loop_frame [OF l E' sens_ok_frame [OF so f]]])
    show ?thesis
    proof (cases ex)
      case Finished
      have "frame E s2 (write_final_outputs s2)"
        using E by (intro frame_mono [OF write_final_outputs_frame]) simp
      from frame_trans' [OF frame_trans' [OF f2 this] c] r False Inr l Finished
      show ?thesis by (simp add: sim_step_def Let_def)
    next
      case (Yielded tt)
      with f2 r False Inr l show ?thesis by (simp add: sim_step_def)
    next
      case (Failed e)
      from frame_trans' [OF f2 c] r False Inr l Failed show ?thesis
        by (simp add: sim_step_def)
    qed
  qed
qed

lemma run_frame:
  assumes "run X n s = Some (r, s')"
    and E: "body_fields \<union> {F_state_py, F_bound_py, F_s_state_py, F_initialized,
              F_realtime_start} \<subseteq> E"
    and "sens_ok E s"
  shows "frame E s s'"
  using assms(1,3)
proof (induction n arbitrary: s)
  case 0
  then show ?case by simp
next
  case (Suc n)
  from Suc.prems(1) obtain r1 s1 where 1: "sim_step X s = Some (r1, s1)"
    by (cases "sim_step X s") auto
  from sim_step_frame [OF 1 E Suc.prems(2)] have f: "frame E s s1" .
  show ?case
  proof (cases r1)
    case (Inl e)
    with Suc.prems(1) 1 f show ?thesis by simp
  next
    case (Inr tt)
    show ?thesis
    proof (cases "tt < tmax s")
      case True
      with Suc.prems(1) 1 Inr have "run X n s1 = Some (r, s')" by simp
      from frame_trans' [OF f Suc.IH [OF this sens_ok_frame [OF Suc.prems(2) f]]]
      show ?thesis .
    next
      case False
      with Suc.prems(1) 1 Inr f show ?thesis by simp
    qed
  qed
qed

subsection \<open>A simulation of two units of time\<close>

declare sim_step_loop.simps [simp del]

lemma X0_fields [simp]:
  "CVode (X0 h) w tout y t = ((0, y, t + h, []), w)"
  "CVodeGetDky (X0 h) w t y = (0, y)"
  "CVodeGetSensDky (X0 h) w t sv = (0, sv)"
  "CVodeGetSens (X0 h) w t sv = (0, t, sv)"
  "CVodeGetRootInfo (X0 h) w = (0, 1)"
  "CVodeReInit (X0 h) w t y = (0, w)"
  "CVodeSensReInit (X0 h) w sv = (0, w)"
  "ESys_AdvanceTime (X0 h) w i t = (ESys_OK, w)"
  "ESys_GetNextTime (X0 h) w i = 1000000"
  "ESys_GetLevel (X0 h) w i = 0"
  "ESys_eq (X0 h) a b \<longleftrightarrow> a = b"
  "FSys_GetLevel (X0 h) w i t = (0, FSys_OK)"
  "PyErr_CheckSignals (X0 h) w = (0, w)"
  "benchmarker_time (X0 h) w = (PyFloat 1, w)"
  "lib_alloc (X0 h) w f = (True, w)"
  "lib_call (X0 h) w f = (0, w)"
  "fresh_memory (X0 h) w i = 0"
  by (simp_all add: X0_def)

lemma time_loggedD:
  assumes "time_logged m"
  shows "is_ode m = 1" "has_sensitivities m = 0" "n_states m = 8" "ns_independents m = 0"
    "logging_initialized m = 1" "logging_states m = 0" "logging_derivatives m = 0"
    "logging_intermediary m = 0" "logging_bound m = 1" "n_logged_variables m = 1"
    "log_lists m = [''engine.time'']" "log_vars m = [Ref_time]"
  using assms by (simp_all add: time_logged_def static_def)

lemma Model_InitializeLogging_time:
  assumes "logging_initialized m = 0" and "list_update_string m = None"
  shows "Model_InitializeLogging m [(''engine.time'', v)] =
    (Model_OK, m\<lparr>n_logged_variables := 1, log_lists := [''engine.time''],
       log_vars := [Ref_time], logging_states := 0, logging_derivatives := 0,
       logging_bound := 1, logging_intermediary := 0,
       list_update_string := Some ''append'', logging_initialized := 1\<rparr>)"
  using assms
  by (simp add: Model_InitializeLogging_def PyDict_Size_def add_variables_def
      Model__AddVariableToLog_def PyDict_GetItem_def state_names_def derivative_names_def
      bound_names_def intermediary_names_def of_bool_int_def Let_def)


lemma init0: "\<exists>m. sim_init (X0 h) s_boot args0 = (None, s_run m) \<and> time_logged m"
proof -
  let ?P = "\<lambda>r. \<exists>m. (case r of Inl (e, s) \<Rightarrow> (Some e, sim_clean s) | Inr s \<Rightarrow> (None, s))
                       = (None, s_run m) \<and> time_logged m"
  have "?P (bind_ok (init_model (X0 h) (reset_counters (store_args s_boot args0)))
               (\<lambda>s. bind_ok (init_context (X0 h) s)
               (\<lambda>s. bind_ok (init_vectors (X0 h) s)
               (\<lambda>s. bind_ok (init_state s)
               (\<lambda>s. bind_ok (init_constants s (a_literals args0) (a_parameters args0))
               (\<lambda>s. bind_ok (init_userdata (X0 h) s)
               (\<lambda>s. bind_ok (init_pacing (X0 h) (a_protocols args0) s)
               (\<lambda>s. bind_ok (init_solver (X0 h) s)
               (\<lambda>s. bind_ok (init_root (X0 h) s)
               (\<lambda>s. init_logging (X0 h) s))))))))))"
    apply (simp add: init_model_def X0_def Model_Create_True reset_counters_def store_args_def
        args0_def s_boot_def Let_def init_context_def check_cvode_flag_def init_vectors_def
        alloc_or_def new_vector_def of_bool_int_def)
    apply (simp add: init_state_def state8_def upt_conv_Cons PyList_GetItem_def array_copy_def
        fresh_array_def)
    apply (simp add: init_constants_def lits17_def upt_conv_Cons PyList_GetItem_def
        init_userdata_def)
    apply (simp add: init_pacing_def alloc_or_def new_array_def fresh_array_def init_solver_def
        run_calls_def solver_calls_def check_cvode_null_def check_cvode_flag_def init_root_def
        PyList_Check_def)
    apply (simp add: init_logging_def Model_InitializeLogging_time Let_def s_run_def s_boot_def
        state8_def PyFloat_AsDouble_def time_logged_def)
    apply (simp add: static_def eval_nat_numeral)
    done
  then show ?thesis
    by (simp add: sim_init_def s_boot_def)
qed

lemma log_points_done: "\<not> t_g s > tlog s \<Longrightarrow> log_points X s = Some (Inr s)"
  by (subst log_points.simps) simp

lemma log_points_step:
  "t_g s > tlog s \<Longrightarrow>
   log_points X s = (case log_point X s of Inl es \<Rightarrow> Some (Inl es) | Inr s' \<Rightarrow> log_points X s')"
  by (subst log_points.simps) simp

lemmas init_eval =
  init_model_def Model_Create_True reset_counters_def store_args_def
  Let_def init_context_def check_cvode_flag_def init_vectors_def
  alloc_or_def new_vector_def of_bool_int_def
  init_state_def state8_def upt_conv_Cons PyList_GetItem_def array_copy_def fresh_array_def
  init_constants_def lits17_def init_userdata_def
  init_pacing_def new_array_def init_solver_def
  run_calls_def solver_calls_def check_cvode_null_def init_root_def PyList_Check_def
  bind_ok_def

lemma init_quiet:
  "\<exists>m. sim_init (X0 h) s_boot args_quiet = (None, s_quiet m) \<and> time_logged m"
proof -
  let ?P = "\<lambda>r. \<exists>m. (case r of Inl (e, s) \<Rightarrow> (Some e, sim_clean s) | Inr s \<Rightarrow> (None, s))
                       = (None, s_quiet m) \<and> time_logged m"
  have "?P (bind_ok (init_model (X0 h) (reset_counters (store_args s_boot args_quiet)))
               (\<lambda>s. bind_ok (init_context (X0 h) s)
               (\<lambda>s. bind_ok (init_vectors (X0 h) s)
               (\<lambda>s. bind_ok (init_state s)
               (\<lambda>s. bind_ok (init_constants s (a_literals args_quiet) (a_parameters args_quiet))
               (\<lambda>s. bind_ok (init_userdata (X0 h) s)
               (\<lambda>s. bind_ok (init_pacing (X0 h) (a_protocols args_quiet) s)
               (\<lambda>s. bind_ok (init_solver (X0 h) s)
               (\<lambda>s. bind_ok (init_root (X0 h) s)
               (\<lambda>s. init_logging (X0 h) s))))))))))"
    apply (simp add: init_eval args_quiet_def args0_def s_boot_def)
    apply (simp add: init_logging_def Model_InitializeLogging_time Let_def s_quiet_def s_run_def
        s_boot_def state8_def PyFloat_AsDouble_def time_logged_def PySequence_Check_def
        seq_items_def)
    apply (simp add: static_def eval_nat_numeral)
    done
  then show ?thesis
    by (simp add: sim_init_def s_boot_def)
qed


subsection \<open>Passes without logging\<close>

lemma quiet_pass:
  assumes "is_ode (model s) = 1" "has_sensitivities (model s) = 0" "dynamic_logging s = 0"
    "n_pace_g s = 0" "0 < h" "t_g s + h \<le> tlog s" "t_g s + h \<le> tnext s"
    "t_g s + h < tmax s"
  shows "sim_step_body (X0 h) 0 s =
           Some (Inr (Continue, 0,
             s\<lparr>ylast := array_copy (n_states (model s)) (y_g s) (ylast s), tlast := t_g s,
               t_g := t_g s + h, zero_step_count := 0, steps := steps s + 1,
               tnext := tmax s\<rparr>))"
  using assms
  by (simp add: sim_step_body_def step_begin_def backup_def take_step_def check_cvode_flag_def
      bind_ok_def check_progress_def CV_SUCCESS_def step_block_def rewind_or_root_def
      CV_ROOT_RETURN_def interpolation_logging_def update_pacing_def dynamic_log_def reinit_def
      step_end_def finish_check_def check_signals_def)

lemma quiet_loop:
  assumes "is_ode (model s) = 1" "has_sensitivities (model s) = 0" "dynamic_logging s = 0"
    "n_pace_g s = 0" "0 < h" "0 \<le> k" "k < 100"
    "t_g s + real_of_int (100 - k) * h \<le> tlog s"
    "t_g s + real_of_int (100 - k) * h \<le> tnext s"
    "t_g s + real_of_int (100 - k) * h < tmax s"
  shows "\<exists>s'. sim_step_loop (X0 h) k 0 s = Some (Yielded (t_g s + real_of_int (100 - k) * h), s')
           \<and> steps s' = steps s + (100 - k) \<and> initialized s' = initialized s
           \<and> t_g s' = t_g s + real_of_int (100 - k) * h \<and> tmax s' = tmax s"
  using assms
proof (induction "nat (100 - k)" arbitrary: k s rule: less_induct)
  case less
  let ?s1 = "s\<lparr>ylast := array_copy (n_states (model s)) (y_g s) (ylast s), tlast := t_g s,
               t_g := t_g s + h, zero_step_count := 0, steps := steps s + 1,
               tnext := tmax s\<rparr>"
  from less.prems have k1: "1 \<le> real_of_int (100 - k)" by simp
  have hk: "h \<le> real_of_int (100 - k) * h"
    using mult_right_mono [OF k1, of h] less.prems(5) by simp
  have c: "t_g s + h \<le> tlog s" "t_g s + h \<le> tnext s" "t_g s + h < tmax s"
    using less.prems(8-10) hk by linarith+
  have b: "sim_step_body (X0 h) 0 s = Some (Inr (Continue, 0, ?s1))"
    by (rule quiet_pass [OF less.prems(1-5) c])
  have u: "sim_step_loop (X0 h) k 0 s =
             (if 100 \<le> k + 1 then Some (Yielded (t_g ?s1), ?s1)
              else sim_step_loop (X0 h) (k + 1) 0 ?s1)"
    using b by (simp del: sim_step_loop.simps add: sim_step_loop.simps [of "X0 h" k 0 s])
  show ?case
  proof (cases "100 \<le> k + 1")
    case True
    with less.prems have "k = 99" by simp
    with u show ?thesis by simp
  next
    case False
    then have lt: "nat (100 - (k + 1)) < nat (100 - k)" by simp
    have e: "real_of_int (100 - k) * h = h + real_of_int (100 - (k + 1)) * h"
      by (simp add: algebra_simps)
    have "\<exists>s'. sim_step_loop (X0 h) (k + 1) 0 ?s1 =
                 Some (Yielded (t_g ?s1 + real_of_int (100 - (k + 1)) * h), s')
           \<and> steps s' = steps ?s1 + (100 - (k + 1)) \<and> initialized s' = initialized ?s1
           \<and> t_g s' = t_g ?s1 + real_of_int (100 - (k + 1)) * h \<and> tmax s' = tmax ?s1"
      using less.prems False e by (intro less.hyps [OF lt]) simp_all
    then obtain s' where s': "sim_step_loop (X0 h) (k + 1) 0 ?s1 =
                 Some (Yielded (t_g ?s1 + real_of_int (100 - (k + 1)) * h), s')"
      "steps s' = steps ?s1 + (100 - (k + 1))" "initialized s' = initialized ?s1"
      "t_g s' = t_g ?s1 + real_of_int (100 - (k + 1)) * h" "tmax s' = tmax ?s1" by blast
    have "sim_step_loop (X0 h) k 0 s = sim_step_loop (X0 h) (k + 1) 0 ?s1"
      using u False by simp
    with s' e show ?thesis by simp
  qed
qed

subsection \<open>Runs that end in an error\<close>

lemma init_fail: "\<exists>m. sim_init X_fail s_boot args0 = (None, s_run m) \<and> time_logged m"
proof -
  let ?P = "\<lambda>r. \<exists>m. (case r of Inl (e, s) \<Rightarrow> (Some e, sim_clean s) | Inr s \<Rightarrow> (None, s))
                       = (None, s_run m) \<and> time_logged m"
  have "?P (bind_ok (init_model X_fail (reset_counters (store_args s_boot args0)))
               (\<lambda>s. bind_ok (init_context X_fail s)
               (\<lambda>s. bind_ok (init_vectors X_fail s)
               (\<lambda>s. bind_ok (init_state s)
               (\<lambda>s. bind_ok (init_constants s (a_literals args0) (a_parameters args0))
               (\<lambda>s. bind_ok (init_userdata X_fail s)
               (\<lambda>s. bind_ok (init_pacing X_fail (a_protocols args0) s)
               (\<lambda>s. bind_ok (init_solver X_fail s)
               (\<lambda>s. bind_ok (init_root X_fail s)
               (\<lambda>s. init_logging X_fail s))))))))))"
    apply (simp add: init_eval args0_def s_boot_def X_fail_def X0_def)
    apply (simp add: init_logging_def Model_InitializeLogging_time Let_def s_run_def
        s_boot_def state8_def PyFloat_AsDouble_def time_logged_def)
    apply (simp add: static_def eval_nat_numeral)
    done
  then show ?thesis
    by (simp add: sim_init_def s_boot_def)
qed

lemma init_bad:
  "\<exists>m. sim_init (X0 h) s_boot args_bad =
          (None, (s_run m)\<lparr>log_dict := [(''engine.time'', PyNone)]\<rparr>) \<and> time_logged m"
proof -
  let ?P = "\<lambda>r. \<exists>m. (case r of Inl (e, s) \<Rightarrow> (Some e, sim_clean s) | Inr s \<Rightarrow> (None, s))
                       = (None, (s_run m)\<lparr>log_dict := [(''engine.time'', PyNone)]\<rparr>)
                     \<and> time_logged m"
  have "?P (bind_ok (init_model (X0 h) (reset_counters (store_args s_boot args_bad)))
               (\<lambda>s. bind_ok (init_context (X0 h) s)
               (\<lambda>s. bind_ok (init_vectors (X0 h) s)
               (\<lambda>s. bind_ok (init_state s)
               (\<lambda>s. bind_ok (init_constants s (a_literals args_bad) (a_parameters args_bad))
               (\<lambda>s. bind_ok (init_userdata (X0 h) s)
               (\<lambda>s. bind_ok (init_pacing (X0 h) (a_protocols args_bad) s)
               (\<lambda>s. bind_ok (init_solver (X0 h) s)
               (\<lambda>s. bind_ok (init_root (X0 h) s)
               (\<lambda>s. init_logging (X0 h) s))))))))))"
    apply (simp add: init_eval args_bad_def args0_def s_boot_def)
    apply (simp add: init_logging_def Model_InitializeLogging_time Let_def s_run_def
        s_boot_def state8_def PyFloat_AsDouble_def time_logged_def)
    apply (simp add: static_def eval_nat_numeral)
    done
  then show ?thesis
    by (simp add: sim_init_def s_boot_def)
qed

lemmas step_eval =
  sim_step_def start_realtime_def sim_step_body_def step_begin_def backup_def take_step_def
  check_cvode_flag_def array_copy_def upt_conv_Cons bind_ok_def check_progress_def
  CV_SUCCESS_def CV_ROOT_RETURN_def max_zero_step_count_def
  step_block_def rewind_or_root_def rewind_def interpolation_logging_def
  log_points_done log_points_step
  log_point_def set_realtime_def interpolate_def cur_z_def set_z_def rhs_def Let_def
  write_log_def Model_Log_def append_to_sink_def PyDict_GetItem_def py_append_def
  write_sens_def next_log_point_def ssize_wrap_def
  update_pacing_def dynamic_log_def reinit_def step_end_def finish_check_def check_signals_def
  write_final_outputs_def sim_clean_def

lemma step_bad:
  assumes "time_logged m"
  shows "\<exists>s'. sim_step (X0 2) ((s_run m)\<lparr>log_dict := [(''engine.time'', PyNone)]\<rparr>) =
                 Some (Inl log_append_error, s') \<and>
               state_py s' = state8 \<and> bound_py s' = PyList (replicate 3 PyNone) \<and>
               tlast s' = 0 \<and> initialized s' = 0"
  by (simp add: step_eval sim_step_loop.simps s_run_def s_boot_def time_loggedD [OF assms]
      log_append_error_def)

lemma step_fail:
  assumes "time_logged m"
  shows "\<exists>s'. sim_step X_fail (s_run m) = Some (Inl (cvode_message (- 4)), s')"
  by (simp add: step_eval sim_step_loop.simps s_run_def s_boot_def time_loggedD [OF assms]
      X_fail_def X0_def)

lemma X0_documented: "cvode_flags_documented (X0 h)"
  by (simp add: cvode_flags_documented_def X0_def CV_SUCCESS_def)

lemma step0:
  assumes "time_logged m"
  shows "\<exists>s'. sim_step (X0 3) (s_run m) = Some (Inr 2, s') \<and>
               log_dict s' = [(''engine.time'', PyList [PyFloat 0, PyFloat 1])] \<and>
               sens_list s' = PyList [] \<and> initialized s' = 0"
  by (simp add: step_eval sim_step_loop.simps s_run_def s_boot_def time_loggedD [OF assms])

lemma run0:
  "\<exists>s'. simulate (X0 3) 1 s_boot args0 = Some (Inr 2, s') \<and>
         log_dict s' = [(''engine.time'', PyList [PyFloat 0, PyFloat 1])] \<and>
         sens_list s' = PyList [] \<and> initialized s' = 0"
proof -
  from init0 [of 3] obtain m where m: "sim_init (X0 3) s_boot args0 = (None, s_run m)"
    and t: "time_logged m" by blast
  have tm: "tmax (s_run m) = 2" by (simp add: s_run_def)
  from step0 [OF t] obtain s' where "sim_step (X0 3) (s_run m) = Some (Inr 2, s')"
    "log_dict s' = [(''engine.time'', PyList [PyFloat 0, PyFloat 1])]"
    "sens_list s' = PyList []" "initialized s' = 0" by blast
  with m tm show ?thesis by (simp add: simulate_def)
qed

subsection \<open>What the phases of the initialisation may change\<close>

lemma alloc_or_frame: "frame {F_world} s (st (alloc_or X f msg s))"
  by (simp add: alloc_or_def split: prod.splits)

lemma init_context_frame: "frame {F_world} s (st (init_context X s))"
  by (simp add: init_context_def split: prod.splits option.splits)

lemma run_calls_frame: "frame {F_world} s (st (run_calls X calls s))"
  by (simp add: run_calls_def split: prod.splits option.splits)

lemma init_solver_frame: "frame {F_world} s (st (init_solver X s))"
proof -
  have "frame {F_world} s (st (bind_ok (run_calls X solver_calls s)
          (\<lambda>s. if has_sensitivities (model s) \<noteq> 0 then run_calls X sensitivity_calls s
                else Inr s)))"
  proof (rule frame_bind [OF run_calls_frame])
    fix x
    show "frame {F_world} x (st (if has_sensitivities (model x) \<noteq> 0
            then run_calls X sensitivity_calls x else Inr x))"
      using run_calls_frame [of x X sensitivity_calls] by simp
  qed
  then show ?thesis by (simp add: init_solver_def)
qed

lemma init_root_frame: "frame {F_rf_direction, F_world} s (st (init_root X s))"
proof -
  let ?s = "s\<lparr>rf_direction := []\<rparr>"
  have a: "frame {F_rf_direction, F_world} s ?s" by simp
  have "frame {F_rf_direction, F_world} ?s
          (st (bind_ok (run_calls X [(False, ''CVodeRootInit'', ''CVodeRootInit'')] ?s)
                 (\<lambda>s. Inr (s\<lparr>rf_direction := [0]\<rparr>))))"
  proof (rule frame_bind)
    show "frame {F_rf_direction, F_world} ?s
            (st (run_calls X [(False, ''CVodeRootInit'', ''CVodeRootInit'')] ?s))"
      by (rule frame_mono [OF run_calls_frame]) simp
  next
    fix x
    show "frame {F_rf_direction, F_world} x (st (Inr (x\<lparr>rf_direction := [0]\<rparr>)))" by simp
  qed
  from frame_trans' [OF a this] a show ?thesis
    by (simp add: init_root_def Let_def)
qed

lemma init_userdata_frame: "frame {F_world, F_udata_p, F_pbar} s (st (init_userdata X s))"
proof (cases "has_sensitivities (model s) \<noteq> 0")
  case False
  then show ?thesis by (simp add: init_userdata_def)
next
  case True
  let ?E = "{F_world, F_udata_p, F_pbar}"
  have al: "frame ?E x (st (alloc_or X f msg x))" for x f msg
    by (rule frame_mono [OF alloc_or_frame]) simp
  have "frame ?E s (st (bind_ok (alloc_or X ''malloc''
                   ''Unable to create user data object to store parameter values.'' s)
        (\<lambda>s. bind_ok (alloc_or X ''malloc''
                         ''Unable to allocate space to store parameter values.'' s)
        (\<lambda>s. let s = s\<lparr>udata_p := independent_values (model s)
                                       (new_array X s (ns_independents (model s)))\<rparr> in
          bind_ok (alloc_or X ''malloc''
                     ''Unable to allocate space to store parameter scales.'' s)
          (\<lambda>s. Inr (s\<lparr>pbar := parameter_scales (udata_p s) (ns_independents (model s))
                                  (new_array X s (ns_independents (model s)))\<rparr>))))))"
  proof (rule frame_bind [OF al])
    fix x
    show "frame ?E x (st (bind_ok (alloc_or X ''malloc''
                         ''Unable to allocate space to store parameter values.'' x)
        (\<lambda>s. let s = s\<lparr>udata_p := independent_values (model s)
                                       (new_array X s (ns_independents (model s)))\<rparr> in
          bind_ok (alloc_or X ''malloc''
                     ''Unable to allocate space to store parameter scales.'' s)
          (\<lambda>s. Inr (s\<lparr>pbar := parameter_scales (udata_p s) (ns_independents (model s))
                                  (new_array X s (ns_independents (model s)))\<rparr>)))))"
    proof (rule frame_bind [OF al])
      fix y
      let ?y = "y\<lparr>udata_p := independent_values (model y)
                                       (new_array X y (ns_independents (model y)))\<rparr>"
      have 1: "frame ?E y ?y" by simp
      have "frame ?E ?y (st (bind_ok (alloc_or X ''malloc''
                     ''Unable to allocate space to store parameter scales.'' ?y)
          (\<lambda>s. Inr (s\<lparr>pbar := parameter_scales (udata_p s) (ns_independents (model s))
                                  (new_array X s (ns_independents (model s)))\<rparr>))))"
      proof (rule frame_bind [OF al])
        fix z
        show "frame ?E z (st (Inr (z\<lparr>pbar := parameter_scales (udata_p z)
                 (ns_independents (model z)) (new_array X z (ns_independents (model z)))\<rparr>)))"
          by simp
      qed
      from frame_trans' [OF 1 this]
      show "frame ?E y (st (let s = y\<lparr>udata_p := independent_values (model y)
                                       (new_array X y (ns_independents (model y)))\<rparr> in
          bind_ok (alloc_or X ''malloc''
                     ''Unable to allocate space to store parameter scales.'' s)
          (\<lambda>s. Inr (s\<lparr>pbar := parameter_scales (udata_p s) (ns_independents (model s))
                                  (new_array X s (ns_independents (model s)))\<rparr>))))"
        by (simp add: Let_def)
    qed
  qed
  with True show ?thesis by (simp add: init_userdata_def)
qed


lemma init_vectors_frame:
  "frame {F_world, F_y_g, F_ylast, F_sy_g, F_dynamic_logging, F_z_is_y, F_z_g, F_sz_g} s
     (st (init_vectors X s))"
  by (simp add: init_vectors_def alloc_or_def bind_ok_def Let_def
      split: prod.splits sum.splits)

lemma init_state_frame: "frame {F_model, F_y_g, F_sy_g} s (st (init_state s))"
  by (simp add: init_state_def shs_def Let_def split: sum.splits)

lemma init_constants_frame: "frame {F_model} s (st (init_constants s lits pars))"
  by (simp add: init_constants_def Let_def split: sum.splits)

lemma setup_event_frame:
  "frame {F_world, F_pacing_types, F_pacing, F_tnext} s (st (setup_event X i p s))"
  by (simp add: setup_event_def Let_def split: prod.splits)

lemma setup_fixed_frame:
  "frame {F_world, F_pacing_types, F_pacing, F_tnext} s (st (setup_fixed X i p s))"
  by (simp add: setup_fixed_def Let_def split: prod.splits)

lemma setup_protocols_frame:
  "frame {F_world, F_pacing_types, F_pacing, F_tnext} s (st (setup_protocols X ps is s))"
proof (induction "is" arbitrary: s)
  case Nil
  show ?case by simp
next
  case (Cons i rest)
  let ?E = "{F_world, F_pacing_types, F_pacing, F_tnext}"
  have a: "frame ?E s (st (bind_ok (setup_event X i (ps ! i) s) (setup_protocols X ps rest)))"
    by (rule frame_bind [OF setup_event_frame]) (rule Cons.IH)
  have b: "frame ?E s (st (bind_ok (setup_fixed X i (ps ! i) s) (setup_protocols X ps rest)))"
    by (rule frame_bind [OF setup_fixed_frame]) (rule Cons.IH)
  from a b show ?case by (simp add: Let_def)
qed

lemma setup_event_tnext:
  "setup_event X i p s = Inr s' \<Longrightarrow> tnext s' \<le> tnext s \<and> tmax s' = tmax s"
  by (auto simp: setup_event_def Let_def split: prod.splits if_splits)

lemma setup_fixed_tnext:
  "setup_fixed X i p s = Inr s' \<Longrightarrow> tnext s' \<le> tnext s \<and> tmax s' = tmax s"
  by (auto simp: setup_fixed_def Let_def split: prod.splits if_splits)

lemma setup_protocols_tnext:
  "setup_protocols X ps is s = Inr s' \<Longrightarrow> tnext s' \<le> tnext s \<and> tmax s' = tmax s"
proof (induction "is" arbitrary: s)
  case Nil
  then show ?case by simp
next
  case (Cons i rest)
  from Cons.prems obtain s1 where
    1: "setup_event X i (ps ! i) s = Inr s1 \<or> setup_fixed X i (ps ! i) s = Inr s1"
    and 2: "setup_protocols X ps rest s1 = Inr s'"
    by (auto simp: Let_def bind_ok_Inr split: if_splits)
  from 1 setup_event_tnext [of X i "ps ! i" s s1] setup_fixed_tnext [of X i "ps ! i" s s1]
  have "tnext s1 \<le> tnext s \<and> tmax s1 = tmax s" by blast
  with Cons.IH [OF 2] show ?case by simp
qed

lemma init_pacing_frame:
  "frame {F_n_pace_g, F_world, F_pacing_types, F_pacing, F_model, F_tnext} s
     (st (init_pacing X protocols s))"
proof -
  let ?E = "{F_n_pace_g, F_world, F_pacing_types, F_pacing, F_model, F_tnext}"
  have sp: "frame ?E x (st (setup_protocols X ps is x))" for x ps "is"
    by (rule frame_mono [OF setup_protocols_frame]) simp
  have tr: "frame ?E s x \<Longrightarrow> frame ?E s (st (setup_protocols X ps is x))" for x ps "is"
    by (rule frame_trans' [OF _ sp])
  show ?thesis
    by (auto simp: init_pacing_def alloc_or_def bind_ok_def Let_def intro!: tr
        split: prod.splits sum.splits)
qed

lemma setup_protocols_keeps:
  assumes "setup_protocols X ps is s = Inr s'"
  shows "tnext s' \<le> tnext s \<and> tmax s' = tmax s \<and> n_pace_g s' = n_pace_g s"
  using setup_protocols_tnext [OF assms]
    frame_n_pace_g [OF setup_protocols_frame [of s X ps "is"]] assms
  by simp

lemma init_pacing_tnext:
  assumes "init_pacing X protocols s = Inr s'"
  shows "tnext s' \<le> tmax s' \<and> tmax s' = tmax s \<and> 0 \<le> n_pace_g s'"
  using assms
  by (auto simp: init_pacing_def alloc_or_def bind_ok_def Let_def
      dest!: setup_protocols_keeps split: prod.splits sum.splits if_splits)

subsection \<open>The course of the initialisation\<close>

lemma init_model_cases:
  obtains (failed) e w where "init_model X s = Inl (e, s\<lparr>world := w\<rparr>)"
  | (created) w junk where "init_model X s = Inr (s\<lparr>world := w, model := created junk\<rparr>)"
proof -
  obtain ok w where l: "lib_alloc X (world s) ''malloc'' = (ok, w)"
    by (cases "lib_alloc X (world s) ''malloc''")
  show ?thesis
  proof (cases ok)
    case True
    with l have "init_model X s = Inr (s\<lparr>world := w, model := created (fresh_memory X w)\<rparr>)"
      by (simp add: init_model_def Model_Create_True)
    then show ?thesis by (rule created)
  next
    case False
    with l have "init_model X s = Inl (Model_SetPyErr Model_OUT_OF_MEMORY, s\<lparr>world := w\<rparr>)"
      by (simp add: init_model_def Model_Create_def)
    then show ?thesis by (rule failed)
  qed
qed

lemma chain_step:
  assumes "frame E s2 x" and "frame C x (st r)" and "C \<subseteq> E"
  obtains (err) e y where "r = Inl (e, y)" "frame E s2 y"
  | (ok) y where "r = Inr y" "frame E s2 y"
proof (cases r)
  case (Inl ey)
  obtain e y where ey: "ey = (e, y)" by (cases ey)
  from assms(2) Inl ey have "frame C x y" by simp
  from frame_trans' [OF assms(1) frame_mono [OF this assms(3)]]
  have "frame E s2 y" .
  with Inl ey show ?thesis using err [of e y] by simp
next
  case (Inr y)
  with assms(2) have "frame C x y" by simp
  from frame_trans' [OF assms(1) frame_mono [OF this assms(3)]]
  have "frame E s2 y" .
  with Inr show ?thesis using ok [of y] by simp
qed

lemma sim_init_cases:
  assumes i: "initialized s0 = 0"
  obtains
    (no_model) e w where
      "sim_init X s0 a = (Some e, sim_clean ((reset_counters (store_args s0 a))\<lparr>world := w\<rparr>))"
  | (early) e w junk x where
      "sim_init X s0 a = (Some e, sim_clean x)"
      "frame init_fields ((reset_counters (store_args s0 a))\<lparr>world := w, model := created junk\<rparr>) x"
  | (logging) w junk x where
      "frame init_fields ((reset_counters (store_args s0 a))\<lparr>world := w, model := created junk\<rparr>) x"
      "tnext x \<le> tmax x" "0 \<le> n_pace_g x"
      "sim_init X s0 a =
         (case init_logging X x of Inl (e, y) \<Rightarrow> (Some e, sim_clean y) | Inr y \<Rightarrow> (None, y))"
proof -
  let ?s1 = "reset_counters (store_args s0 a)"
  note d = sim_init_def [of X s0 a]
  show ?thesis
  proof (cases rule: init_model_cases [of X ?s1])
    case (failed e w)
    with i have "sim_init X s0 a = (Some e, sim_clean (?s1\<lparr>world := w\<rparr>))" by (simp add: d)
    then show ?thesis by (rule no_model)
  next
    case (created w junk)
    let ?s2 = "?s1\<lparr>world := w, model := created junk\<rparr>"
    note E = init_fields_def
    have sub1: "{F_world} \<subseteq> init_fields" by (simp add: E)
    have sub2: "{F_world, F_y_g, F_ylast, F_sy_g, F_dynamic_logging, F_z_is_y, F_z_g, F_sz_g} \<subseteq> init_fields" by (simp add: E)
    have sub3: "{F_model, F_y_g, F_sy_g} \<subseteq> init_fields" by (simp add: E)
    have sub4: "{F_model} \<subseteq> init_fields" by (simp add: E)
    have sub5: "{F_world, F_udata_p, F_pbar} \<subseteq> init_fields" by (simp add: E)
    have sub6: "{F_n_pace_g, F_world, F_pacing_types, F_pacing, F_model, F_tnext} \<subseteq> init_fields" by (simp add: E)
    have sub7: "{F_rf_direction, F_world} \<subseteq> init_fields" by (simp add: E)
    have f2: "frame init_fields ?s2 ?s2" by simp
    from f2 init_context_frame [of ?s2 X] sub1 show ?thesis
    proof (cases rule: chain_step)
      case (err e y)
      with i created have "sim_init X s0 a = (Some e, sim_clean y)" by (simp add: d)
          from this err(2) show ?thesis by (rule early)
    next
      case c3: (ok s3)
      from c3(2) init_vectors_frame [of s3 X] sub2 show ?thesis
      proof (cases rule: chain_step)
        case (err e y)
        with i created c3 have "sim_init X s0 a = (Some e, sim_clean y)" by (simp add: d)
          from this err(2) show ?thesis by (rule early)
      next
        case c4: (ok s4)
        from c4(2) init_state_frame [of s4] sub3 show ?thesis
        proof (cases rule: chain_step)
          case (err e y)
          with i created c3 c4 have "sim_init X s0 a = (Some e, sim_clean y)" by (simp add: d)
          from this err(2) show ?thesis by (rule early)
        next
          case c5: (ok s5)
          from c5(2) init_constants_frame [of s5 "a_literals a" "a_parameters a"] sub4 show ?thesis
          proof (cases rule: chain_step)
            case (err e y)
            with i created c3 c4 c5 have "sim_init X s0 a = (Some e, sim_clean y)" by (simp add: d)
          from this err(2) show ?thesis by (rule early)
          next
            case c6: (ok s6)
            from c6(2) init_userdata_frame [of s6 X] sub5 show ?thesis
            proof (cases rule: chain_step)
              case (err e y)
              with i created c3 c4 c5 c6 have "sim_init X s0 a = (Some e, sim_clean y)" by (simp add: d)
          from this err(2) show ?thesis by (rule early)
            next
              case c7: (ok s7)
              from c7(2) init_pacing_frame [of s7 X "a_protocols a"] sub6 show ?thesis
              proof (cases rule: chain_step)
                case (err e y)
                with i created c3 c4 c5 c6 c7 have "sim_init X s0 a = (Some e, sim_clean y)" by (simp add: d)
          from this err(2) show ?thesis by (rule early)
              next
                case c8: (ok s8)
                note t8 = init_pacing_tnext [OF c8(1)]
                from c8(2) init_solver_frame [of s8 X] sub1 show ?thesis
                proof (cases rule: chain_step)
                  case (err e y)
                  with i created c3 c4 c5 c6 c7 c8 have "sim_init X s0 a = (Some e, sim_clean y)" by (simp add: d)
          from this err(2) show ?thesis by (rule early)
                next
                  case c9: (ok s9)
                  have f9: "frame {F_world} s8 s9"
                    using init_solver_frame [of s8 X] c9(1) by simp
                  from c9(2) init_root_frame [of s9 X] sub7 show ?thesis
                  proof (cases rule: chain_step)
                    case (err e y)
                    with i created c3 c4 c5 c6 c7 c8 c9 have "sim_init X s0 a = (Some e, sim_clean y)" by (simp add: d)
          from this err(2) show ?thesis by (rule early)
                  next
                    case c10: (ok s10)
                    have f10: "frame {F_rf_direction, F_world} s9 s10"
                      using init_root_frame [of s9 X] c10(1) by simp
                    have "tnext s10 \<le> tmax s10 \<and> 0 \<le> n_pace_g s10"
                      using t8 frame_tnext [OF f9] frame_tmax [OF f9] frame_n_pace_g [OF f9]
                        frame_tnext [OF f10] frame_tmax [OF f10] frame_n_pace_g [OF f10]
                      by simp
                    then have tn: "tnext s10 \<le> tmax s10" and np: "0 \<le> n_pace_g s10"
                      by simp_all
                    from i created c3 c4 c5 c6 c7 c8 c9 c10
                    have "sim_init X s0 a =
                            (case init_logging X s10 of Inl (e, y) \<Rightarrow> (Some e, sim_clean y)
                             | Inr y \<Rightarrow> (None, y))"
                      by (simp add: d)
                    from c10(2) tn np this show ?thesis by (rule logging)
                  qed
                qed
              qed
            qed
          qed
        qed
      qed
    qed
  qed
qed

subsection \<open>The set-up of the logging\<close>

lemma unlogged_upd [simp]:
  "unlogged (m\<lparr>log_lists := L\<rparr>) = unlogged m"
  "unlogged (m\<lparr>log_vars := V\<rparr>) = unlogged m"
  "unlogged (m\<lparr>n_logged_variables := n\<rparr>) = unlogged m"
  "unlogged (m\<lparr>logging_states := a\<rparr>) = unlogged m"
  "unlogged (m\<lparr>logging_derivatives := a\<rparr>) = unlogged m"
  "unlogged (m\<lparr>logging_bound := a\<rparr>) = unlogged m"
  "unlogged (m\<lparr>logging_intermediary := a\<rparr>) = unlogged m"
  "unlogged (m\<lparr>list_update_string := u\<rparr>) = unlogged m"
  "unlogged (m\<lparr>logging_initialized := g\<rparr>) = unlogged m"
  by (simp_all add: unlogged_def)

lemma unloggedD:
  assumes "unlogged m' = unlogged m"
  shows "is_ode m' = is_ode m" "has_sensitivities m' = has_sensitivities m"
    "n_states m' = n_states m" "ns_independents m' = ns_independents m"
    "time m' = time m" "states m' = states m" "pace_values m' = pace_values m"
    "n_pace m' = n_pace m" "derivatives m' = derivatives m" "intermediary m' = intermediary m"
    "literals m' = literals m" "parameters m' = parameters m" "ns_dependents m' = ns_dependents m"
    "n_literals m' = n_literals m" "n_parameters m' = n_parameters m"
    "n_intermediary m' = n_intermediary m" "realtime m' = realtime m"
    "evaluations m' = evaluations m"
proof -
  have "is_ode m' = is_ode (unlogged m')" "has_sensitivities m' = has_sensitivities (unlogged m')"
    "n_states m' = n_states (unlogged m')" "ns_independents m' = ns_independents (unlogged m')"
    "time m' = time (unlogged m')" "states m' = states (unlogged m')"
    "pace_values m' = pace_values (unlogged m')"
    "n_pace m' = n_pace (unlogged m')" "derivatives m' = derivatives (unlogged m')"
    "intermediary m' = intermediary (unlogged m')"
    "literals m' = literals (unlogged m')" "parameters m' = parameters (unlogged m')"
    "ns_dependents m' = ns_dependents (unlogged m')"
    "n_literals m' = n_literals (unlogged m')" "n_parameters m' = n_parameters (unlogged m')"
    "n_intermediary m' = n_intermediary (unlogged m')" "realtime m' = realtime (unlogged m')"
    "evaluations m' = evaluations (unlogged m')"
    by (simp_all add: unlogged_def)
  then show "is_ode m' = is_ode m" "has_sensitivities m' = has_sensitivities m"
    "n_states m' = n_states m" "ns_independents m' = ns_independents m"
    "time m' = time m" "states m' = states m" "pace_values m' = pace_values m"
    "n_pace m' = n_pace m" "derivatives m' = derivatives m" "intermediary m' = intermediary m"
    "literals m' = literals m" "parameters m' = parameters m" "ns_dependents m' = ns_dependents m"
    "n_literals m' = n_literals m" "n_parameters m' = n_parameters m"
    "n_intermediary m' = n_intermediary m" "realtime m' = realtime m"
    "evaluations m' = evaluations m"
    by (simp_all add: assms) (simp_all add: unlogged_def)
qed

lemma add_variables_unlogged:
  "add_variables d tab (m, i) = (m', i') \<Longrightarrow> unlogged m' = unlogged m"
proof -
  define f where "f = (\<lambda>(name, variable) (m, i).
             case Model__AddVariableToLog m d i name variable of (m', k) \<Rightarrow> (m', i + k))"
  have f: "unlogged (fst (f nv mi)) = unlogged (fst mi)" for nv mi
    by (cases nv, cases mi)
      (simp add: f_def Model__AddVariableToLog_def split: option.splits)
  have "unlogged (fst (fold f tab mi)) = unlogged (fst mi)" for mi
    by (induction tab arbitrary: mi) (simp_all add: f)
  from this [of "(m, i)"] show "add_variables d tab (m, i) = (m', i') \<Longrightarrow> unlogged m' = unlogged m"
    by (simp add: add_variables_def f_def)
qed

lemma Model_InitializeLogging_unlogged:
  "unlogged (snd (Model_InitializeLogging m d)) = unlogged m"
proof (cases "logging_initialized m \<noteq> 0")
  case True
  then show ?thesis by (simp add: Model_InitializeLogging_def)
next
  case False
  let ?m0 = "m\<lparr>n_logged_variables := PyDict_Size d,
               log_lists := replicate (nat (PyDict_Size d)) [],
               log_vars := replicate (nat (PyDict_Size d)) Ref_time\<rparr>"
  obtain m1 i1 where 1: "add_variables d state_names (?m0, 0) = (m1, i1)"
    by (cases "add_variables d state_names (?m0, 0)")
  let ?m1 = "m1\<lparr>logging_states := of_bool_int (i1 > 0)\<rparr>"
  obtain m2 i2 where 2: "add_variables d derivative_names (?m1, i1) = (m2, i2)"
    by (cases "add_variables d derivative_names (?m1, i1)")
  let ?m2 = "m2\<lparr>logging_derivatives := of_bool_int (i2 \<noteq> i1)\<rparr>"
  obtain m3 i3 where 3: "add_variables d bound_names (?m2, i2) = (m3, i3)"
    by (cases "add_variables d bound_names (?m2, i2)")
  let ?m3 = "m3\<lparr>logging_bound := of_bool_int (i3 \<noteq> i2)\<rparr>"
  obtain m4 i4 where 4: "add_variables d intermediary_names (?m3, i3) = (m4, i4)"
    by (cases "add_variables d intermediary_names (?m3, i3)")
  have u: "unlogged m4 = unlogged m"
    using add_variables_unlogged [OF 1] add_variables_unlogged [OF 2]
      add_variables_unlogged [OF 3] add_variables_unlogged [OF 4] by simp
  have "unlogged (snd (Model_InitializeLogging m d)) = unlogged m4"
    using False by (simp add: Model_InitializeLogging_def Let_def 1 2 3 4)
  with u show ?thesis by simp
qed

lemma log_first_point_frame:
  assumes E: "dynamic_log_fields \<subseteq> E" and so: "sens_ok E s"
  shows "frame E s (st (log_first_point X s))"
proof -
  let ?s1 = "snd (rhs X s (t_g s) (y_g s))"
  have f1: "frame E s ?s1"
    using E by (intro frame_mono [OF rhs_frame]) (simp add: dynamic_log_fields_def)
  from frame_trans' [OF f1 log_row_frame [OF E sens_ok_frame [OF so f1], of sy_g]]
  show ?thesis by (simp add: log_first_point_def Let_def)
qed

lemma init_logging_frame:
  assumes E: "dynamic_log_fields \<union> {F_ilog, F_tlog} \<subseteq> E" and so: "sens_ok E s"
  shows "\<exists>m'. unlogged m' = unlogged (model s) \<and>
               frame E (s\<lparr>model := m'\<rparr>) (st (init_logging X s))"
proof (cases "log_interval s > 0 \<and> tmax s + log_interval s = tmax s")
  case True
  then have "False" by auto
  then show ?thesis ..
next
  case False
  obtain fl m where ml: "Model_InitializeLogging (model s) (log_dict s) = (fl, m)"
    by (cases "Model_InitializeLogging (model s) (log_dict s)")
  let ?s1 = "s\<lparr>model := m\<rparr>"
  have u: "unlogged m = unlogged (model s)"
    using Model_InitializeLogging_unlogged [of "model s" "log_dict s"] by (simp add: ml)
  have so1: "sens_ok E ?s1"
    using so unloggedD(2) [OF u] by (simp add: sens_ok_def)
  have E': "dynamic_log_fields \<subseteq> E" "F_ilog \<in> E" "F_tlog \<in> E" using E by auto
  have lf: "frame E ?s1 (st (log_first_point X ?s1))"
    by (rule log_first_point_frame [OF E'(1) so1])
  have nz: "\<not> (0 < log_interval s \<and> tmax s + log_interval s = tmax s)" by (rule False)
  have r: "init_logging X s =
     (if fl \<noteq> Model_OK then Inl (Model_SetPyErr fl, ?s1)
      else if has_sensitivities m \<noteq> 0 \<and> \<not> PyList_Check (sens_list s)
      then Inl (PyErr PyExc_TypeError '''sens_list' must be a list.'' [], ?s1)
      else if log_interval s > 0 then Inr (?s1\<lparr>ilog := 0, tlog := tmin s\<rparr>)
      else if log_times s \<noteq> PyNone then
        (if \<not> PySequence_Check (log_times s)
         then Inl (PyErr PyExc_TypeError '''log_times' must be a sequence type.'' [], ?s1)
         else
           (case first_log_time (seq_items (log_times s)) (t_g s) 0 (t_g s - 1) of
              Inl e \<Rightarrow> Inl (e, ?s1)
            | Inr (i, tl0) \<Rightarrow>
                Inr (?s1\<lparr>ilog := i, tlog := (if tl0 < t_g s then tmax s + 1 else tl0)\<rparr>)))
      else log_first_point X ?s1)"
    unfolding init_logging_def ml Let_def if_not_P [OF nz] prod.case
    by (simp split: sum.splits prod.splits)
  consider (a) e where "init_logging X s = Inl (e, ?s1)"
    | (b) i tl where "init_logging X s = Inr (?s1\<lparr>ilog := i, tlog := tl\<rparr>)"
    | (c) "init_logging X s = log_first_point X ?s1"
  proof (cases "fl \<noteq> Model_OK")
    case True
    with r have "init_logging X s = Inl (Model_SetPyErr fl, ?s1)" by simp
    then show ?thesis by (rule that(1))
  next
    case ok: False
    show ?thesis
    proof (cases "has_sensitivities m \<noteq> 0 \<and> \<not> PyList_Check (sens_list s)")
      case True
      with r ok have "init_logging X s =
          Inl (PyErr PyExc_TypeError '''sens_list' must be a list.'' [], ?s1)" by simp
      then show ?thesis by (rule that(1))
    next
      case sl: False
      show ?thesis
      proof (cases "log_interval s > 0")
        case True
        with r ok sl have "init_logging X s = Inr (?s1\<lparr>ilog := 0, tlog := tmin s\<rparr>)"
          by simp
        then show ?thesis by (rule that(2))
      next
        case ni: False
        show ?thesis
        proof (cases "log_times s \<noteq> PyNone")
          case False
          with r ok sl ni have "init_logging X s = log_first_point X ?s1" by simp
          then show ?thesis by (rule that(3))
        next
          case lt: True
          show ?thesis
          proof (cases "PySequence_Check (log_times s)")
            case False
            with r ok sl ni lt have "init_logging X s =
              Inl (PyErr PyExc_TypeError '''log_times' must be a sequence type.'' [], ?s1)"
              by simp
            then show ?thesis by (rule that(1))
          next
            case sq: True
            show ?thesis
            proof (cases "first_log_time (seq_items (log_times s)) (t_g s) 0 (t_g s - 1)")
              case (Inl e)
              with r ok sl ni lt sq have "init_logging X s = Inl (e, ?s1)" by simp
              then show ?thesis by (rule that(1))
            next
              case (Inr il)
              obtain i tl0 where "il = (i, tl0)" by (cases il)
              with Inr r ok sl ni lt sq have "init_logging X s =
                Inr (?s1\<lparr>ilog := i, tlog := (if tl0 < t_g s then tmax s + 1 else tl0)\<rparr>)"
                by simp
              then show ?thesis by (rule that(2))
            qed
          qed
        qed
      qed
    qed
  qed
  then have "frame E ?s1 (st (init_logging X s))"
  proof cases
    case (a e)
    then show ?thesis by simp
  next
    case (b i tl)
    with E'(2,3) show ?thesis by simp
  next
    case c
    with lf show ?thesis by simp
  qed
  with u show ?thesis by blast
qed

lemma sim_init_keeps:
  assumes i: "initialized s0 = 0" and r: "sim_init X s0 a = (r, s)"
  shows "sens_list s = a_sens_list a" "state_py s = a_state a" "bound_py s = a_bound a"
    "tmin s = a_tmin a" "tmax s = a_tmax a" "log_interval s = a_log_interval a"
    "log_times s = a_log_times a" "s_state_py s = a_s_state a"
    and "r = None \<Longrightarrow> has_sensitivities (model s) = 0 \<and> is_ode (model s) = 1
           \<and> n_states (model s) = 8 \<and> tnext s \<le> tmax s \<and> initialized s = 1
           \<and> t_g s = a_tmin a \<and> zero_step_count s = 0 \<and> steps s = 0
           \<and> log_realtime s = a_log_realtime a"
proof -
  let ?s1 = "reset_counters (store_args s0 a)"
  let ?E = "dynamic_log_fields \<union> {F_ilog, F_tlog}"
  have s1: "sens_list ?s1 = a_sens_list a" "state_py ?s1 = a_state a" "bound_py ?s1 = a_bound a"
    "tmin ?s1 = a_tmin a" "tmax ?s1 = a_tmax a" "log_interval ?s1 = a_log_interval a"
    "log_times ?s1 = a_log_times a" "s_state_py ?s1 = a_s_state a" "initialized ?s1 = 1"
    "t_g ?s1 = a_tmin a" "zero_step_count ?s1 = 0" "steps ?s1 = 0"
    "log_realtime ?s1 = a_log_realtime a"
    by (simp_all add: reset_counters_def store_args_def Let_def)
  from i have "(sens_list s = a_sens_list a \<and> state_py s = a_state a \<and> bound_py s = a_bound a \<and>
    tmin s = a_tmin a \<and> tmax s = a_tmax a \<and> log_interval s = a_log_interval a \<and>
    log_times s = a_log_times a \<and> s_state_py s = a_s_state a) \<and>
    (r = None \<longrightarrow> has_sensitivities (model s) = 0 \<and> is_ode (model s) = 1
           \<and> n_states (model s) = 8 \<and> tnext s \<le> tmax s \<and> initialized s = 1
           \<and> t_g s = a_tmin a \<and> zero_step_count s = 0 \<and> steps s = 0
           \<and> log_realtime s = a_log_realtime a)"
  proof (cases rule: sim_init_cases [where X = X and a = a])
    case (no_model e w)
    with r have "r = Some e" "s = sim_clean (?s1\<lparr>world := w\<rparr>)" by simp_all
    with s1 show ?thesis by (simp add: sim_clean_def)
  next
    case (early e w junk x)
    note f = early(2)
    from r early(1) have "r = Some e" "s = sim_clean x" by simp_all
    moreover have "sens_list x = a_sens_list a" "state_py x = a_state a" "bound_py x = a_bound a"
      "tmin x = a_tmin a" "tmax x = a_tmax a" "log_interval x = a_log_interval a"
      "log_times x = a_log_times a" "s_state_py x = a_s_state a"
      using frame_sens_list [OF f] frame_state_py [OF f] frame_bound_py [OF f]
        frame_tmin [OF f] frame_tmax [OF f] frame_log_interval [OF f] frame_log_times [OF f]
        frame_s_state_py [OF f] s1
      by (simp_all add: init_fields_def)
    ultimately show ?thesis by (simp add: sim_clean_def)
  next
    case (logging w junk x)
    note f = logging(1)
    have x: "sens_list x = a_sens_list a" "state_py x = a_state a" "bound_py x = a_bound a"
      "tmin x = a_tmin a" "tmax x = a_tmax a" "log_interval x = a_log_interval a"
      "log_times x = a_log_times a" "s_state_py x = a_s_state a" "initialized x = 1"
      "t_g x = a_tmin a" "zero_step_count x = 0" "steps x = 0"
      "log_realtime x = a_log_realtime a"
      using frame_sens_list [OF f] frame_state_py [OF f] frame_bound_py [OF f]
        frame_tmin [OF f] frame_tmax [OF f] frame_log_interval [OF f] frame_log_times [OF f]
        frame_s_state_py [OF f] frame_initialized [OF f] frame_t_g [OF f]
        frame_zero_step_count [OF f] frame_steps [OF f] frame_log_realtime [OF f] s1
      by (simp_all add: init_fields_def)
    have k: "has_sensitivities (model x) = 0" "is_ode (model x) = 1" "n_states (model x) = 8"
      using staticD(1-3) [OF frame_static [OF f]] by simp_all
    have so: "sens_ok ?E x" using k by (simp add: sens_ok_def)
    from init_logging_frame [OF _ so, of X] obtain m' where
      u: "unlogged m' = unlogged (model x)"
      and g: "frame ?E (x\<lparr>model := m'\<rparr>) (st (init_logging X x))" by blast
    let ?y = "st (init_logging X x)"
    have y: "sens_list ?y = a_sens_list a" "state_py ?y = a_state a" "bound_py ?y = a_bound a"
      "tmin ?y = a_tmin a" "tmax ?y = a_tmax a" "log_interval ?y = a_log_interval a"
      "log_times ?y = a_log_times a" "s_state_py ?y = a_s_state a" "initialized ?y = 1"
      "t_g ?y = a_tmin a" "zero_step_count ?y = 0" "steps ?y = 0"
      "log_realtime ?y = a_log_realtime a" "tnext ?y = tnext x"
      using frame_sens_list [OF g] frame_state_py [OF g] frame_bound_py [OF g]
        frame_tmin [OF g] frame_tmax [OF g] frame_log_interval [OF g] frame_log_times [OF g]
        frame_s_state_py [OF g] frame_initialized [OF g] frame_t_g [OF g]
        frame_zero_step_count [OF g] frame_steps [OF g] frame_log_realtime [OF g]
        frame_tnext [OF g] x
      by (simp_all add: dynamic_log_fields_def)
    have ky: "has_sensitivities (model ?y) = 0" "is_ode (model ?y) = 1"
      "n_states (model ?y) = 8"
      using staticD(1-3) [OF frame_static [OF g]] unloggedD(1-3) [OF u] k by simp_all
    show ?thesis
    proof (cases "init_logging X x")
      case (Inl ey)
      obtain e y' where ey: "ey = (e, y')" by (cases ey)
      from Inl ey have sy: "st (init_logging X x) = y'" by simp
      from r logging(4) Inl ey have "r = Some e" "s = sim_clean y'" by simp_all
      with y [unfolded sy] show ?thesis by (simp add: sim_clean_def)
    next
      case (Inr y')
      then have sy: "st (init_logging X x) = y'" by simp
      from r logging(4) Inr have "r = None" "s = y'" by simp_all
      with y [unfolded sy] ky [unfolded sy] logging(2) x(5) show ?thesis by simp
    qed
  qed
  then show "sens_list s = a_sens_list a" "state_py s = a_state a" "bound_py s = a_bound a"
    "tmin s = a_tmin a" "tmax s = a_tmax a" "log_interval s = a_log_interval a"
    "log_times s = a_log_times a" "s_state_py s = a_s_state a"
    and "r = None \<Longrightarrow> has_sensitivities (model s) = 0 \<and> is_ode (model s) = 1
           \<and> n_states (model s) = 8 \<and> tnext s \<le> tmax s \<and> initialized s = 1
           \<and> t_g s = a_tmin a \<and> zero_step_count s = 0 \<and> steps s = 0
           \<and> log_realtime s = a_log_realtime a"
    by simp_all
qed

subsection \<open>The time at the end of a pass\<close>

lemma take_step_nonode:
  "take_step X s = Inr (fl, s1) \<Longrightarrow> is_ode (model s) = 0 \<Longrightarrow> t_g s1 \<le> tmax s1"
  by (auto simp: take_step_def)

lemma rewind_or_root_time:
  assumes "rewind_or_root X fl fr s = Inr (fr', s')"
    and "has_sensitivities (model s) = 0"
    and "is_ode (model s) \<noteq> 0 \<or> t_g s \<le> tmax s"
    and "tnext s \<le> tmax s"
  shows "t_g s' \<le> tmax s' \<and> tnext s' = tnext s \<and> tmax s' = tmax s"
proof -
  note f = rewind_or_root_frame [of s X fl fr]
  from f assms(1) have k: "tnext s' = tnext s" "tmax s' = tmax s"
    using frame_tnext [of _ s s'] frame_tmax [of _ s s'] by simp_all
  have "t_g s' \<le> tmax s"
  proof (cases "is_ode (model s) \<noteq> 0")
    case False
    with assms(1,3) show ?thesis by (simp add: rewind_or_root_def)
  next
    case True
    show ?thesis
    proof (cases "t_g s > tnext s")
      case True
      with \<open>is_ode (model s) \<noteq> 0\<close> assms(1,2,4) show ?thesis
        by (auto simp: rewind_or_root_def rewind_def bind_ok_def Let_def
            split: prod.splits option.splits)
    next
      case False
      have "frame {F_rf_direction, F_rf_list} x (st (found_root X x))" for x
        by (rule found_root_frame)
      then have "found_root X x = Inr y \<Longrightarrow> t_g y = t_g x" for x y
        using frame_t_g [of "{F_rf_direction, F_rf_list}" x y] by (metis (no_types) insert_iff
            empty_iff field.distinct st_simps(2))
      with \<open>is_ode (model s) \<noteq> 0\<close> False assms(1,2,4) show ?thesis
        by (auto simp: rewind_or_root_def bind_ok_def split: if_splits sum.splits)
    qed
  qed
  with k show ?thesis by simp
qed


lemma advance_pacing_tnext: "advance_pacing X is s = Inr s' \<Longrightarrow> tnext s' \<le> tnext s"
proof (induction "is" arbitrary: s)
  case Nil
  then show ?case by simp
next
  case (Cons i rest)
  show ?case
  proof (cases "pacing_types s ! i = EVENT")
    case False
    with Cons show ?thesis by simp
  next
    case True
    obtain fl w where a: "ESys_AdvanceTime X (world s) i (t_g s) = (fl, w)"
      by (cases "ESys_AdvanceTime X (world s) i (t_g s)")
    let ?s2 = "s\<lparr>world := w, tnext := min (tnext s) (ESys_GetNextTime X w i),
                  pacing := (pacing s)[i := ESys_GetLevel X w i]\<rparr>"
    from Cons.prems True a have "fl = ESys_OK" "advance_pacing X rest ?s2 = Inr s'"
      by (auto simp: Let_def split: if_splits)
    from Cons.IH [OF this(2)] show ?thesis by simp
  qed
qed

lemma update_pacing_time:
  assumes "update_pacing X s = Inr s'"
  shows "tnext s' \<le> tmax s' \<and> tmax s' = tmax s \<and> t_g s' = t_g s"
proof -
  from update_pacing_frame [of s X] assms have f: "frame {F_world, F_tnext, F_pacing} s s'"
    by simp
  from assms have "tnext s' \<le> tmax s"
    using advance_pacing_tnext [of X _ "s\<lparr>tnext := tmax s\<rparr>" s']
    by (simp add: update_pacing_def)
  with frame_tmax [OF f] frame_t_g [OF f] show ?thesis by simp
qed

lemma step_block_time:
  assumes b: "step_block X fl fr s = Some (Inr (fr', s'))"
    and hs: "has_sensitivities (model s) = 0"
    and t: "is_ode (model s) \<noteq> 0 \<or> t_g s \<le> tmax s"
    and n: "tnext s \<le> tmax s"
  shows "t_g s' \<le> tmax s' \<and> tnext s' \<le> tmax s' \<and> tmax s' = tmax s"
proof -
  let ?E = "log_point_fields \<union> dynamic_log_fields"
  have so: "sens_ok ?E x" if "has_sensitivities (model x) = 0" for x :: "'a sim"
    using that by (simp add: sens_ok_def)
  from b obtain fr1 s2 where 1: "rewind_or_root X fl fr s = Inr (fr1, s2)"
    by (auto simp: step_block_def split: sum.splits)
  from b 1 obtain s3 where 2: "interpolation_logging X s2 = Some (Inr s3)"
    by (auto simp: step_block_def split: option.splits sum.splits)
  from b 1 2 obtain s4 where 3: "update_pacing X s3 = Inr s4"
    by (auto simp: step_block_def bind_ok_Inr)
  from b 1 2 3 obtain s5 where 4: "dynamic_log X s4 = Inr s5"
    by (cases "dynamic_log X s4") (auto simp: step_block_def bind_ok_def)
  from b 1 2 3 4 have 5: "reinit X fr1 s5 = Inr (fr', s')"
    by (simp add: step_block_def bind_ok_def)
  note r = rewind_or_root_time [OF 1 hs t n]
  have h2: "has_sensitivities (model s2) = 0"
    using staticD(2) [OF frame_static [OF rewind_or_root_frame [of s X fl fr]]] 1 hs by simp
  have f3: "frame ?E s2 s3"
    using interpolation_logging_frame [OF 2 _ so [OF h2]] by simp
  have k3: "t_g s3 = t_g s2" "tmax s3 = tmax s2" "has_sensitivities (model s3) = 0"
    using frame_t_g [OF f3] frame_tmax [OF f3] staticD(2) [OF frame_static [OF f3]] h2
    by (simp_all add: log_point_fields_def dynamic_log_fields_def)
  note u = update_pacing_time [OF 3]
  have h4: "has_sensitivities (model s4) = 0"
    using staticD(2) [OF frame_static [OF update_pacing_frame [of s3 X]]] 3 k3 by simp
  have f5: "frame ?E s4 s5"
    using dynamic_log_frame [OF _ so [OF h4], of X] 4 by simp
  have k5: "t_g s5 = t_g s4" "tmax s5 = tmax s4" "tnext s5 = tnext s4"
    using frame_t_g [OF f5] frame_tmax [OF f5] frame_tnext [OF f5]
    by (simp_all add: log_point_fields_def dynamic_log_fields_def)
  have f6: "frame {F_world} s5 s'" using reinit_frame [of s5 X fr1] 5 by simp
  have k6: "t_g s' = t_g s5" "tmax s' = tmax s5" "tnext s' = tnext s5"
    using frame_t_g [OF f6] frame_tmax [OF f6] frame_tnext [OF f6] by simp_all
  from r k3 u k5 k6 show ?thesis by simp
qed

lemma body_time:
  assumes b: "sim_step_body X fr s = Some (Inr (le, fr', s'))"
    and doc: "cvode_flags_documented X"
    and hs: "has_sensitivities (model s) = 0"
    and n: "tnext s \<le> tmax s"
  shows "tnext s' \<le> tmax s' \<and> tmax s' = tmax s \<and> has_sensitivities (model s') = 0 \<and>
         (le = Break \<longrightarrow> t_g s' = tmax s)"
proof -
  from sim_step_body_Inr [OF b] obtain fl s2 fr2 s4 where
    sb: "step_begin X s = Inr (fl, s2)"
    and bl: "(if fl = CV_SUCCESS \<or> fl = CV_ROOT_RETURN then step_block X fl fr s2
              else Some (Inr (fr, s2))) = Some (Inr (fr2, s4))"
    and se: "step_end X fr2 s4 = Inr (le, fr', s')" by blast
  from sb obtain s1 where ts: "take_step X (backup s) = Inr (fl, s1)"
    and s2: "s2 = s1\<lparr>zero_step_count := zero_step_count s2, steps := steps s2\<rparr>"
    by (auto simp: step_begin_def bind_ok_Inr check_progress_def Let_def
        split: prod.splits if_splits)
  have f1: "frame step_fields (backup s) s1" by (rule take_step_frame [OF ts])
  have k1: "tnext s1 = tnext s" "tmax s1 = tmax s" "has_sensitivities (model s1) = 0"
    "is_ode (model s1) = is_ode (model s)"
    using frame_tnext [OF f1] frame_tmax [OF f1] staticD(1,2) [OF frame_static [OF f1]] hs
    by (simp_all add: step_fields_def backup_def)
  have t1: "is_ode (model s1) \<noteq> 0 \<or> t_g s1 \<le> tmax s1"
    using take_step_nonode [OF ts] k1 by (auto simp: backup_def)
  have k2: "tnext s2 = tnext s" "tmax s2 = tmax s" "has_sensitivities (model s2) = 0"
    "is_ode (model s2) \<noteq> 0 \<or> t_g s2 \<le> tmax s2"
    using k1 t1 by (subst s2, simp)+
  from take_step_documented [OF ts doc] bl
  have bl': "step_block X fl fr s2 = Some (Inr (fr2, s4))" by auto
  from step_block_time [OF bl' k2(3,4)] k2 n
  have k4: "t_g s4 \<le> tmax s4" "tnext s4 \<le> tmax s4" "tmax s4 = tmax s" by simp_all
  have "frame (block_fields \<union> {F_sens_list}) s2 (st2 (Inr (fr2, s4)))"
    using k2(3) by (intro step_block_frame [OF bl']) (auto simp: sens_ok_def)
  then have h4: "has_sensitivities (model s4) = 0"
    using staticD(2) [OF frame_static, of _ s2 s4] k2(3) by simp
  have f5: "frame {F_t_g, F_world} s4 s'"
    using step_end_frame [of s4 X fr2] se by simp
  have k5: "tnext s' = tnext s4" "tmax s' = tmax s4" "has_sensitivities (model s') = 0"
    using frame_tnext [OF f5] frame_tmax [OF f5] staticD(2) [OF frame_static [OF f5]] h4
    by simp_all
  have "le = Break \<Longrightarrow> t_g s' = tmax s"
    using step_end_Break(2) [of X fr2 s4 fr' s'] se k4 by simp
  with k4 k5 show ?thesis by simp
qed

lemma sim_step_loop_time:
  assumes r: "sim_step_loop X 0 fr s = Some (ex, s')"
    and doc: "cvode_flags_documented X"
    and hs: "has_sensitivities (model s) = 0"
    and n: "tnext s \<le> tmax s"
  shows "case ex of
           Finished \<Rightarrow> t_g s' = tmax s
         | Yielded tt \<Rightarrow> tt = t_g s' \<and> t_g s' < tmax s \<and> tnext s' \<le> tmax s' \<and> tmax s' = tmax s
                          \<and> has_sensitivities (model s') = 0
         | Failed e \<Rightarrow> True"
proof (rule sim_step_loop_rule [OF r,
      where I = "\<lambda>k s1. tnext s1 \<le> tmax s1 \<and> tmax s1 = tmax s \<and> has_sensitivities (model s1) = 0"
        and Q = "\<lambda>ex s'. case ex of
           Finished \<Rightarrow> t_g s' = tmax s
         | Yielded tt \<Rightarrow> tt = t_g s' \<and> t_g s' < tmax s \<and> tnext s' \<le> tmax s' \<and> tmax s' = tmax s
                          \<and> has_sensitivities (model s') = 0
         | Failed e \<Rightarrow> True"])
  show "tnext s \<le> tmax s \<and> tmax s = tmax s \<and> has_sensitivities (model s) = 0"
    using hs n by simp
next
  fix k fr s0 fr' s1
  assume i: "tnext s0 \<le> tmax s0 \<and> tmax s0 = tmax s \<and> has_sensitivities (model s0) = 0"
    and b: "sim_step_body X fr s0 = Some (Inr (Continue, fr', s1))"
  from i have hs0: "has_sensitivities (model s0) = 0" and n0: "tnext s0 \<le> tmax s0" by simp_all
  note bt = body_time [OF b doc hs0 n0]
  from bt i show "tnext s1 \<le> tmax s1 \<and> tmax s1 = tmax s \<and> has_sensitivities (model s1) = 0"
    by simp
  from bt i body_exit(1) [OF b]
  show "case Yielded (t_g s1) of
           Finished \<Rightarrow> t_g s1 = tmax s
         | Yielded tt \<Rightarrow> tt = t_g s1 \<and> t_g s1 < tmax s \<and> tnext s1 \<le> tmax s1 \<and> tmax s1 = tmax s
                          \<and> has_sensitivities (model s1) = 0
         | Failed e \<Rightarrow> True" by simp
next
  fix k fr s0 fr' s1
  assume i: "tnext s0 \<le> tmax s0 \<and> tmax s0 = tmax s \<and> has_sensitivities (model s0) = 0"
    and b: "sim_step_body X fr s0 = Some (Inr (Break, fr', s1))"
  from i have hs0: "has_sensitivities (model s0) = 0" and n0: "tnext s0 \<le> tmax s0" by simp_all
  from body_time [OF b doc hs0 n0] i
  show "case Finished of
           Finished \<Rightarrow> t_g s1 = tmax s
         | Yielded tt \<Rightarrow> tt = t_g s1 \<and> t_g s1 < tmax s \<and> tnext s1 \<le> tmax s1 \<and> tmax s1 = tmax s
                          \<and> has_sensitivities (model s1) = 0
         | Failed e \<Rightarrow> True" by simp
next
  fix k fr s0 e s1
  show "case Failed e of
           Finished \<Rightarrow> t_g s1 = tmax s
         | Yielded tt \<Rightarrow> tt = t_g s1 \<and> t_g s1 < tmax s \<and> tnext s1 \<le> tmax s1 \<and> tmax s1 = tmax s
                          \<and> has_sensitivities (model s1) = 0
         | Failed e \<Rightarrow> True" by simp
qed

lemma sim_step_time:
  assumes r: "sim_step X s = Some (Inr tt, s')"
    and doc: "cvode_flags_documented X"
    and hs: "has_sensitivities (model s) = 0"
    and n: "tnext s \<le> tmax s"
  shows "tt \<le> tmax s \<and>
         (tt < tmax s \<longrightarrow> has_sensitivities (model s') = 0 \<and> tnext s' \<le> tmax s'
            \<and> tmax s' = tmax s)"
proof -
  from r have i: "initialized s \<noteq> 0" by (auto simp: sim_step_def split: if_splits)
  from r i obtain s1 where sr: "start_realtime X s = Inr s1"
    by (cases "start_realtime X s") (auto simp: sim_step_def)
  from start_realtime_frame [of s X] sr have f: "frame {F_world, F_realtime_start} s s1" by simp
  have k1: "tnext s1 \<le> tmax s1" "tmax s1 = tmax s" "has_sensitivities (model s1) = 0"
    using frame_tnext [OF f] frame_tmax [OF f] staticD(2) [OF frame_static [OF f]] hs n
    by simp_all
  from r i sr obtain ex s2 where l: "sim_step_loop X 0 0 s1 = Some (ex, s2)"
    by (auto simp: sim_step_def split: option.splits)
  note lt = sim_step_loop_time [OF l doc k1(3,1)]
  show ?thesis
  proof (cases ex)
    case Finished
    with r i sr l have "tt = t_g s2" by (simp add: sim_step_def Let_def write_final_outputs_def)
    with lt Finished k1 show ?thesis by simp
  next
    case (Yielded t')
    with r i sr l have "tt = t'" "s' = s2" by (simp_all add: sim_step_def)
    with lt Yielded k1 show ?thesis by simp
  next
    case (Failed e)
    with r i sr l show ?thesis by (simp add: sim_step_def)
  qed
qed

lemma run_time:
  assumes "run X n s = Some (Inr tt, s')"
    and doc: "cvode_flags_documented X"
    and "has_sensitivities (model s) = 0"
    and "tnext s \<le> tmax s"
  shows "tt = tmax s"
  using assms(1,3,4)
proof (induction n arbitrary: s)
  case 0
  then show ?case by simp
next
  case (Suc n)
  from Suc.prems(1) obtain r1 s1 where 1: "sim_step X s = Some (r1, s1)"
    by (cases "sim_step X s") auto
  show ?case
  proof (cases r1)
    case (Inl e)
    with Suc.prems(1) 1 show ?thesis by simp
  next
    case (Inr t1)
    with 1 have 2: "sim_step X s = Some (Inr t1, s1)" by simp
    note st = sim_step_time [OF 2 doc Suc.prems(2,3)]
    show ?thesis
    proof (cases "t1 < tmax s")
      case True
      with Suc.prems(1) 2 have "run X n s1 = Some (Inr tt, s')" by simp
      from Suc.IH [OF this] st True show ?thesis by simp
    next
      case False
      with Suc.prems(1) 2 have "tt = t1" by simp
      with st False show ?thesis by simp
    qed
  qed
qed

subsection \<open>The model evaluators\<close>

text \<open>
  Claim C9. For every model, \<^verbatim>\<open>Model_EvaluateDerivatives\<close> writes the arrays \<^verbatim>\<open>intermediary\<close>
  and \<^verbatim>\<open>derivatives\<close> only: the model it leaves is the model it was given with these two
  arrays replaced, so the states, the bound variables, the literals, the parameters,
  the derived constants and the sensitivity arrays are as before the call.
\<close>

theorem Model_EvaluateDerivatives_frame:
  "Model_EvaluateDerivatives m =
     m\<lparr>intermediary := intermediary (Model_EvaluateDerivatives m),
       derivatives := derivatives (Model_EvaluateDerivatives m)\<rparr>"
proof -
  have "Model_EvaluateDerivatives m =
          (Model_EvaluateDerivatives m)
             \<lparr>intermediary := intermediary (Model_EvaluateDerivatives m),
              derivatives := derivatives (Model_EvaluateDerivatives m)\<rparr>"
    by simp
  then show ?thesis
    by (simp only: Model_EvaluateDerivatives_update)
qed

subsection \<open>Evaluating the derivatives\<close>

text \<open>
  Claim C7. \<^verbatim>\<open>eval_derivatives\<close> reads the module-level variable \<^verbatim>\<open>n_pace\<close>, which the last
  \<^verbatim>\<open>init\<close> of the process has set: it is not stateless. Two calls with the same
  arguments (one pacing value, the eight states, the seventeen literals, no parameters)
  differ: in a process whose \<^verbatim>\<open>n_pace\<close> is \<open>1\<close> the call succeeds and writes the derivatives
  into the list of the host; in a process whose \<^verbatim>\<open>n_pace\<close> is \<open>2\<close> the call reads the
  pacing value of index \<open>1\<close>, for which \<^verbatim>\<open>PyList_GetItem\<close> returns \<^verbatim>\<open>NULL\<close>, and
  \<^verbatim>\<open>PyFloat_Check\<close> dereferences it; the list of the host is not written.
\<close>

theorem eval_derivatives_reads_n_pace:
  "fst (sim_eval_derivatives (X0 1) (s_boot\<lparr>n_pace_g := 1\<rparr>) 0 pace1 state8 deriv8 lits17
          (PyList [])) = None \<and>
   snd (sim_eval_derivatives (X0 1) (s_boot\<lparr>n_pace_g := 1\<rparr>) 0 pace1 state8 deriv8 lits17
          (PyList [])) \<noteq> deriv8 \<and>
   sim_eval_derivatives (X0 1) (s_boot\<lparr>n_pace_g := 2\<rparr>) 0 pace1 state8 deriv8 lits17
     (PyList []) = (Some Segfault, deriv8)"
proof -
  have "\<exists>d. sim_eval_derivatives (X0 1) (s_boot\<lparr>n_pace_g := 1\<rparr>) 0 pace1 state8 deriv8 lits17
               (PyList []) = (None, set_floats deriv8 0 d 8)"
    unfolding pace1_def state8_def deriv8_def lits17_def
    by (rule sim_eval_derivatives_ok) (simp_all add: X0_def s_boot_def nth_Cons' less_Suc_eq)
  then obtain d where d: "sim_eval_derivatives (X0 1) (s_boot\<lparr>n_pace_g := 1\<rparr>) 0 pace1 state8
      deriv8 lits17 (PyList []) = (None, set_floats deriv8 0 d 8)"
    by blast
  obtain zs where zs: "set_floats deriv8 0 d 8 = PyList zs" "zs ! 0 = PyFloat (d ! 0)"
    using set_floats_list [of "replicate 8 PyNone" 0 d 8] by (auto simp: deriv8_def)
  have ne: "set_floats deriv8 0 d 8 \<noteq> deriv8"
  proof
    assume "set_floats deriv8 0 d 8 = deriv8"
    with zs have "zs = replicate 8 PyNone" by (simp add: deriv8_def)
    with zs(2) show False by simp
  qed
  have "sim_eval_derivatives (X0 1) (s_boot\<lparr>n_pace_g := 2\<rparr>) 0 pace1 state8 deriv8 lits17
          (PyList []) = (Some Segfault, deriv8)"
    by (simp add: sim_eval_derivatives_def pace1_def state8_def deriv8_def lits17_def X0_def
        s_boot_def Model_Create_True Model_SetupPacing_def new_array_def fresh_array_def
        PyList_GetItem_def upt_conv_Cons)
  with d ne show ?thesis by simp
qed

subsection \<open>The counter of zero-length steps\<close>

text \<open>
  Claim C4. In a pass of the step loop whose integrator step succeeded, the counter of
  zero-length steps is incremented if the time \<^verbatim>\<open>t\<close> after the step equals the time
  \<^verbatim>\<open>tlast\<close> before it, and reset to zero otherwise; the pass ends in the error of the
  zero-step limit exactly when the time did not move and the counter reaches \<open>500\<close>.
\<close>

theorem zero_step_counter:
  assumes "take_step X (backup s) = Inr (fl, s1)"
    and "sim_step_body X fr s = Some r"
    and "zero_step_count s < max_zero_step_count"
  shows "tlast s1 = t_g s \<and>
         zero_step_count (st3 r) = (if t_g s1 = tlast s1 then zero_step_count s + 1 else 0) \<and>
         ((\<exists>t s'. r = Inl (zero_step_error t, s')) \<longleftrightarrow>
            t_g s1 = tlast s1 \<and> zero_step_count s + 1 = max_zero_step_count)"
proof -
  have f: "frame step_fields (backup s) s1" by (rule take_step_frame [OF assms(1)])
  have b: "tlast s1 = t_g s"
    using frame_tlast [OF f] by (simp add: step_fields_def backup_def)
  let ?E = "block_fields \<union> {F_sens_list}"
  from assms(2) have "zero_step_count (st3 r) = (if t_g s1 = t_g s then zero_step_count s + 1 else 0) \<and>
         ((\<exists>t s'. r = Inl (zero_step_error t, s')) \<longleftrightarrow>
            t_g s1 = t_g s \<and> zero_step_count s + 1 = 500)"
  proof (cases rule: sim_step_body_cases)
    case (cvode e s')
    with assms(1) show ?thesis by simp
  next
    case (zero fl' s1')
    with assms(1) have "s1' = s1" by simp
    with zero assms(3) show ?thesis by (auto simp: max_zero_step_count_def)
  next
    case (late fl' s1' s2)
    with assms(1) have s1': "s1' = s1" by simp
    have "block_fields \<subseteq> ?E" by blast
    moreover have "sens_ok ?E s2" by (simp add: sens_ok_def)
    ultimately have "frame ?E s2 (st3 r)" using late(6) by blast
    from frame_zero_step_count [OF this]
    have "zero_step_count (st3 r) = zero_step_count s2" by (simp add: block_fields_def)
    moreover have "\<not> (\<exists>t s'. r = Inl (zero_step_error t, s'))"
      using late(5) by auto
    ultimately show ?thesis using late(2,3) s1' by auto
  qed
  with b show ?thesis by (simp add: max_zero_step_count_def)
qed

theorem zero_step_counter_witness:
  "\<exists>fl s1 r. take_step (X0 0) (backup s_stalled) = Inr (fl, s1) \<and>
     sim_step_body (X0 0) 0 s_stalled = Some r \<and>
     zero_step_count s_stalled < max_zero_step_count \<and>
     t_g s1 = tlast s1 \<and> zero_step_count (st3 r) = 500 \<and>
     (\<exists>t s'. r = Inl (zero_step_error t, s'))"
proof -
  from init0 [of 0] obtain m where m: "sim_init (X0 0) s_boot args0 = (None, s_run m)"
    and tl: "time_logged m" by blast
  have s: "s_stalled = (s_run m)\<lparr>zero_step_count := 499\<rparr>" by (simp add: s_stalled_def m)
  let ?s1 = "(backup s_stalled)\<lparr>y_g := y_g s_stalled, t_g := t_g s_stalled + 0\<rparr>"
  have a: "take_step (X0 0) (backup s_stalled) = Inr (0, ?s1)"
    by (simp add: take_step_def s backup_def s_run_def s_boot_def time_loggedD [OF tl]
        check_cvode_flag_def)
  have t: "t_g ?s1 = tlast ?s1" by (simp add: backup_def)
  obtain r where r: "sim_step_body (X0 0) 0 s_stalled = Some r"
    unfolding sim_step_body_def step_begin_def a
    by (simp add: bind_ok_def check_progress_def max_zero_step_count_def backup_def s
        s_run_def s_boot_def)
  have c: "zero_step_count s_stalled < max_zero_step_count"
    by (simp add: s max_zero_step_count_def s_run_def s_boot_def)
  have z: "zero_step_count s_stalled + 1 = 500" by (simp add: s s_run_def s_boot_def)
  from zero_step_counter [OF a r c] t z a r c show ?thesis
    by (simp add: max_zero_step_count_def)
qed

subsection \<open>One hundred steps for each call\<close>

lemma sim_step_loop_steps:
  assumes r: "sim_step_loop X 0 fr s = Some (ex, s')"
  shows "steps s' \<le> steps s + 100 \<and>
         (case ex of
            Yielded tt \<Rightarrow> tt = t_g s' \<and> t_g s' < tmax s' \<and> steps s' = steps s + 100
          | Finished \<Rightarrow> tmax s' \<le> t_g s'
          | Failed e \<Rightarrow> True)"
proof (rule sim_step_loop_rule [OF r,
      where I = "\<lambda>k s1. 0 \<le> k \<and> k < 100 \<and> steps s1 = steps s + k"
        and Q = "\<lambda>ex s'. steps s' \<le> steps s + 100 \<and>
         (case ex of
            Yielded tt \<Rightarrow> tt = t_g s' \<and> t_g s' < tmax s' \<and> steps s' = steps s + 100
          | Finished \<Rightarrow> tmax s' \<le> t_g s'
          | Failed e \<Rightarrow> True)"])
  show "0 \<le> (0::int) \<and> (0::int) < 100 \<and> steps s = steps s + 0" by simp
next
  fix k fr s0 fr' s1
  assume i: "0 \<le> k \<and> k < 100 \<and> steps s0 = steps s + k"
    and b: "sim_step_body X fr s0 = Some (Inr (Continue, fr', s1))"
  from body_steps(2) [OF b] have n: "steps s1 = steps s0 + 1" by simp
  {
    assume "k + 1 < 100"
    with i n show "0 \<le> k + 1 \<and> k + 1 < 100 \<and> steps s1 = steps s + (k + 1)" by simp
  }
  {
    assume "100 \<le> k + 1"
    with i have "k = 99" by simp
    with i n body_exit(1) [OF b]
    show "steps s1 \<le> steps s + 100 \<and>
         (case Yielded (t_g s1) of
            Yielded tt \<Rightarrow> tt = t_g s1 \<and> t_g s1 < tmax s1 \<and> steps s1 = steps s + 100
          | Finished \<Rightarrow> tmax s1 \<le> t_g s1
          | Failed e \<Rightarrow> True)" by simp
  }
next
  fix k fr s0 fr' s1
  assume i: "0 \<le> k \<and> k < 100 \<and> steps s0 = steps s + k"
    and b: "sim_step_body X fr s0 = Some (Inr (Break, fr', s1))"
  from body_steps(2) [OF b] have n: "steps s1 = steps s0 + 1" by simp
  with i body_exit(2) [OF b]
  show "steps s1 \<le> steps s + 100 \<and>
         (case Finished of
            Yielded tt \<Rightarrow> tt = t_g s1 \<and> t_g s1 < tmax s1 \<and> steps s1 = steps s + 100
          | Finished \<Rightarrow> tmax s1 \<le> t_g s1
          | Failed e \<Rightarrow> True)" by simp
next
  fix k fr s0 e s1
  assume i: "0 \<le> k \<and> k < 100 \<and> steps s0 = steps s + k"
    and b: "sim_step_body X fr s0 = Some (Inl (e, s1))"
  from body_steps(1) [OF b] have n: "steps s1 \<le> steps s0 + 1" by simp
  with i
  show "steps s1 \<le> steps s + 100 \<and>
         (case Failed e of
            Yielded tt \<Rightarrow> tt = t_g s1 \<and> t_g s1 < tmax s1 \<and> steps s1 = steps s + 100
          | Finished \<Rightarrow> tmax s1 \<le> t_g s1
          | Failed e \<Rightarrow> True)" by simp
qed



subsection \<open>The output lists when a call fails\<close>

lemma body_failure:
  assumes b: "sim_step_body X fr s0 = Some (Inl (e, s1))"
    and E: "body_fields \<subseteq> E" and so: "sens_ok E s0"
  shows "(cvode_step_failure e \<longrightarrow> (\<exists>s2. frame E s0 s2 \<and> s1 = write_error_outputs s2)) \<and>
         (\<not> cvode_step_failure e \<longrightarrow> frame E s0 s1)"
proof (cases "cvode_step_failure e")
  case False
  with body_frame_late [OF b E so] have "frame E s0 s1" by simp
  with False show ?thesis by simp
next
  case True
  from b show ?thesis
  proof (cases rule: sim_step_body_cases)
    case (cvode e' s2)
    have 1: "frame E s0 (backup s0)"
      using E by (intro frame_mono [OF backup_frame]) (simp add: body_fields_def)
    have 2: "frame E (backup s0) s2"
      using E by (intro frame_mono [OF cvode(3)]) (auto simp: body_fields_def step_fields_def)
    have "frame E s0 s2" by (rule frame_trans' [OF 1 2])
    moreover from cvode(1) have "s1 = write_error_outputs s2" by simp
    ultimately show ?thesis using True by blast
  next
    case (zero fl s2)
    then have "e = zero_step_error (t_g s2)" by simp
    with True show ?thesis by simp
  next
    case (late fl s2 s3)
    from late(5) have "late_error e" by simp
    with True show ?thesis by (simp add: late_error_def)
  qed
qed

lemma sim_step_loop_failure:
  assumes r: "sim_step_loop X 0 fr s = Some (Failed e, s')"
    and E: "body_fields \<subseteq> E" and so: "sens_ok E s"
  shows "(cvode_step_failure e \<longrightarrow> (\<exists>s2. frame E s s2 \<and> s' = write_error_outputs s2)) \<and>
         (\<not> cvode_step_failure e \<longrightarrow> frame E s s')"
proof -
  let ?Q = "\<lambda>ex s1. \<forall>e. ex = Failed e \<longrightarrow>
            (cvode_step_failure e \<longrightarrow> (\<exists>s2. frame E s s2 \<and> s1 = write_error_outputs s2)) \<and>
            (\<not> cvode_step_failure e \<longrightarrow> frame E s s1)"
  have "?Q (Failed e) s'"
  proof (rule sim_step_loop_rule [OF r, where I = "\<lambda>k s1. frame E s s1" and Q = ?Q])
    show "frame E s s" by simp
  next
    fix k fr s0 fr' s1
    assume f: "frame E s s0" and b: "sim_step_body X fr s0 = Some (Inr (Continue, fr', s1))"
    from body_frame_late [OF b E sens_ok_frame [OF so f]] have "frame E s0 s1" by simp
    with f show "frame E s s1" by (rule frame_trans')
    show "?Q (Yielded (t_g s1)) s1" by simp
  next
    fix k fr s0 fr' s1
    show "?Q Finished s1" by simp
  next
    fix k fr s0 e s1
    assume f: "frame E s s0" and b: "sim_step_body X fr s0 = Some (Inl (e, s1))"
    note bf = body_failure [OF b E sens_ok_frame [OF so f]]
    show "?Q (Failed e) s1"
    proof (intro allI impI conjI)
      fix e' assume "Failed e = Failed e'" "cvode_step_failure e'"
      with bf obtain s2 where "frame E s0 s2" "s1 = write_error_outputs s2" by auto
      with frame_trans' [OF f] show "\<exists>s2. frame E s s2 \<and> s1 = write_error_outputs s2" by blast
    next
      fix e' assume "Failed e = Failed e'" "\<not> cvode_step_failure e'"
      with bf have "frame E s0 s1" by simp
      with f show "frame E s s1" by (rule frame_trans')
    qed
  qed
  then show ?thesis by simp
qed


lemma start_realtime_late: "start_realtime X s = Inl (e, s') \<Longrightarrow> late_error e"
  by (auto simp: start_realtime_def Let_def late_error_PyErr split: prod.splits if_splits)

lemma sim_clean_simps [simp]:
  "initialized (sim_clean s) = 0" "state_py (sim_clean s) = state_py s"
  "bound_py (sim_clean s) = bound_py s" "ylast (sim_clean s) = ylast s"
  "tlast (sim_clean s) = tlast s" "model (sim_clean s) = model s"
  "set_bound (sim_clean s) tt = set_bound s tt"
  by (simp_all add: sim_clean_def set_bound_def)




end
